theory Spec2Isabelle
  imports Complex_Main
begin

section \<open>The sequential EP update of \<open>FactorizedEPDriver\<close>\<close>

text \<open>
  This theory embeds \<^verbatim>\<open>FactorizedEPDriver::sequentialUpdate\<close>
  (\<^verbatim>\<open>src/eptools/FactorizedEPDriver.h\<close>, lines 270-481) and proves properties
  of it. Conventions of the embedding:
  \<^item> a C++ \<^verbatim>\<open>double\<close> is a \<^typ>\<open>real\<close>: arithmetic is exact, there
    is no rounding, no NaN and no infinity (a division by zero, which the source turns into
    an infinity or a NaN, is \<open>0\<close> in HOL); the subsection on double arithmetic
    embeds the update a second time, with every operation rounded to double;
  \<^item> every array is a list; a read is \<open>xs ! i\<close> and a write is \<open>xs[i := v]\<close>.
    The source does not check an index, so a read out of range has no specified value here
    either; theorems that depend on indices being in range say so in a hypothesis;
  \<^item> the driver object is a record passed in and returned;
  \<^item> the exception thrown at entry and the failed entry assertion are values of the type
    \<open>exn\<close>, on the left of a sum;
  \<^item> the out-pointers \<^verbatim>\<open>delta\<close> and \<^verbatim>\<open>effDamp\<close> are two flags (is the
    pointer non-null) and two optional results (\<open>Some v\<close> when the call stored
    \<open>v\<close> through the pointer);
  \<^item> each \<^verbatim>\<open>for\<close> loop is a primitive recursion on the number of iterations
    done, an early \<^verbatim>\<open>return\<close> being the left injection that later iterations
    pass on;
  \<^item> the debugging output (\<^verbatim>\<open>sprintf\<close>, \<^verbatim>\<open>printMsgStdout\<close>) is left out.
\<close>

subsection \<open>Return status\<close>

definition updSuccess :: int where "updSuccess = 0"
definition updCavityInvalid :: int where "updCavityInvalid = 1"
definition updNumericalError :: int where "updNumericalError = 2"
definition updMarginalsInvalid :: int where "updMarginalsInvalid = 3"
definition updCavCondSkipped :: int where "updCavCondSkipped = 4"

datatype exn = InvalidParameterException | AssertionFailed

subsection \<open>The collaborators of the driver\<close>

datatype argumentGroup = atypeUnivariate | atypeBivarPrec

text \<open>
  Modelled from the spec: the potential classes (\<^verbatim>\<open>PotentialManager\<close>,
  \<^verbatim>\<open>EPScalarPotential\<close>) are not among the sources. A potential is what the
  driver uses of it: its argument group, and \<^verbatim>\<open>compMoments(inp,ret)\<close>, which
  fails (\<open>None\<close>) or fills \<^verbatim>\<open>ret\<close> (\<open>Some ret\<close>). The input is
  \<open>[cH, cRho]\<close>, followed by \<open>[cA, cC]\<close> for a bivariate precision potential;
  the result is read at the positions 0 and 1 (\<open>alpha\<close>, \<open>nu\<close>) and, for a
  bivariate precision potential, 2 and 3 (\<open>hatA\<close>, \<open>hatC\<close>).
\<close>

record potential =
  getArgumentGroup :: argumentGroup
  compMoments :: "real list \<Rightarrow> real list option"

text \<open>
  Modelled from the spec: \<^verbatim>\<open>FactorizedEPRepresentation\<close> is not among the
  sources. Following the spec's description of its serialized form, the rows of \<open>B\<close>
  and the message parameters are flat arrays, the rows of the factors one after the other:
  \<open>rowSz\<close> holds the row lengths, \<open>colInd\<close> the variable indices \<open>V_j\<close>,
  \<open>bVals\<close> the coefficients \<open>b_ji\<close>, \<open>betaVals\<close> and \<open>piVals\<close>
  the message parameters. \<^verbatim>\<open>accessRow(j,...)\<close> hands out the row length and
  pointers to the first entry of row \<open>j\<close> in each array: here, the offset
  \<open>rowOffset r j\<close>, so that the source's \<^verbatim>\<open>piP[ii]\<close> is
  \<open>piVals r ! (rowOffset r j + ii)\<close>.
\<close>

record factorizedEPRepresentation =
  rowSz :: "nat list"
  colInd :: "nat list"
  bVals :: "real list"
  betaVals :: "real list"
  piVals :: "real list"

definition rowOffset :: "factorizedEPRepresentation \<Rightarrow> nat \<Rightarrow> nat" where
  "rowOffset r j = sum_list (take j (rowSz r))"

text \<open>
  Modelled from the spec: the additional members of \<^verbatim>\<open>FactEPRepresBivarPrec\<close>
  (not among the sources): for each factor \<open>j\<close> the precision variable \<open>k(j)\<close>
  and the message parameters \<open>a_j\<close>, \<open>c_j\<close>, which
  \<^verbatim>\<open>accessTauRow(j,aP,cP)\<close> hands out.
\<close>

record factEPRepresBivarPrec =
  tauInd :: "nat list"
  aVals :: "real list"
  cVals :: "real list"

text \<open>
  Modelled from the spec: the maximum value services (\<^verbatim>\<open>FactEPMaximumPiValues\<close>,
  \<^verbatim>\<open>FactEPMaximumAValues\<close>, \<^verbatim>\<open>FactEPMaximumCValues\<close>) are not among
  the sources. For each variable \<open>i\<close> the index holds the entries \<open>(j, v)\<close> of
  the factors touching \<open>i\<close>; \<open>getMaxValue\<close> is the largest value stored for
  \<open>i\<close> (\<open>0\<close> is returned for a variable without entry, a case the spec gives no
  value for), and \<open>update\<close> replaces the value stored for \<open>(i, j)\<close>.
\<close>

type_synonym maximumValues = "(nat \<times> real) list list"

definition getMaxValue :: "maximumValues \<Rightarrow> nat \<Rightarrow> real" where
  "getMaxValue mv i =
     (case map snd (mv ! i) of [] \<Rightarrow> 0 | v # vs \<Rightarrow> fold max vs v)"

fun replaceEntry :: "nat \<Rightarrow> real \<Rightarrow> (nat \<times> real) list \<Rightarrow> (nat \<times> real) list" where
  "replaceEntry j v [] = [(j, v)]"
| "replaceEntry j v (e # es) = (if fst e = j then (j, v) # es else e # replaceEntry j v es)"

definition updateMaxValue :: "maximumValues \<Rightarrow> nat \<Rightarrow> nat \<Rightarrow> real \<Rightarrow> maximumValues" where
  "updateMaxValue mv i j v = mv[i := replaceEntry j v (mv ! i)]"

subsection \<open>The driver\<close>

text \<open>
  The members of \<^verbatim>\<open>FactorizedEPDriver\<close>. A null handle is \<open>None\<close>:
  \<open>epReprPrec\<close> is \<open>None\<close> for a driver over univariate potentials, and each
  of \<open>epMaxPi\<close>, \<open>epMaxA\<close>, \<open>epMaxC\<close> is \<open>None\<close> when selective
  damping is not asked for.
\<close>

record factorizedEPDriver =
  epPots :: "potential list"
  epRepr :: factorizedEPRepresentation
  epReprPrec :: "factEPRepresBivarPrec option"
  margBeta :: "real list"
  margPi :: "real list"
  piMinThres :: real
  epMaxPi :: "maximumValues option"
  margA :: "real list"
  margC :: "real list"
  aMinThres :: real
  cMinThres :: real
  epMaxA :: "maximumValues option"
  epMaxC :: "maximumValues option"
  buffVec :: "real list"

text \<open>\<^verbatim>\<open>#define MAXRELDIFF(a,b) (fabs((a)-(b))/std::max(fabs(a),std::max(fabs(b),1e-8)))\<close>\<close>

definition MAXRELDIFF :: "real \<Rightarrow> real \<Rightarrow> real" where
  "MAXRELDIFF a b = \<bar>a - b\<bar> / max \<bar>a\<bar> (max \<bar>b\<bar> (1 / 100000000))"

subsection \<open>Loops\<close>

text \<open>
  \<^verbatim>\<open>for (ii=0; ii<n; ii++) body\<close>, where the body either returns from the
  function (\<open>Inl\<close>) or ends with a new value of the variables it assigns
  (\<open>Inr\<close>): \<open>forLoop body s0 n\<close> is the outcome of the first \<open>n\<close>
  iterations.
\<close>

primrec forLoop :: "(nat \<Rightarrow> 's \<Rightarrow> 'r + 's) \<Rightarrow> 's \<Rightarrow> nat \<Rightarrow> 'r + 's" where
  "forLoop body s0 0 = Inr s0"
| "forLoop body s0 (Suc n) =
     (case forLoop body s0 n of Inl r \<Rightarrow> Inl r | Inr s \<Rightarrow> body n s)"

text \<open>
  What an early \<^verbatim>\<open>return\<close> leaves behind: the status, what was stored through
  \<^verbatim>\<open>effDamp\<close> (if anything), and the scratch buffer.
\<close>

type_synonym early = "int \<times> real option \<times> real list"

text \<open>
  The scratch buffer \<^verbatim>\<open>buffVec\<close> holds four arrays of \<open>vjSz\<close> entries:
  \<^verbatim>\<open>cBetaP\<close> at offset \<open>0\<close>, \<^verbatim>\<open>cPiP\<close> at \<open>vjSz\<close>,
  \<^verbatim>\<open>mprBetaP\<close> at \<open>2 * vjSz\<close> and \<^verbatim>\<open>mprPiP\<close> at \<open>3 * vjSz\<close>.
\<close>

subsection \<open>Cavity marginals (lines 308-329)\<close>

text \<open>The variables of the first loop: the buffer, \<open>cH\<close>, \<open>cRho\<close>, \<open>mH\<close>, \<open>mRho\<close>.\<close>

definition cavityBody ::
  "factorizedEPDriver \<Rightarrow> nat \<Rightarrow> nat \<Rightarrow> nat \<Rightarrow> real list \<times> real \<times> real \<times> real \<times> real
     \<Rightarrow> early + real list \<times> real \<times> real \<times> real \<times> real" where
  "cavityBody st off vjSz ii s =
     (case s of (bv, cH, cRho, mH, mRho) \<Rightarrow>
        let i = colInd (epRepr st) ! (off + ii);
            cPi = margPi st ! i - piVals (epRepr st) ! (off + ii);
            bv1 = bv[vjSz + ii := cPi]
        in if cPi < 0.5 * piMinThres st then Inl (updCavityInvalid, None, bv1)
           else
             let cBeta = margBeta st ! i - betaVals (epRepr st) ! (off + ii);
                 bv2 = bv1[ii := cBeta];
                 bval = bVals (epRepr st) ! (off + ii);
                 temp = bval / cPi;
                 cRho' = cRho + bval * temp;
                 cH' = cH + temp * cBeta;
                 temp' = bval / margPi st ! i;
                 mRho' = mRho + bval * temp';
                 mH' = mH + temp' * margBeta st ! i
             in Inr (bv2, cH', cRho', mH', mRho'))"

text \<open>
  The cavity of the precision variable (lines 293-294 and 324-329): nothing for a driver
  over univariate potentials, otherwise \<open>k(j)\<close>, \<open>a_j\<close>, and the cavity
  parameters \<open>cA\<close>, \<open>cC\<close>.
\<close>

definition precisionCavity ::
  "factorizedEPDriver \<Rightarrow> nat \<Rightarrow> int + (nat \<times> real \<times> real \<times> real) option" where
  "precisionCavity st j =
     (case epReprPrec st of
        None \<Rightarrow> Inr None
      | Some rp \<Rightarrow>
          let k = tauInd rp ! j; aP = aVals rp ! j; cP = cVals rp ! j;
              cA = margA st ! k - aP
          in if cA < 0.5 * aMinThres st then Inl updCavityInvalid
             else
               let cC = margC st ! k - cP
               in if cC < 0.5 * cMinThres st then Inl updCavityInvalid
                  else Inr (Some (k, aP, cA, cC)))"

subsection \<open>New message parameters without damping (lines 356-417)\<close>

text \<open>Lines 364-387: \<open>None\<close> is the return of \<^verbatim>\<open>updNumericalError\<close>.\<close>

definition undampedMsg :: "real \<Rightarrow> real \<Rightarrow> real \<Rightarrow> real \<Rightarrow> real \<Rightarrow> (real \<times> real) option" where
  "undampedMsg bval cPi cBeta alpha nu =
     (if \<bar>bval\<bar> > 1 / 1000000 then
        (let temp2 = cPi / bval; temp = temp2 / bval - nu
         in if temp < 1 / 10000000000 then None
            else
              (let temp = 1 / temp
               in Some (temp * cPi * nu, temp * (cBeta * nu + temp2 * alpha))))
      else
        (let temp = cPi - nu * bval * bval
         in if temp < 1 / 10000000000 then None
            else
              (let temp = bval / temp
               in Some (temp * bval * nu * cPi, temp * (cBeta * bval * nu + cPi * alpha)))))"

text \<open>Line 400: the value for \<open>1 - eta\<close>.\<close>

definition oneMinusEta :: "factorizedEPDriver \<Rightarrow> nat \<Rightarrow> nat \<Rightarrow> real \<Rightarrow> real \<Rightarrow> real" where
  "oneMinusEta st off ii kappa prPi =
     min ((margPi st ! (colInd (epRepr st) ! (off + ii)) - kappa - piMinThres st)
            / (piVals (epRepr st) ! (off + ii) - prPi)) 1"

text \<open>
  The variables of the second loop: the buffer, \<open>dampFact\<close>, and the locals \<open>i\<close>
  and \<open>prPi\<close>, which the code after the loop reads again (line 427).
\<close>

definition updateBody ::
  "factorizedEPDriver \<Rightarrow> nat \<Rightarrow> nat \<Rightarrow> real \<Rightarrow> real \<Rightarrow> bool \<Rightarrow> nat
     \<Rightarrow> real list \<times> real \<times> nat \<times> real \<Rightarrow> early + real list \<times> real \<times> nat \<times> real" where
  "updateBody st off vjSz alpha nu wantEffDamp ii s =
     (case s of (bv, dampFact, i0, prPi0) \<Rightarrow>
        let i = colInd (epRepr st) ! (off + ii);
            bval = bVals (epRepr st) ! (off + ii);
            cPi = bv ! (vjSz + ii);
            cBeta = bv ! ii
        in case undampedMsg bval cPi cBeta alpha nu of
             None \<Rightarrow> Inl (updNumericalError, None, bv)
           | Some (prPi, prBeta) \<Rightarrow>
               let bv1 = bv[3 * vjSz + ii := prPi, 2 * vjSz + ii := prBeta]
               in case epMaxPi st of
                    None \<Rightarrow> Inr (bv1, dampFact, i, prPi)
                  | Some mp \<Rightarrow>
                      if prPi < piVals (epRepr st) ! (off + ii) then
                        (let kappa = getMaxValue mp i
                         in if kappa \<le> 0 then Inl (updNumericalError, None, bv1)
                            else
                              let temp = oneMinusEta st off ii kappa prPi
                              in if temp \<le> 0.02
                                 then Inl (updCavCondSkipped,
                                        (if wantEffDamp then Some 1 else None), bv1)
                                 else Inr (bv1, max dampFact (1 - temp), i, prPi))
                      else Inr (bv1, dampFact, i, prPi))"

text \<open>
  Lines 418-436, for a driver over bivariate precision potentials. The condition compares
  the new \<open>a\<close> parameter with the old one, but line 427 computes the value for
  \<open>1 - eta\<close> from \<^verbatim>\<open>mPiP[i]\<close>, \<^verbatim>\<open>piMinThres\<close>,
  \<^verbatim>\<open>piP[ii]\<close> and \<^verbatim>\<open>prPi\<close>, with the values the second loop left in
  \<open>i\<close>, \<open>ii\<close> (which is \<open>vjSz\<close>) and \<open>prPi\<close>.
\<close>

definition precisionClamp ::
  "factorizedEPDriver \<Rightarrow> nat \<Rightarrow> nat \<Rightarrow> bool \<Rightarrow> real list \<Rightarrow> nat \<times> real \<times> real \<times> real
     \<Rightarrow> real list \<times> real \<times> nat \<times> real \<Rightarrow> early + real" where
  "precisionClamp st off vjSz wantEffDamp ret prec s =
     (case (prec, s) of ((k, aP, cA, cC), (bv, dampFact, i, prPi)) \<Rightarrow>
        let hatA = ret ! 2; hatC = ret ! 3;
            prA = hatA - cA; prC = hatC - cC
        in case epMaxA st of
             None \<Rightarrow> Inr dampFact
           | Some ma \<Rightarrow>
               if prA < aP then
                 (let temp2 = getMaxValue ma k;
                      temp = min ((margPi st ! i - max temp2 0 - piMinThres st)
                                    / (piVals (epRepr st) ! (off + vjSz) - prPi)) 1
                  in if temp \<le> 0.02
                     then Inl (updCavCondSkipped, (if wantEffDamp then Some 1 else None), bv)
                     else Inr (max dampFact (1 - temp)))
               else Inr dampFact)"

subsection \<open>Damping and new marginals (lines 441-458)\<close>

definition dampBody ::
  "factorizedEPDriver \<Rightarrow> nat \<Rightarrow> nat \<Rightarrow> real \<Rightarrow> real option \<Rightarrow> nat \<Rightarrow> real list
     \<Rightarrow> early + real list" where
  "dampBody st off vjSz dampFact effOut ii bv =
     (let cPi = bv ! (vjSz + ii); cBeta = bv ! ii;
          prPi = bv ! (3 * vjSz + ii); prBeta = bv ! (2 * vjSz + ii);
          prPi' = (if dampFact > 0
                   then prPi + dampFact * (piVals (epRepr st) ! (off + ii) - prPi) else prPi);
          prBeta' = (if dampFact > 0
                     then prBeta + dampFact * (betaVals (epRepr st) ! (off + ii) - prBeta)
                     else prBeta);
          bv1 = bv[3 * vjSz + ii := cPi + prPi']
      in if cPi + prPi' < 0.5 * piMinThres st then Inl (updMarginalsInvalid, effOut, bv1)
         else Inr (bv1[2 * vjSz + ii := cBeta + prBeta', vjSz + ii := prPi', ii := prBeta']))"

subsection \<open>Writing back (lines 460-474)\<close>

text \<open>The variables of the last loop: the driver, \<open>mprH\<close> and \<open>mprRho\<close>.\<close>

definition commitBody ::
  "nat \<Rightarrow> nat \<Rightarrow> nat \<Rightarrow> real list \<Rightarrow> nat \<Rightarrow> factorizedEPDriver \<times> real \<times> real
     \<Rightarrow> factorizedEPDriver \<times> real \<times> real" where
  "commitBody j off vjSz bv ii s =
     (case s of (st, mprH, mprRho) \<Rightarrow>
        let r = epRepr st;
            i = colInd r ! (off + ii);
            r' = r\<lparr>betaVals := (betaVals r)[off + ii := bv ! ii],
                   piVals := (piVals r)[off + ii := bv ! (vjSz + ii)]\<rparr>;
            st1 = st\<lparr>epRepr := r',
                     margBeta := (margBeta st)[i := bv ! (2 * vjSz + ii)],
                     margPi := (margPi st)[i := bv ! (3 * vjSz + ii)]\<rparr>;
            bval = bVals r ! (off + ii);
            temp = bval / bv ! (3 * vjSz + ii);
            mprRho' = mprRho + bval * temp;
            mprH' = mprH + temp * bv ! (2 * vjSz + ii);
            st2 = (case epMaxPi st1 of
                     None \<Rightarrow> st1
                   | Some mp \<Rightarrow>
                       st1\<lparr>epMaxPi := Some (updateMaxValue mp i j (piVals r' ! (off + ii)))\<rparr>)
        in (st2, mprH', mprRho'))"

primrec commitLoop ::
  "nat \<Rightarrow> nat \<Rightarrow> nat \<Rightarrow> real list \<Rightarrow> factorizedEPDriver \<Rightarrow> nat
     \<Rightarrow> factorizedEPDriver \<times> real \<times> real" where
  "commitLoop j off vjSz bv st 0 = (st, 0, 0)"
| "commitLoop j off vjSz bv st (Suc n) =
     commitBody j off vjSz bv n (commitLoop j off vjSz bv st n)"

subsection \<open>The update\<close>

text \<open>
  The result of a call: the exception, or the status with what was stored through
  \<^verbatim>\<open>delta\<close> and \<^verbatim>\<open>effDamp\<close>; and the driver after the call.

  The assertion \<^verbatim>\<open>MYASS\<close> at entry (its definition is not among the sources) is
  the runtime check of the spec: a potential of the wrong argument group ends the call with
  \<open>AssertionFailed\<close>. When the row is empty, the source leaves \<open>i\<close> and
  \<open>prPi\<close> uninitialised; they are \<open>0\<close> here. When the buffer is too short it is
  replaced (\<^verbatim>\<open>changeRep\<close>) by one of \<open>4 * vjSz\<close> entries, whose content is
  \<open>0\<close> here; every entry is written before it is read.
\<close>

type_synonym outcome = "(exn + int \<times> real option \<times> real option) \<times> factorizedEPDriver"

text \<open>Lines 296-301: the buffer the call works in.\<close>

definition initBuffer :: "factorizedEPDriver \<Rightarrow> nat \<Rightarrow> real list" where
  "initBuffer st vjSz =
     (if length (buffVec st) < 4 * vjSz then replicate (4 * vjSz) 0 else buffVec st)"

text \<open>Lines 333-336: the array \<^verbatim>\<open>inp\<close> passed to \<^verbatim>\<open>compMoments\<close>.\<close>

definition momentInput ::
  "real \<Rightarrow> real \<Rightarrow> (nat \<times> real \<times> real \<times> real) option \<Rightarrow> real list" where
  "momentInput cH cRho prec =
     cH # cRho # (case prec of None \<Rightarrow> [] | Some (k, aP, cA, cC) \<Rightarrow> [cA, cC])"

definition sequentialUpdate ::
  "nat \<Rightarrow> real \<Rightarrow> bool \<Rightarrow> bool \<Rightarrow> factorizedEPDriver \<Rightarrow> outcome" where
  "sequentialUpdate j dampFact wantDelta wantEffDamp st =
     (let hasBVPrec = (epReprPrec st \<noteq> None);
          grp = getArgumentGroup (epPots st ! j)
      in if \<not> ((\<not> hasBVPrec \<and> grp = atypeUnivariate) \<or> (hasBVPrec \<and> grp = atypeBivarPrec))
         then (Inl AssertionFailed, st)
         else if dampFact < 0 \<or> dampFact \<ge> 1 then (Inl InvalidParameterException, st)
         else
           let off = rowOffset (epRepr st) j;
               vjSz = rowSz (epRepr st) ! j;
               bv0 = initBuffer st vjSz
           in case forLoop (cavityBody st off vjSz) (bv0, 0, 0, 0, 0) vjSz of
                Inl (status, eff, bv) \<Rightarrow> (Inr (status, None, eff), st\<lparr>buffVec := bv\<rparr>)
              | Inr (bv1, cH, cRho, mH, mRho) \<Rightarrow>
                  (case precisionCavity st j of
                     Inl status \<Rightarrow> (Inr (status, None, None), st\<lparr>buffVec := bv1\<rparr>)
                   | Inr prec \<Rightarrow>
                       (case compMoments (epPots st ! j) (momentInput cH cRho prec) of
                          None \<Rightarrow> (Inr (updNumericalError, None, None), st\<lparr>buffVec := bv1\<rparr>)
                        | Some ret \<Rightarrow>
                            (case forLoop (updateBody st off vjSz (ret ! 0) (ret ! 1) wantEffDamp)
                                    (bv1, dampFact, 0, 0) vjSz of
                               Inl (status, eff, bv) \<Rightarrow>
                                 (Inr (status, None, eff), st\<lparr>buffVec := bv\<rparr>)
                             | Inr (bv2, dampFact1, i, prPi) \<Rightarrow>
                                 (case (case prec of None \<Rightarrow> Inr dampFact1
                                        | Some p \<Rightarrow>
                                            precisionClamp st off vjSz wantEffDamp ret p
                                              (bv2, dampFact1, i, prPi)) of
                                    Inl (status, eff, bv) \<Rightarrow>
                                      (Inr (status, None, eff), st\<lparr>buffVec := bv\<rparr>)
                                  | Inr dampFact' \<Rightarrow>
                                      let effOut = (if wantEffDamp then Some dampFact' else None)
                                      in case forLoop (dampBody st off vjSz dampFact' effOut)
                                                bv2 vjSz of
                                           Inl (status, eff, bv) \<Rightarrow>
                                             (Inr (status, None, eff), st\<lparr>buffVec := bv\<rparr>)
                                         | Inr bv3 \<Rightarrow>
                                             (case commitLoop j off vjSz bv3
                                                     (st\<lparr>buffVec := bv3\<rparr>) vjSz of
                                                (st', mprH, mprRho) \<Rightarrow>
                                                  (Inr (updSuccess,
                                                        (if wantDelta
                                                         then Some (max (MAXRELDIFF mH mprH)
                                                                (MAXRELDIFF (sqrt mRho) (sqrt mprRho)))
                                                         else None),
                                                        effOut), st')))))))"

subsection \<open>Notions used in the statements\<close>

text \<open>The entry assertion holds: the potential is of the argument group of the driver.\<close>

definition groupOK :: "factorizedEPDriver \<Rightarrow> nat \<Rightarrow> bool" where
  "groupOK st j =
     (getArgumentGroup (epPots st ! j)
        = (if epReprPrec st = None then atypeUnivariate else atypeBivarPrec))"

text \<open>The cavity parameters of position \<open>ii\<close> of the row at offset \<open>off\<close>.\<close>

definition cavPi :: "factorizedEPDriver \<Rightarrow> nat \<Rightarrow> nat \<Rightarrow> real" where
  "cavPi st off ii =
     margPi st ! (colInd (epRepr st) ! (off + ii)) - piVals (epRepr st) ! (off + ii)"

definition cavBeta :: "factorizedEPDriver \<Rightarrow> nat \<Rightarrow> nat \<Rightarrow> real" where
  "cavBeta st off ii =
     margBeta st ! (colInd (epRepr st) ! (off + ii)) - betaVals (epRepr st) ! (off + ii)"

text \<open>Lines 447-451: the damped value of a message parameter.\<close>

definition dampedMsg :: "real \<Rightarrow> real \<Rightarrow> real \<Rightarrow> real" where
  "dampedMsg d old new = (if d > 0 then new + d * (old - new) else new)"

text \<open>
  A cavity parameter is below half its threshold: the cavity precision of a position of row
  \<open>j\<close> below \<open>piMinThres / 2\<close> or, for bivariate precision potentials, the cavity
  parameter of \<open>a\<close> below \<open>aMinThres / 2\<close> or that of \<open>c\<close> below
  \<open>cMinThres / 2\<close>.
\<close>

definition cavityInvalid :: "factorizedEPDriver \<Rightarrow> nat \<Rightarrow> bool" where
  "cavityInvalid st j =
     ((\<exists>ii<rowSz (epRepr st) ! j. cavPi st (rowOffset (epRepr st) j) ii < piMinThres st / 2)
      \<or> (case epReprPrec st of
            None \<Rightarrow> False
          | Some rp \<Rightarrow>
              margA st ! (tauInd rp ! j) - aVals rp ! j < aMinThres st / 2
              \<or> margC st ! (tauInd rp ! j) - cVals rp ! j < cMinThres st / 2))"

text \<open>
  The new message parameters without damping at position \<open>ii\<close> of the row, for the
  result \<open>(alpha, nu)\<close> of the moment computation: \<open>undampedMsg\<close> at the
  coefficient and the cavity parameters of the position.
\<close>

definition newMsg ::
  "factorizedEPDriver \<Rightarrow> nat \<Rightarrow> real \<Rightarrow> real \<Rightarrow> nat \<Rightarrow> (real \<times> real) option" where
  "newMsg st off alpha nu ii =
     undampedMsg (bVals (epRepr st) ! (off + ii)) (cavPi st off ii) (cavBeta st off ii) alpha nu"

text \<open>
  The representation and the marginals fit together for row \<open>j\<close>: the rows fill the
  flat arrays, which have one length; every variable index has a marginal; and no variable
  occurs twice in row \<open>j\<close>.
\<close>

definition wellFormed :: "factorizedEPDriver \<Rightarrow> nat \<Rightarrow> bool" where
  "wellFormed st j =
     (let r = epRepr st
      in j < length (rowSz r)
         \<and> sum_list (rowSz r) = length (colInd r)
         \<and> length (bVals r) = length (colInd r)
         \<and> length (betaVals r) = length (colInd r)
         \<and> length (piVals r) = length (colInd r)
         \<and> length (margBeta st) = length (margPi st)
         \<and> list_all (\<lambda>i. i < length (margPi st)) (colInd r)
         \<and> distinct (take (rowSz r ! j) (drop (rowOffset r j) (colInd r))))"

text \<open>
  The sum over all factors of the message parameters sent to variable \<open>i\<close>, and the
  relationship between marginals and message parameters of the header comment:
  \<open>pi_i = sum_j pi_ji\<close>, \<open>beta_i = sum_j beta_ji\<close>.
\<close>

definition msgSum :: "nat list \<Rightarrow> real list \<Rightarrow> nat \<Rightarrow> real" where
  "msgSum cols vals i = (\<Sum>p<length vals. if cols ! p = i then vals ! p else 0)"

definition sumInvariant :: "factorizedEPDriver \<Rightarrow> bool" where
  "sumInvariant st =
     (\<forall>i<length (margPi st).
        margPi st ! i = msgSum (colInd (epRepr st)) (piVals (epRepr st)) i
        \<and> margBeta st ! i = msgSum (colInd (epRepr st)) (betaVals (epRepr st)) i)"

text \<open>
  The moments on \<open>s_j\<close> of the current marginals, accumulated as lines 320-322 do:
  the mean \<open>sum_i b_ji beta_i / pi_i\<close> and the variance \<open>sum_i b_ji\<^sup>2 / pi_i\<close>.
\<close>

definition momentH :: "factorizedEPDriver \<Rightarrow> nat \<Rightarrow> real" where
  "momentH st j =
     (\<Sum>ii<rowSz (epRepr st) ! j.
        bVals (epRepr st) ! (rowOffset (epRepr st) j + ii)
          / margPi st ! (colInd (epRepr st) ! (rowOffset (epRepr st) j + ii))
          * margBeta st ! (colInd (epRepr st) ! (rowOffset (epRepr st) j + ii)))"

definition momentRho :: "factorizedEPDriver \<Rightarrow> nat \<Rightarrow> real" where
  "momentRho st j =
     (\<Sum>ii<rowSz (epRepr st) ! j.
        bVals (epRepr st) ! (rowOffset (epRepr st) j + ii)
          * (bVals (epRepr st) ! (rowOffset (epRepr st) j + ii)
              / margPi st ! (colInd (epRepr st) ! (rowOffset (epRepr st) j + ii))))"

text \<open>
  The cavity moments on \<open>s_j\<close>, accumulated as lines 317-319 do, and the input of the
  moment computation of a call that gets that far.
\<close>

definition cavityH :: "factorizedEPDriver \<Rightarrow> nat \<Rightarrow> real" where
  "cavityH st j =
     (\<Sum>ii<rowSz (epRepr st) ! j.
        bVals (epRepr st) ! (rowOffset (epRepr st) j + ii) / cavPi st (rowOffset (epRepr st) j) ii
          * cavBeta st (rowOffset (epRepr st) j) ii)"

definition cavityRho :: "factorizedEPDriver \<Rightarrow> nat \<Rightarrow> real" where
  "cavityRho st j =
     (\<Sum>ii<rowSz (epRepr st) ! j.
        bVals (epRepr st) ! (rowOffset (epRepr st) j + ii)
          * (bVals (epRepr st) ! (rowOffset (epRepr st) j + ii)
              / cavPi st (rowOffset (epRepr st) j) ii))"

definition oracleInput :: "factorizedEPDriver \<Rightarrow> nat \<Rightarrow> real list" where
  "oracleInput st j =
     momentInput (cavityH st j) (cavityRho st j)
       (case precisionCavity st j of Inl status \<Rightarrow> None | Inr prec \<Rightarrow> prec)"

text \<open>The scratch buffer an iteration of the second loop leaves, returning or not.\<close>

definition bufferAfter :: "early + real list \<times> real \<times> nat \<times> real \<Rightarrow> real list" where
  "bufferAfter r = (case r of Inl (status, eff, bv) \<Rightarrow> bv | Inr (bv, d, i, p) \<Rightarrow> bv)"



subsection \<open>The update in double arithmetic\<close>

text \<open>
  The definitions above compute with reals. A statement that an equality between sums
  survives the update is sensitive to that, so the update is embedded a second time, with
  the rounding of the source's \<^verbatim>\<open>double\<close> operations made explicit.

  A double is a real \<open>m * 2\<^sup>e\<close> with integers \<open>m\<close>, \<open>e\<close> and
  \<open>\<bar>m\<bar> < 2\<^sup>5\<^sup>3\<close>. \<open>fl x\<close> is the double nearest to \<open>x\<close>, a tie going
  to the even \<open>m\<close>: the rounding of an IEEE 754 binary64 operation in the default
  mode. For \<open>2\<^sup>k \<le> \<bar>x\<bar> < 2\<^sup>k\<^sup>+\<^sup>1\<close> the doubles around \<open>x\<close> are the multiples of
  \<open>2\<^sup>k\<^sup>-\<^sup>5\<^sup>2\<close>. The range of the exponent is not bounded here: there is no overflow and
  there are no subnormal numbers, and still no infinity and no NaN.
\<close>

definition roundEven :: "real \<Rightarrow> int" where
  "roundEven x =
     (let f = \<lfloor>x\<rfloor>; r = x - of_int f
      in if r < 1 / 2 then f else if 1 / 2 < r then f + 1 else if even f then f else f + 1)"

definition fl :: "real \<Rightarrow> real" where
  "fl x =
     (if x = 0 then 0
      else let e = \<lfloor>log 2 \<bar>x\<bar>\<rfloor> - 52
           in of_int (roundEven (x / 2 powi e)) * 2 powi e)"

text \<open>
  The functions of the update again, line by line as above, with a rounding \<open>rnd\<close>
  applied to the result of every arithmetic operation of the source (\<^verbatim>\<open>+\<close>,
  \<^verbatim>\<open>-\<close>, \<^verbatim>\<open>*\<close>, \<^verbatim>\<open>/\<close>, \<^verbatim>\<open>sqrt\<close>; an \<^verbatim>\<open>x+=y\<close> is
  \<open>rnd (x + y)\<close>) and to every decimal literal that is not a double
  (\<^verbatim>\<open>1e-6\<close>, \<^verbatim>\<open>1e-10\<close>, \<^verbatim>\<open>0.02\<close>, \<^verbatim>\<open>1e-8\<close>; the literals
  \<^verbatim>\<open>0.0\<close>, \<^verbatim>\<open>0.5\<close> and \<^verbatim>\<open>1.0\<close> are doubles). Comparisons,
  \<^verbatim>\<open>fabs\<close>, \<^verbatim>\<open>std::min\<close> and \<^verbatim>\<open>std::max\<close> are exact. With the
  identity for \<open>rnd\<close> these are the functions above; with \<open>fl\<close> for \<open>rnd\<close> they
  are the computation in double arithmetic, every operation rounded on its own (no fused
  multiply-add, no intermediate result of a higher precision).
\<close>

definition MAXRELDIFFR :: "(real \<Rightarrow> real) \<Rightarrow> real \<Rightarrow> real \<Rightarrow> real" where
  "MAXRELDIFFR rnd a b = rnd (\<bar>rnd (a - b)\<bar> / max \<bar>a\<bar> (max \<bar>b\<bar> (rnd (1 / 100000000))))"

definition cavityBodyR ::
  "(real \<Rightarrow> real) \<Rightarrow> factorizedEPDriver \<Rightarrow> nat \<Rightarrow> nat \<Rightarrow> nat
     \<Rightarrow> real list \<times> real \<times> real \<times> real \<times> real
     \<Rightarrow> early + real list \<times> real \<times> real \<times> real \<times> real" where
  "cavityBodyR rnd st off vjSz ii s =
     (case s of (bv, cH, cRho, mH, mRho) \<Rightarrow>
        let i = colInd (epRepr st) ! (off + ii);
            cPi = rnd (margPi st ! i - piVals (epRepr st) ! (off + ii));
            bv1 = bv[vjSz + ii := cPi]
        in if cPi < rnd (0.5 * piMinThres st) then Inl (updCavityInvalid, None, bv1)
           else
             let cBeta = rnd (margBeta st ! i - betaVals (epRepr st) ! (off + ii));
                 bv2 = bv1[ii := cBeta];
                 bval = bVals (epRepr st) ! (off + ii);
                 temp = rnd (bval / cPi);
                 cRho' = rnd (cRho + rnd (bval * temp));
                 cH' = rnd (cH + rnd (temp * cBeta));
                 temp' = rnd (bval / margPi st ! i);
                 mRho' = rnd (mRho + rnd (bval * temp'));
                 mH' = rnd (mH + rnd (temp' * margBeta st ! i))
             in Inr (bv2, cH', cRho', mH', mRho'))"

definition precisionCavityR ::
  "(real \<Rightarrow> real) \<Rightarrow> factorizedEPDriver \<Rightarrow> nat
     \<Rightarrow> int + (nat \<times> real \<times> real \<times> real) option" where
  "precisionCavityR rnd st j =
     (case epReprPrec st of
        None \<Rightarrow> Inr None
      | Some rp \<Rightarrow>
          let k = tauInd rp ! j; aP = aVals rp ! j; cP = cVals rp ! j;
              cA = rnd (margA st ! k - aP)
          in if cA < rnd (0.5 * aMinThres st) then Inl updCavityInvalid
             else
               let cC = rnd (margC st ! k - cP)
               in if cC < rnd (0.5 * cMinThres st) then Inl updCavityInvalid
                  else Inr (Some (k, aP, cA, cC)))"

definition undampedMsgR ::
  "(real \<Rightarrow> real) \<Rightarrow> real \<Rightarrow> real \<Rightarrow> real \<Rightarrow> real \<Rightarrow> real \<Rightarrow> (real \<times> real) option" where
  "undampedMsgR rnd bval cPi cBeta alpha nu =
     (if \<bar>bval\<bar> > rnd (1 / 1000000) then
        (let temp2 = rnd (cPi / bval); temp = rnd (rnd (temp2 / bval) - nu)
         in if temp < rnd (1 / 10000000000) then None
            else
              (let temp = rnd (1 / temp)
               in Some (rnd (rnd (temp * cPi) * nu),
                        rnd (temp * rnd (rnd (cBeta * nu) + rnd (temp2 * alpha))))))
      else
        (let temp = rnd (cPi - rnd (rnd (nu * bval) * bval))
         in if temp < rnd (1 / 10000000000) then None
            else
              (let temp = rnd (bval / temp)
               in Some (rnd (rnd (rnd (temp * bval) * nu) * cPi),
                        rnd (temp * rnd (rnd (rnd (cBeta * bval) * nu) + rnd (cPi * alpha)))))))"

definition oneMinusEtaR ::
  "(real \<Rightarrow> real) \<Rightarrow> factorizedEPDriver \<Rightarrow> nat \<Rightarrow> nat \<Rightarrow> real \<Rightarrow> real \<Rightarrow> real" where
  "oneMinusEtaR rnd st off ii kappa prPi =
     min (rnd (rnd (rnd (margPi st ! (colInd (epRepr st) ! (off + ii)) - kappa) - piMinThres st)
                 / rnd (piVals (epRepr st) ! (off + ii) - prPi))) 1"

definition updateBodyR ::
  "(real \<Rightarrow> real) \<Rightarrow> factorizedEPDriver \<Rightarrow> nat \<Rightarrow> nat \<Rightarrow> real \<Rightarrow> real \<Rightarrow> bool \<Rightarrow> nat
     \<Rightarrow> real list \<times> real \<times> nat \<times> real \<Rightarrow> early + real list \<times> real \<times> nat \<times> real" where
  "updateBodyR rnd st off vjSz alpha nu wantEffDamp ii s =
     (case s of (bv, dampFact, i0, prPi0) \<Rightarrow>
        let i = colInd (epRepr st) ! (off + ii);
            bval = bVals (epRepr st) ! (off + ii);
            cPi = bv ! (vjSz + ii);
            cBeta = bv ! ii
        in case undampedMsgR rnd bval cPi cBeta alpha nu of
             None \<Rightarrow> Inl (updNumericalError, None, bv)
           | Some (prPi, prBeta) \<Rightarrow>
               let bv1 = bv[3 * vjSz + ii := prPi, 2 * vjSz + ii := prBeta]
               in case epMaxPi st of
                    None \<Rightarrow> Inr (bv1, dampFact, i, prPi)
                  | Some mp \<Rightarrow>
                      if prPi < piVals (epRepr st) ! (off + ii) then
                        (let kappa = getMaxValue mp i
                         in if kappa \<le> 0 then Inl (updNumericalError, None, bv1)
                            else
                              let temp = oneMinusEtaR rnd st off ii kappa prPi
                              in if temp \<le> rnd 0.02
                                 then Inl (updCavCondSkipped,
                                        (if wantEffDamp then Some 1 else None), bv1)
                                 else Inr (bv1, max dampFact (rnd (1 - temp)), i, prPi))
                      else Inr (bv1, dampFact, i, prPi))"

definition precisionClampR ::
  "(real \<Rightarrow> real) \<Rightarrow> factorizedEPDriver \<Rightarrow> nat \<Rightarrow> nat \<Rightarrow> bool \<Rightarrow> real list
     \<Rightarrow> nat \<times> real \<times> real \<times> real \<Rightarrow> real list \<times> real \<times> nat \<times> real \<Rightarrow> early + real" where
  "precisionClampR rnd st off vjSz wantEffDamp ret prec s =
     (case (prec, s) of ((k, aP, cA, cC), (bv, dampFact, i, prPi)) \<Rightarrow>
        let hatA = ret ! 2; hatC = ret ! 3;
            prA = rnd (hatA - cA); prC = rnd (hatC - cC)
        in case epMaxA st of
             None \<Rightarrow> Inr dampFact
           | Some ma \<Rightarrow>
               if prA < aP then
                 (let temp2 = getMaxValue ma k;
                      temp = min (rnd (rnd (rnd (margPi st ! i - max temp2 0) - piMinThres st)
                                         / rnd (piVals (epRepr st) ! (off + vjSz) - prPi))) 1
                  in if temp \<le> rnd 0.02
                     then Inl (updCavCondSkipped, (if wantEffDamp then Some 1 else None), bv)
                     else Inr (max dampFact (rnd (1 - temp))))
               else Inr dampFact)"

definition dampBodyR ::
  "(real \<Rightarrow> real) \<Rightarrow> factorizedEPDriver \<Rightarrow> nat \<Rightarrow> nat \<Rightarrow> real \<Rightarrow> real option \<Rightarrow> nat
     \<Rightarrow> real list \<Rightarrow> early + real list" where
  "dampBodyR rnd st off vjSz dampFact effOut ii bv =
     (let cPi = bv ! (vjSz + ii); cBeta = bv ! ii;
          prPi = bv ! (3 * vjSz + ii); prBeta = bv ! (2 * vjSz + ii);
          prPi' = (if dampFact > 0
                   then rnd (prPi + rnd (dampFact * rnd (piVals (epRepr st) ! (off + ii) - prPi)))
                   else prPi);
          prBeta' = (if dampFact > 0
                     then rnd (prBeta
                            + rnd (dampFact * rnd (betaVals (epRepr st) ! (off + ii) - prBeta)))
                     else prBeta);
          bv1 = bv[3 * vjSz + ii := rnd (cPi + prPi')]
      in if rnd (cPi + prPi') < rnd (0.5 * piMinThres st)
         then Inl (updMarginalsInvalid, effOut, bv1)
         else Inr (bv1[2 * vjSz + ii := rnd (cBeta + prBeta'), vjSz + ii := prPi',
                       ii := prBeta']))"

definition commitBodyR ::
  "(real \<Rightarrow> real) \<Rightarrow> nat \<Rightarrow> nat \<Rightarrow> nat \<Rightarrow> real list \<Rightarrow> nat
     \<Rightarrow> factorizedEPDriver \<times> real \<times> real \<Rightarrow> factorizedEPDriver \<times> real \<times> real" where
  "commitBodyR rnd j off vjSz bv ii s =
     (case s of (st, mprH, mprRho) \<Rightarrow>
        let r = epRepr st;
            i = colInd r ! (off + ii);
            r' = r\<lparr>betaVals := (betaVals r)[off + ii := bv ! ii],
                   piVals := (piVals r)[off + ii := bv ! (vjSz + ii)]\<rparr>;
            st1 = st\<lparr>epRepr := r',
                     margBeta := (margBeta st)[i := bv ! (2 * vjSz + ii)],
                     margPi := (margPi st)[i := bv ! (3 * vjSz + ii)]\<rparr>;
            bval = bVals r ! (off + ii);
            temp = rnd (bval / bv ! (3 * vjSz + ii));
            mprRho' = rnd (mprRho + rnd (bval * temp));
            mprH' = rnd (mprH + rnd (temp * bv ! (2 * vjSz + ii)));
            st2 = (case epMaxPi st1 of
                     None \<Rightarrow> st1
                   | Some mp \<Rightarrow>
                       st1\<lparr>epMaxPi := Some (updateMaxValue mp i j (piVals r' ! (off + ii)))\<rparr>)
        in (st2, mprH', mprRho'))"

primrec commitLoopR ::
  "(real \<Rightarrow> real) \<Rightarrow> nat \<Rightarrow> nat \<Rightarrow> nat \<Rightarrow> real list \<Rightarrow> factorizedEPDriver \<Rightarrow> nat
     \<Rightarrow> factorizedEPDriver \<times> real \<times> real" where
  "commitLoopR rnd j off vjSz bv st 0 = (st, 0, 0)"
| "commitLoopR rnd j off vjSz bv st (Suc n) =
     commitBodyR rnd j off vjSz bv n (commitLoopR rnd j off vjSz bv st n)"

definition sequentialUpdateR ::
  "(real \<Rightarrow> real) \<Rightarrow> nat \<Rightarrow> real \<Rightarrow> bool \<Rightarrow> bool \<Rightarrow> factorizedEPDriver \<Rightarrow> outcome" where
  "sequentialUpdateR rnd j dampFact wantDelta wantEffDamp st =
     (let hasBVPrec = (epReprPrec st \<noteq> None);
          grp = getArgumentGroup (epPots st ! j)
      in if \<not> ((\<not> hasBVPrec \<and> grp = atypeUnivariate) \<or> (hasBVPrec \<and> grp = atypeBivarPrec))
         then (Inl AssertionFailed, st)
         else if dampFact < 0 \<or> dampFact \<ge> 1 then (Inl InvalidParameterException, st)
         else
           let off = rowOffset (epRepr st) j;
               vjSz = rowSz (epRepr st) ! j;
               bv0 = initBuffer st vjSz
           in case forLoop (cavityBodyR rnd st off vjSz) (bv0, 0, 0, 0, 0) vjSz of
                Inl (status, eff, bv) \<Rightarrow> (Inr (status, None, eff), st\<lparr>buffVec := bv\<rparr>)
              | Inr (bv1, cH, cRho, mH, mRho) \<Rightarrow>
                  (case precisionCavityR rnd st j of
                     Inl status \<Rightarrow> (Inr (status, None, None), st\<lparr>buffVec := bv1\<rparr>)
                   | Inr prec \<Rightarrow>
                       (case compMoments (epPots st ! j) (momentInput cH cRho prec) of
                          None \<Rightarrow> (Inr (updNumericalError, None, None), st\<lparr>buffVec := bv1\<rparr>)
                        | Some ret \<Rightarrow>
                            (case forLoop
                                    (updateBodyR rnd st off vjSz (ret ! 0) (ret ! 1) wantEffDamp)
                                    (bv1, dampFact, 0, 0) vjSz of
                               Inl (status, eff, bv) \<Rightarrow>
                                 (Inr (status, None, eff), st\<lparr>buffVec := bv\<rparr>)
                             | Inr (bv2, dampFact1, i, prPi) \<Rightarrow>
                                 (case (case prec of None \<Rightarrow> Inr dampFact1
                                        | Some p \<Rightarrow>
                                            precisionClampR rnd st off vjSz wantEffDamp ret p
                                              (bv2, dampFact1, i, prPi)) of
                                    Inl (status, eff, bv) \<Rightarrow>
                                      (Inr (status, None, eff), st\<lparr>buffVec := bv\<rparr>)
                                  | Inr dampFact' \<Rightarrow>
                                      let effOut = (if wantEffDamp then Some dampFact' else None)
                                      in case forLoop (dampBodyR rnd st off vjSz dampFact' effOut)
                                                bv2 vjSz of
                                           Inl (status, eff, bv) \<Rightarrow>
                                             (Inr (status, None, eff), st\<lparr>buffVec := bv\<rparr>)
                                         | Inr bv3 \<Rightarrow>
                                             (case commitLoopR rnd j off vjSz bv3
                                                     (st\<lparr>buffVec := bv3\<rparr>) vjSz of
                                                (st', mprH, mprRho) \<Rightarrow>
                                                  (Inr (updSuccess,
                                                        (if wantDelta
                                                         then Some (max (MAXRELDIFFR rnd mH mprH)
                                                                (MAXRELDIFFR rnd (rnd (sqrt mRho))
                                                                   (rnd (sqrt mprRho))))
                                                         else None),
                                                        effOut), st')))))))"

text \<open>
  The relationship between marginals and message parameters up to a relative deviation
  \<open>eps\<close> (the spec asks for \<open>10\<^sup>-\<^sup>9\<close>).
\<close>

definition sumInvariantTol :: "real \<Rightarrow> factorizedEPDriver \<Rightarrow> bool" where
  "sumInvariantTol eps st =
     (\<forall>i<length (margPi st).
        \<bar>margPi st ! i - msgSum (colInd (epRepr st)) (piVals (epRepr st)) i\<bar>
          \<le> eps * \<bar>msgSum (colInd (epRepr st)) (piVals (epRepr st)) i\<bar>
        \<and> \<bar>margBeta st ! i - msgSum (colInd (epRepr st)) (betaVals (epRepr st)) i\<bar>
          \<le> eps * \<bar>msgSum (colInd (epRepr st)) (betaVals (epRepr st)) i\<bar>)"

text \<open>Every number the driver stores in its arrays is a double.\<close>

definition doubles :: "factorizedEPDriver \<Rightarrow> bool" where
  "doubles st =
     (list_all (\<lambda>x. fl x = x)
        (bVals (epRepr st) @ betaVals (epRepr st) @ piVals (epRepr st)
           @ margBeta st @ margPi st @ [piMinThres st]))"

subsection \<open>Example drivers\<close>

text \<open>A potential whose moment computation succeeds with the same result for every input.\<close>

definition constPotential :: "argumentGroup \<Rightarrow> real list \<Rightarrow> potential" where
  "constPotential g ret = \<lparr>getArgumentGroup = g, compMoments = (\<lambda>inp. Some ret)\<rparr>"

text \<open>
  One univariate factor on one variable, \<open>b = 1\<close>, message \<open>(beta, pi) = (1, 1/2)\<close>,
  marginal \<open>(2, 1)\<close>; the potential answers \<open>(alpha, nu) = (0, -10)\<close>.
\<close>

definition exUni :: factorizedEPDriver where
  "exUni = \<lparr>epPots = [constPotential atypeUnivariate [0, -10]],
     epRepr = \<lparr>rowSz = [1], colInd = [0], bVals = [1], betaVals = [1], piVals = [1 / 2]\<rparr>,
     epReprPrec = None, margBeta = [2], margPi = [1], piMinThres = 1 / 10,
     epMaxPi = None, margA = [], margC = [], aMinThres = 1, cMinThres = 1,
     epMaxA = None, epMaxC = None, buffVec = []\<rparr>"

text \<open>
  The spec's scenario S2: the message precision \<open>1\<close> is nearly the whole marginal
  precision \<open>1 + 10\<^sup>-\<^sup>9\<close>, with \<open>piMinThres = 10\<^sup>-\<^sup>6\<close>.
\<close>

definition exCavity :: factorizedEPDriver where
  "exCavity = \<lparr>epPots = [constPotential atypeUnivariate [2, 1 / 2]],
     epRepr = \<lparr>rowSz = [1], colInd = [0], bVals = [1], betaVals = [0], piVals = [1]\<rparr>,
     epReprPrec = None, margBeta = [0], margPi = [1 + 1 / 1000000000], piMinThres = 1 / 1000000,
     epMaxPi = None, margA = [], margC = [], aMinThres = 1, cMinThres = 1,
     epMaxA = None, epMaxC = None, buffVec = []\<rparr>"

text \<open>
  The spec's scenario S3: two univariate factors on one variable, \<open>b = 1\<close>, message
  precisions \<open>10\<close> and \<open>1\<close>, marginal precision \<open>11\<close>, \<open>piMinThres = 1/10\<close>,
  and the index of maximum values. The potential of factor \<open>1\<close> answers
  \<open>(alpha, nu) = (0, -10/19)\<close>, which gives the new precision \<open>-1/2\<close> without damping.
\<close>

definition exClamp :: factorizedEPDriver where
  "exClamp = \<lparr>epPots = [constPotential atypeUnivariate [0, 0],
                         constPotential atypeUnivariate [0, - (10 / 19)]],
     epRepr = \<lparr>rowSz = [1, 1], colInd = [0, 0], bVals = [1, 1], betaVals = [0, 0],
                piVals = [10, 1]\<rparr>,
     epReprPrec = None, margBeta = [0], margPi = [11], piMinThres = 1 / 10,
     epMaxPi = Some [[(0, 10), (1, 1)]], margA = [], margC = [], aMinThres = 1, cMinThres = 1,
     epMaxA = None, epMaxC = None, buffVec = []\<rparr>"

text \<open>The driver \<open>exClamp\<close> after the update on factor \<open>1\<close>.\<close>

definition exClampAfter :: factorizedEPDriver where
  "exClampAfter = \<lparr>epPots = [constPotential atypeUnivariate [0, 0],
                         constPotential atypeUnivariate [0, - (10 / 19)]],
     epRepr = \<lparr>rowSz = [1, 1], colInd = [0, 0], bVals = [1, 1], betaVals = [0, 0],
                piVals = [10, 1 / 10]\<rparr>,
     epReprPrec = None, margBeta = [0], margPi = [101 / 10], piMinThres = 1 / 10,
     epMaxPi = Some [[(0, 10), (1, 1 / 10)]], margA = [], margC = [], aMinThres = 1,
     cMinThres = 1, epMaxA = None, epMaxC = None, buffVec = [0, 1 / 10, 0, 101 / 10]\<rparr>"

text \<open>
  As \<open>exUni\<close>, but the potential answers \<open>(alpha, nu) = (0, 0)\<close>; and the driver
  after the update with damping factor \<open>0\<close> and with damping factor \<open>1/2\<close>.
\<close>

definition exZero :: factorizedEPDriver where
  "exZero = \<lparr>epPots = [constPotential atypeUnivariate [0, 0]],
     epRepr = \<lparr>rowSz = [1], colInd = [0], bVals = [1], betaVals = [1], piVals = [1 / 2]\<rparr>,
     epReprPrec = None, margBeta = [2], margPi = [1], piMinThres = 1 / 10,
     epMaxPi = None, margA = [], margC = [], aMinThres = 1, cMinThres = 1,
     epMaxA = None, epMaxC = None, buffVec = []\<rparr>"

definition exZeroAfter :: factorizedEPDriver where
  "exZeroAfter = \<lparr>epPots = [constPotential atypeUnivariate [0, 0]],
     epRepr = \<lparr>rowSz = [1], colInd = [0], bVals = [1], betaVals = [0], piVals = [0]\<rparr>,
     epReprPrec = None, margBeta = [1], margPi = [1 / 2], piMinThres = 1 / 10,
     epMaxPi = None, margA = [], margC = [], aMinThres = 1, cMinThres = 1,
     epMaxA = None, epMaxC = None, buffVec = [0, 0, 1, 1 / 2]\<rparr>"

definition exZeroHalf :: factorizedEPDriver where
  "exZeroHalf = \<lparr>epPots = [constPotential atypeUnivariate [0, 0]],
     epRepr = \<lparr>rowSz = [1], colInd = [0], bVals = [1], betaVals = [1 / 2], piVals = [1 / 4]\<rparr>,
     epReprPrec = None, margBeta = [3 / 2], margPi = [3 / 4], piMinThres = 1 / 10,
     epMaxPi = None, margA = [], margC = [], aMinThres = 1, cMinThres = 1,
     epMaxA = None, epMaxC = None, buffVec = [1 / 2, 1 / 4, 3 / 2, 3 / 4]\<rparr>"

text \<open>
  A coefficient of absolute value exactly \<open>10\<^sup>-\<^sup>6\<close>: one univariate factor on one
  variable with \<open>b = 10\<^sup>-\<^sup>6\<close>, cavity precision \<open>1\<close>, and a potential that
  answers \<open>(alpha, nu) = (0, 10\<^sup>1\<^sup>2 - 10)\<close>.
\<close>

definition exBound :: factorizedEPDriver where
  "exBound = \<lparr>epPots = [constPotential atypeUnivariate [0, 999999999990]],
     epRepr = \<lparr>rowSz = [1], colInd = [0], bVals = [1 / 1000000], betaVals = [0],
                piVals = [0]\<rparr>,
     epReprPrec = None, margBeta = [0], margPi = [1], piMinThres = 1 / 10,
     epMaxPi = None, margA = [], margC = [], aMinThres = 1, cMinThres = 1,
     epMaxA = None, epMaxC = None, buffVec = []\<rparr>"


text \<open>
  A driver over bivariate precision potentials: one factor on one variable and one
  precision variable, message \<open>(beta, pi, a, c) = (1, 1/2, 1, 1)\<close>, marginals
  \<open>(2, 1)\<close> and \<open>(a_0, c_0) = (3, 3)\<close>, indices of maximum values for \<open>a\<close> and
  \<open>c\<close>; the potential answers \<open>(alpha, nu, hatA, hatC) = (0, 0, 7, 9)\<close>. And the
  driver after the update.
\<close>

definition exPrec :: factorizedEPDriver where
  "exPrec = \<lparr>epPots = [constPotential atypeBivarPrec [0, 0, 7, 9]],
     epRepr = \<lparr>rowSz = [1], colInd = [0], bVals = [1], betaVals = [1], piVals = [1 / 2]\<rparr>,
     epReprPrec = Some \<lparr>tauInd = [0], aVals = [1], cVals = [1]\<rparr>,
     margBeta = [2], margPi = [1], piMinThres = 1 / 10,
     epMaxPi = None, margA = [3], margC = [3], aMinThres = 1, cMinThres = 1,
     epMaxA = Some [[(0, 1)]], epMaxC = Some [[(0, 1)]], buffVec = []\<rparr>"

definition exPrecAfter :: factorizedEPDriver where
  "exPrecAfter = \<lparr>epPots = [constPotential atypeBivarPrec [0, 0, 7, 9]],
     epRepr = \<lparr>rowSz = [1], colInd = [0], bVals = [1], betaVals = [0], piVals = [0]\<rparr>,
     epReprPrec = Some \<lparr>tauInd = [0], aVals = [1], cVals = [1]\<rparr>,
     margBeta = [1], margPi = [1 / 2], piMinThres = 1 / 10,
     epMaxPi = None, margA = [3], margC = [3], aMinThres = 1, cMinThres = 1,
     epMaxA = Some [[(0, 1)]], epMaxC = Some [[(0, 1)]], buffVec = [0, 0, 1, 1 / 2]\<rparr>"

text \<open>
  A driver over bivariate precision potentials with two factors on one variable and one
  precision variable: message precisions \<open>1/2\<close> and \<open>1\<close>, marginal precision
  \<open>3/2\<close>, \<open>piMinThres = 1/2\<close>; \<open>a_0 = a_1 = 1\<close> with marginal \<open>2\<close>,
  \<open>aMinThres = 1/2\<close>, maximum value \<open>1\<close>, and the same for \<open>c\<close>. The potential of
  factor \<open>0\<close> answers \<open>(alpha, nu, hatA, hatC) = (0, 0, 3/2, 3)\<close>, so that the new
  \<open>a\<close> parameter without damping is \<open>1/2\<close>, below \<open>a_0 = 1\<close>.
\<close>

definition exPrecClamp :: factorizedEPDriver where
  "exPrecClamp = \<lparr>epPots = [constPotential atypeBivarPrec [0, 0, 3 / 2, 3],
                             constPotential atypeBivarPrec [0, 0, 1, 1]],
     epRepr = \<lparr>rowSz = [1, 1], colInd = [0, 0], bVals = [1, 1], betaVals = [0, 0],
                piVals = [1 / 2, 1]\<rparr>,
     epReprPrec = Some \<lparr>tauInd = [0, 0], aVals = [1, 1], cVals = [1, 1]\<rparr>,
     margBeta = [0], margPi = [3 / 2], piMinThres = 1 / 2,
     epMaxPi = None, margA = [2], margC = [2], aMinThres = 1 / 2, cMinThres = 1 / 2,
     epMaxA = Some [[(0, 1), (1, 1)]], epMaxC = Some [[(0, 1), (1, 1)]], buffVec = []\<rparr>"

text \<open>
  Three univariate factors on two variables: factor \<open>0\<close> touches the variables \<open>0\<close>
  and \<open>1\<close> with the coefficients \<open>1\<close> and \<open>2\<close>, factor \<open>1\<close> touches variable
  \<open>0\<close> and factor \<open>2\<close> variable \<open>1\<close>. The marginals are the sums of the message
  parameters. The potential of factor \<open>0\<close> answers \<open>(alpha, nu) = (1, 1/8)\<close>. And the
  driver after the update on factor \<open>0\<close> with damping factor \<open>1/2\<close>.
\<close>

definition exTwo :: factorizedEPDriver where
  "exTwo = \<lparr>epPots = [constPotential atypeUnivariate [1, 1 / 8],
                       constPotential atypeUnivariate [0, 0],
                       constPotential atypeUnivariate [0, 0]],
     epRepr = \<lparr>rowSz = [2, 1, 1], colInd = [0, 1, 0, 1], bVals = [1, 2, 1, 1],
                betaVals = [1, 2, 3, 4], piVals = [1, 2, 1, 1]\<rparr>,
     epReprPrec = None, margBeta = [4, 6], margPi = [2, 3], piMinThres = 1 / 10,
     epMaxPi = None, margA = [], margC = [], aMinThres = 1, cMinThres = 1,
     epMaxA = None, epMaxC = None, buffVec = []\<rparr>"

definition exTwoAfter :: factorizedEPDriver where
  "exTwoAfter = \<lparr>epPots = [constPotential atypeUnivariate [1, 1 / 8],
                       constPotential atypeUnivariate [0, 0],
                       constPotential atypeUnivariate [0, 0]],
     epRepr = \<lparr>rowSz = [2, 1, 1], colInd = [0, 1, 0, 1], bVals = [1, 2, 1, 1],
                betaVals = [9 / 7, 5, 3, 4], piVals = [4 / 7, 3 / 2, 1, 1]\<rparr>,
     epReprPrec = None, margBeta = [30 / 7, 9], margPi = [11 / 7, 5 / 2], piMinThres = 1 / 10,
     epMaxPi = None, margA = [], margC = [], aMinThres = 1, cMinThres = 1,
     epMaxA = None, epMaxC = None,
     buffVec = [9 / 7, 5, 4 / 7, 3 / 2, 30 / 7, 9, 11 / 7, 5 / 2]\<rparr>"

text \<open>
  Three univariate factors on one variable, \<open>b = 1\<close>, all numbers doubles: the message
  precisions are \<open>1/4 + 3 * 2\<^sup>-\<^sup>5\<^sup>4\<close>, \<open>1/2 + 2\<^sup>-\<^sup>5\<^sup>3\<close> and \<open>1/2 - 2\<^sup>-\<^sup>5\<^sup>4\<close>, the
  marginal precision is their sum \<open>5/4 + 2\<^sup>-\<^sup>5\<^sup>2\<close>, all \<open>beta\<close> are \<open>0\<close>,
  \<open>piMinThres = 2\<^sup>-\<^sup>3\<^sup>0\<close>, and there is no index of maximum values. The marginal
  precision is above \<open>piMinThres\<close>, and above the largest message precision by more than
  \<open>piMinThres\<close>. The potential of factor \<open>0\<close> answers
  \<open>(alpha, nu) = (0, - (2\<^sup>3\<^sup>0 - 1))\<close>. And the driver after the update on factor \<open>0\<close>
  in double arithmetic.
\<close>

definition exRound :: factorizedEPDriver where
  "exRound = \<lparr>epPots = [constPotential atypeUnivariate [0, - 1073741823],
                         constPotential atypeUnivariate [0, 0],
                         constPotential atypeUnivariate [0, 0]],
     epRepr = \<lparr>rowSz = [1, 1, 1], colInd = [0, 0, 0], bVals = [1, 1, 1],
                betaVals = [0, 0, 0],
                piVals = [1 / 4 + 3 / 2 ^ 54, 1 / 2 + 1 / 2 ^ 53, 1 / 2 - 1 / 2 ^ 54]\<rparr>,
     epReprPrec = None, margBeta = [0], margPi = [5 / 4 + 1 / 2 ^ 52],
     piMinThres = 1 / 2 ^ 30,
     epMaxPi = None, margA = [], margC = [], aMinThres = 1, cMinThres = 1,
     epMaxA = None, epMaxC = None, buffVec = []\<rparr>"

definition exRoundAfter :: factorizedEPDriver where
  "exRoundAfter = \<lparr>epPots = [constPotential atypeUnivariate [0, - 1073741823],
                         constPotential atypeUnivariate [0, 0],
                         constPotential atypeUnivariate [0, 0]],
     epRepr = \<lparr>rowSz = [1, 1, 1], colInd = [0, 0, 0], bVals = [1, 1, 1],
                betaVals = [0, 0, 0],
                piVals = [- (1073741823 / 2 ^ 30), 1 / 2 + 1 / 2 ^ 53, 1 / 2 - 1 / 2 ^ 54]\<rparr>,
     epReprPrec = None, margBeta = [0], margPi = [1 / 2 ^ 30], piMinThres = 1 / 2 ^ 30,
     epMaxPi = None, margA = [], margC = [], aMinThres = 1, cMinThres = 1,
     epMaxA = None, epMaxC = None,
     buffVec = [0, - (1073741823 / 2 ^ 30), 0, 1 / 2 ^ 30]\<rparr>"

section \<open>Properties\<close>

subsection \<open>Status codes and loops\<close>

lemma upd_status_distinct:
  "updSuccess \<noteq> updCavityInvalid" "updSuccess \<noteq> updNumericalError"
  "updSuccess \<noteq> updMarginalsInvalid" "updSuccess \<noteq> updCavCondSkipped"
  "updCavityInvalid \<noteq> updNumericalError" "updCavityInvalid \<noteq> updMarginalsInvalid"
  "updCavityInvalid \<noteq> updCavCondSkipped" "updNumericalError \<noteq> updMarginalsInvalid"
  "updNumericalError \<noteq> updCavCondSkipped" "updMarginalsInvalid \<noteq> updCavCondSkipped"
  by (simp_all add: updSuccess_def updCavityInvalid_def updNumericalError_def
      updMarginalsInvalid_def updCavCondSkipped_def)

lemma forLoop_Inl_mono:
  "forLoop body s0 n = Inl r \<Longrightarrow> n \<le> m \<Longrightarrow> forLoop body s0 m = Inl r"
  by (induction m) (auto simp: le_Suc_eq)

lemma cavityBody_Inr:
  assumes "cavityBody st off vjSz ii (bv, cH, cRho, mH, mRho) = Inr (bv', cH', cRho', mH', mRho')"
  shows "bv' = bv[vjSz + ii := cavPi st off ii, ii := cavBeta st off ii]"
    and "\<not> cavPi st off ii < 0.5 * piMinThres st"
    and "cH' = cH + bVals (epRepr st) ! (off + ii) / cavPi st off ii * cavBeta st off ii"
    and "cRho' = cRho + bVals (epRepr st) ! (off + ii) * (bVals (epRepr st) ! (off + ii) / cavPi st off ii)"
    and "mH' = mH + bVals (epRepr st) ! (off + ii) / margPi st ! (colInd (epRepr st) ! (off + ii))
                 * margBeta st ! (colInd (epRepr st) ! (off + ii))"
    and "mRho' = mRho + bVals (epRepr st) ! (off + ii)
                 * (bVals (epRepr st) ! (off + ii) / margPi st ! (colInd (epRepr st) ! (off + ii)))"
  using assms by (auto simp: cavityBody_def cavPi_def cavBeta_def Let_def split: if_splits)

lemma cavityBody_Inl:
  assumes "cavityBody st off vjSz ii s = Inl (status, eff, bv')"
  shows "status = updCavityInvalid \<and> eff = None \<and> cavPi st off ii < 0.5 * piMinThres st"
  using assms by (cases s) (auto simp: cavityBody_def cavPi_def Let_def split: if_splits)

lemma cavityLoop_Inl:
  "forLoop (cavityBody st off vjSz) s0 n = Inl (status, eff, bv)
   \<Longrightarrow> status = updCavityInvalid \<and> eff = None \<and> (\<exists>ii<n. cavPi st off ii < 0.5 * piMinThres st)"
proof (induction n)
  case 0
  then show ?case by simp
next
  case (Suc n)
  show ?case
  proof (cases "forLoop (cavityBody st off vjSz) s0 n")
    case (Inl r)
    with Suc show ?thesis by (auto simp: less_Suc_eq)
  next
    case (Inr s)
    with Suc.prems have "cavityBody st off vjSz n s = Inl (status, eff, bv)" by simp
    from cavityBody_Inl [OF this] show ?thesis by auto
  qed
qed

lemma cavityLoop_Inr:
  assumes "forLoop (cavityBody st off vjSz) (bv0, 0, 0, 0, 0) n = Inr (bv, cH, cRho, mH, mRho)"
    and "n \<le> vjSz" and "4 * vjSz \<le> length bv0"
  shows "length bv = length bv0
    \<and> (\<forall>ii<n. bv ! (vjSz + ii) = cavPi st off ii \<and> bv ! ii = cavBeta st off ii
           \<and> \<not> cavPi st off ii < 0.5 * piMinThres st)
    \<and> cH = (\<Sum>ii<n. bVals (epRepr st) ! (off + ii) / cavPi st off ii * cavBeta st off ii)
    \<and> cRho = (\<Sum>ii<n. bVals (epRepr st) ! (off + ii) * (bVals (epRepr st) ! (off + ii) / cavPi st off ii))
    \<and> mH = (\<Sum>ii<n. bVals (epRepr st) ! (off + ii) / margPi st ! (colInd (epRepr st) ! (off + ii))
                 * margBeta st ! (colInd (epRepr st) ! (off + ii)))
    \<and> mRho = (\<Sum>ii<n. bVals (epRepr st) ! (off + ii)
                 * (bVals (epRepr st) ! (off + ii) / margPi st ! (colInd (epRepr st) ! (off + ii))))"
  using assms
proof (induction n arbitrary: bv cH cRho mH mRho)
  case 0
  then show ?case by simp
next
  case (Suc n)
  from Suc.prems(1) obtain bv' cH' cRho' mH' mRho' where
    prev: "forLoop (cavityBody st off vjSz) (bv0, 0, 0, 0, 0) n = Inr (bv', cH', cRho', mH', mRho')"
    and body: "cavityBody st off vjSz n (bv', cH', cRho', mH', mRho') = Inr (bv, cH, cRho, mH, mRho)"
    by (auto split: sum.splits)
  from Suc.IH [OF prev] Suc.prems have IH:
    "length bv' = length bv0"
    "\<forall>ii<n. bv' ! (vjSz + ii) = cavPi st off ii \<and> bv' ! ii = cavBeta st off ii
           \<and> \<not> cavPi st off ii < 0.5 * piMinThres st"
    "cH' = (\<Sum>ii<n. bVals (epRepr st) ! (off + ii) / cavPi st off ii * cavBeta st off ii)"
    "cRho' = (\<Sum>ii<n. bVals (epRepr st) ! (off + ii) * (bVals (epRepr st) ! (off + ii) / cavPi st off ii))"
    "mH' = (\<Sum>ii<n. bVals (epRepr st) ! (off + ii) / margPi st ! (colInd (epRepr st) ! (off + ii))
                 * margBeta st ! (colInd (epRepr st) ! (off + ii)))"
    "mRho' = (\<Sum>ii<n. bVals (epRepr st) ! (off + ii)
                 * (bVals (epRepr st) ! (off + ii) / margPi st ! (colInd (epRepr st) ! (off + ii))))"
    by simp_all
  note b = cavityBody_Inr [OF body]
  have len: "length bv = length bv0" using b(1) IH(1) by simp
  have reg: "\<forall>ii<Suc n. bv ! (vjSz + ii) = cavPi st off ii \<and> bv ! ii = cavBeta st off ii
           \<and> \<not> cavPi st off ii < 0.5 * piMinThres st"
  proof (intro allI impI)
    fix ii assume "ii < Suc n"
    then consider "ii < n" | "ii = n" by linarith
    then show "bv ! (vjSz + ii) = cavPi st off ii \<and> bv ! ii = cavBeta st off ii
           \<and> \<not> cavPi st off ii < 0.5 * piMinThres st"
    proof cases
      case 1
      with IH(2) b(1) Suc.prems(2) show ?thesis by (simp add: nth_list_update)
    next
      case 2
      with b(1,2) IH(1) Suc.prems(2,3) show ?thesis by (simp add: nth_list_update)
    qed
  qed
  show ?case using len reg b(3-6) IH(3-6) by simp
qed

subsection \<open>The second loop\<close>

lemma updateBody_Inl:
  assumes "updateBody st off vjSz alpha nu we ii s = Inl (status, eff, bv')"
  shows "(status = updNumericalError \<and> eff = None)
       \<or> (status = updCavCondSkipped \<and> eff = (if we then Some 1 else None))"
  using assms
  by (cases s) (auto simp: updateBody_def Let_def split: option.splits if_splits prod.splits)

lemma updateBody_Inr:
  assumes "updateBody st off vjSz alpha nu we ii (bv, d, i0, p0) = Inr (bv', d', i', p')"
  shows "\<exists>prBeta. undampedMsg (bVals (epRepr st) ! (off + ii)) (bv ! (vjSz + ii)) (bv ! ii) alpha nu
           = Some (p', prBeta) \<and> bv' = bv[3 * vjSz + ii := p', 2 * vjSz + ii := prBeta]"
    and "i' = colInd (epRepr st) ! (off + ii)"
    and "d' = (case epMaxPi st of None \<Rightarrow> d
               | Some mp \<Rightarrow> if p' < piVals (epRepr st) ! (off + ii)
                   then max d (1 - oneMinusEta st off ii (getMaxValue mp i') p') else d)"
    and "\<And>mp. epMaxPi st = Some mp \<Longrightarrow> p' < piVals (epRepr st) ! (off + ii)
           \<Longrightarrow> 0 < getMaxValue mp i' \<and> 0.02 < oneMinusEta st off ii (getMaxValue mp i') p'"
  using assms
  by (auto simp: updateBody_def Let_def split: option.splits if_splits prod.splits)

lemma updateLoop_Inl:
  "forLoop (updateBody st off vjSz alpha nu we) s0 n = Inl (status, eff, bv)
   \<Longrightarrow> (status = updNumericalError \<and> eff = None)
       \<or> (status = updCavCondSkipped \<and> eff = (if we then Some 1 else None))"
proof (induction n)
  case 0
  then show ?case by simp
next
  case (Suc n)
  show ?case
  proof (cases "forLoop (updateBody st off vjSz alpha nu we) s0 n")
    case (Inl r)
    with Suc show ?thesis by auto
  next
    case (Inr s)
    with Suc.prems have "updateBody st off vjSz alpha nu we n s = Inl (status, eff, bv)" by simp
    from updateBody_Inl [OF this] show ?thesis .
  qed
qed

lemma updateLoop_Inr:
  assumes "forLoop (updateBody st off vjSz alpha nu we) (bv1, d0, i0, p0) n = Inr (bv2, d, i, p)"
    and "n \<le> vjSz" and "4 * vjSz \<le> length bv1"
  shows "length bv2 = length bv1
    \<and> (\<forall>q<2 * vjSz. bv2 ! q = bv1 ! q)
    \<and> (\<forall>ii<n. undampedMsg (bVals (epRepr st) ! (off + ii)) (bv1 ! (vjSz + ii)) (bv1 ! ii) alpha nu
                 = Some (bv2 ! (3 * vjSz + ii), bv2 ! (2 * vjSz + ii)))
    \<and> (\<forall>ii. n \<le> ii \<and> ii < vjSz \<longrightarrow> bv2 ! (3 * vjSz + ii) = bv1 ! (3 * vjSz + ii)
                 \<and> bv2 ! (2 * vjSz + ii) = bv1 ! (2 * vjSz + ii))
    \<and> d0 \<le> d \<and> (d = d0 \<or> d < 0.98)
    \<and> (0 < n \<longrightarrow> i = colInd (epRepr st) ! (off + (n - 1)) \<and> p = bv2 ! (3 * vjSz + (n - 1)))"
  using assms
proof (induction n arbitrary: bv2 d i p)
  case 0
  then show ?case by simp
next
  case (Suc n)
  from Suc.prems(1) obtain bv' d' i' p' where
    prev: "forLoop (updateBody st off vjSz alpha nu we) (bv1, d0, i0, p0) n = Inr (bv', d', i', p')"
    and body: "updateBody st off vjSz alpha nu we n (bv', d', i', p') = Inr (bv2, d, i, p)"
    by (auto split: sum.splits)
  from Suc.IH [OF prev] Suc.prems have IH:
    "length bv' = length bv1"
    "\<forall>q<2 * vjSz. bv' ! q = bv1 ! q"
    "\<forall>ii<n. undampedMsg (bVals (epRepr st) ! (off + ii)) (bv1 ! (vjSz + ii)) (bv1 ! ii) alpha nu
                 = Some (bv' ! (3 * vjSz + ii), bv' ! (2 * vjSz + ii))"
    "\<forall>ii. n \<le> ii \<and> ii < vjSz \<longrightarrow> bv' ! (3 * vjSz + ii) = bv1 ! (3 * vjSz + ii)
                 \<and> bv' ! (2 * vjSz + ii) = bv1 ! (2 * vjSz + ii)"
    "d0 \<le> d'" "d' = d0 \<or> d' < 0.98"
    by simp_all
  note b = updateBody_Inr [OF body]
  from b(1) obtain prBeta where
    um: "undampedMsg (bVals (epRepr st) ! (off + n)) (bv' ! (vjSz + n)) (bv' ! n) alpha nu
           = Some (p, prBeta)"
    and bv2: "bv2 = bv'[3 * vjSz + n := p, 2 * vjSz + n := prBeta]" by blast
  have nlt: "n < vjSz" using Suc.prems(2) by simp
  have len: "length bv2 = length bv1" using bv2 IH(1) by simp
  have low: "\<forall>q<2 * vjSz. bv2 ! q = bv1 ! q" using bv2 IH(2) by (simp add: nth_list_update)
  have cav: "bv' ! (vjSz + n) = bv1 ! (vjSz + n)" "bv' ! n = bv1 ! n"
    using IH(2) nlt by simp_all
  have new: "\<forall>ii<Suc n. undampedMsg (bVals (epRepr st) ! (off + ii)) (bv1 ! (vjSz + ii)) (bv1 ! ii) alpha nu
                 = Some (bv2 ! (3 * vjSz + ii), bv2 ! (2 * vjSz + ii))"
  proof (intro allI impI)
    fix ii assume "ii < Suc n"
    then consider "ii < n" | "ii = n" by linarith
    then show "undampedMsg (bVals (epRepr st) ! (off + ii)) (bv1 ! (vjSz + ii)) (bv1 ! ii) alpha nu
                 = Some (bv2 ! (3 * vjSz + ii), bv2 ! (2 * vjSz + ii))"
    proof cases
      case 1
      with IH(3) bv2 nlt show ?thesis by (simp add: nth_list_update)
    next
      case 2
      with um cav bv2 IH(1) nlt Suc.prems(3) show ?thesis by (simp add: nth_list_update)
    qed
  qed
  have rest: "\<forall>ii. Suc n \<le> ii \<and> ii < vjSz \<longrightarrow> bv2 ! (3 * vjSz + ii) = bv1 ! (3 * vjSz + ii)
                 \<and> bv2 ! (2 * vjSz + ii) = bv1 ! (2 * vjSz + ii)"
    using IH(4) bv2 by (simp add: nth_list_update)
  have dmono: "d0 \<le> d \<and> (d = d0 \<or> d < 0.98)"
  proof (cases "epMaxPi st")
    case None
    with b(3) IH(5,6) show ?thesis by simp
  next
    case (Some mp)
    show ?thesis
    proof (cases "p < piVals (epRepr st) ! (off + n)")
      case True
      from b(4) [OF Some True] have "0.02 < oneMinusEta st off n (getMaxValue mp i) p" by simp
      with b(3) Some True IH(5,6) show ?thesis by (auto simp: max_def)
    next
      case False
      with b(3) Some IH(5,6) show ?thesis by simp
    qed
  qed
  have last: "i = colInd (epRepr st) ! (off + n) \<and> p = bv2 ! (3 * vjSz + n)"
    using b(2) bv2 IH(1) nlt Suc.prems(3) by (simp add: nth_list_update)
  show ?case using len low new rest dmono last by simp
qed

subsection \<open>The third loop\<close>

lemma dampBody_Inl:
  assumes "dampBody st off vjSz d eo ii bv = Inl (status, eff, bv')"
  shows "status = updMarginalsInvalid \<and> eff = eo"
  using assms by (auto simp: dampBody_def Let_def split: if_splits)

lemma dampBody_Inr:
  assumes "dampBody st off vjSz d eo ii bv = Inr bv'"
  shows "bv' = bv[3 * vjSz + ii := bv ! (vjSz + ii)
                     + dampedMsg d (piVals (epRepr st) ! (off + ii)) (bv ! (3 * vjSz + ii)),
                  2 * vjSz + ii := bv ! ii
                     + dampedMsg d (betaVals (epRepr st) ! (off + ii)) (bv ! (2 * vjSz + ii)),
                  vjSz + ii := dampedMsg d (piVals (epRepr st) ! (off + ii)) (bv ! (3 * vjSz + ii)),
                  ii := dampedMsg d (betaVals (epRepr st) ! (off + ii)) (bv ! (2 * vjSz + ii))]"
    and "\<not> bv ! (vjSz + ii) + dampedMsg d (piVals (epRepr st) ! (off + ii)) (bv ! (3 * vjSz + ii))
           < 0.5 * piMinThres st"
  using assms by (auto simp: dampBody_def dampedMsg_def Let_def split: if_splits)

lemma dampLoop_Inl:
  "forLoop (dampBody st off vjSz d eo) s0 n = Inl (status, eff, bv)
   \<Longrightarrow> status = updMarginalsInvalid \<and> eff = eo"
proof (induction n)
  case 0
  then show ?case by simp
next
  case (Suc n)
  show ?case
  proof (cases "forLoop (dampBody st off vjSz d eo) s0 n")
    case (Inl r)
    with Suc show ?thesis by auto
  next
    case (Inr s)
    with Suc.prems have "dampBody st off vjSz d eo n s = Inl (status, eff, bv)" by simp
    from dampBody_Inl [OF this] show ?thesis .
  qed
qed

lemma dampLoop_Inr:
  assumes "forLoop (dampBody st off vjSz d eo) bv2 n = Inr bv3"
    and "n \<le> vjSz" and "4 * vjSz \<le> length bv2"
  shows "length bv3 = length bv2
    \<and> (\<forall>ii<n. bv3 ! (vjSz + ii) = dampedMsg d (piVals (epRepr st) ! (off + ii)) (bv2 ! (3 * vjSz + ii))
           \<and> bv3 ! ii = dampedMsg d (betaVals (epRepr st) ! (off + ii)) (bv2 ! (2 * vjSz + ii))
           \<and> bv3 ! (3 * vjSz + ii) = bv2 ! (vjSz + ii) + bv3 ! (vjSz + ii)
           \<and> bv3 ! (2 * vjSz + ii) = bv2 ! ii + bv3 ! ii
           \<and> \<not> bv3 ! (3 * vjSz + ii) < 0.5 * piMinThres st)
    \<and> (\<forall>ii. n \<le> ii \<and> ii < vjSz \<longrightarrow> bv3 ! ii = bv2 ! ii \<and> bv3 ! (vjSz + ii) = bv2 ! (vjSz + ii)
           \<and> bv3 ! (2 * vjSz + ii) = bv2 ! (2 * vjSz + ii)
           \<and> bv3 ! (3 * vjSz + ii) = bv2 ! (3 * vjSz + ii))"
  using assms
proof (induction n arbitrary: bv3)
  case 0
  then show ?case by simp
next
  case (Suc n)
  from Suc.prems(1) obtain bv' where
    prev: "forLoop (dampBody st off vjSz d eo) bv2 n = Inr bv'"
    and body: "dampBody st off vjSz d eo n bv' = Inr bv3"
    by (auto split: sum.splits)
  have nle: "n \<le> vjSz" using Suc.prems(2) by simp
  note IH0 = Suc.IH [OF prev nle Suc.prems(3)]
  note IH = IH0 [THEN conjunct1] IH0 [THEN conjunct2, THEN conjunct1]
    IH0 [THEN conjunct2, THEN conjunct2]
  note b = dampBody_Inr [OF body]
  have nlt: "n < vjSz" using Suc.prems(2) by simp
  have lenb: "4 * vjSz \<le> length bv'" using IH(1) Suc.prems(3) by simp
  have atn: "bv' ! n = bv2 ! n" "bv' ! (vjSz + n) = bv2 ! (vjSz + n)"
    "bv' ! (2 * vjSz + n) = bv2 ! (2 * vjSz + n)" "bv' ! (3 * vjSz + n) = bv2 ! (3 * vjSz + n)"
    using IH(3) nlt by simp_all
  have len: "length bv3 = length bv2" using b(1) IH(1) by simp
  have upto: "\<forall>ii<Suc n. bv3 ! (vjSz + ii) = dampedMsg d (piVals (epRepr st) ! (off + ii)) (bv2 ! (3 * vjSz + ii))
           \<and> bv3 ! ii = dampedMsg d (betaVals (epRepr st) ! (off + ii)) (bv2 ! (2 * vjSz + ii))
           \<and> bv3 ! (3 * vjSz + ii) = bv2 ! (vjSz + ii) + bv3 ! (vjSz + ii)
           \<and> bv3 ! (2 * vjSz + ii) = bv2 ! ii + bv3 ! ii
           \<and> \<not> bv3 ! (3 * vjSz + ii) < 0.5 * piMinThres st"
  proof (intro allI impI)
    fix ii assume "ii < Suc n"
    then consider "ii < n" | "ii = n" by linarith
    then show "bv3 ! (vjSz + ii) = dampedMsg d (piVals (epRepr st) ! (off + ii)) (bv2 ! (3 * vjSz + ii))
           \<and> bv3 ! ii = dampedMsg d (betaVals (epRepr st) ! (off + ii)) (bv2 ! (2 * vjSz + ii))
           \<and> bv3 ! (3 * vjSz + ii) = bv2 ! (vjSz + ii) + bv3 ! (vjSz + ii)
           \<and> bv3 ! (2 * vjSz + ii) = bv2 ! ii + bv3 ! ii
           \<and> \<not> bv3 ! (3 * vjSz + ii) < 0.5 * piMinThres st"
    proof cases
      case 1
      with IH(2) nlt have "bv3 ! (vjSz + ii) = bv' ! (vjSz + ii)" "bv3 ! ii = bv' ! ii"
        "bv3 ! (3 * vjSz + ii) = bv' ! (3 * vjSz + ii)" "bv3 ! (2 * vjSz + ii) = bv' ! (2 * vjSz + ii)"
        unfolding b(1) by (simp_all add: nth_list_update)
      with IH(2) [rule_format, OF 1] show ?thesis by simp
    next
      case 2
      have "bv3 ! (vjSz + n) = dampedMsg d (piVals (epRepr st) ! (off + n)) (bv' ! (3 * vjSz + n))"
        "bv3 ! n = dampedMsg d (betaVals (epRepr st) ! (off + n)) (bv' ! (2 * vjSz + n))"
        "bv3 ! (3 * vjSz + n) = bv' ! (vjSz + n)
            + dampedMsg d (piVals (epRepr st) ! (off + n)) (bv' ! (3 * vjSz + n))"
        "bv3 ! (2 * vjSz + n) = bv' ! n
            + dampedMsg d (betaVals (epRepr st) ! (off + n)) (bv' ! (2 * vjSz + n))"
        unfolding b(1) using nlt lenb by (simp_all add: nth_list_update)
      with b(2) atn 2 show ?thesis by simp
    qed
  qed
  have rest: "\<forall>ii. Suc n \<le> ii \<and> ii < vjSz \<longrightarrow> bv3 ! ii = bv2 ! ii \<and> bv3 ! (vjSz + ii) = bv2 ! (vjSz + ii)
           \<and> bv3 ! (2 * vjSz + ii) = bv2 ! (2 * vjSz + ii)
           \<and> bv3 ! (3 * vjSz + ii) = bv2 ! (3 * vjSz + ii)"
    unfolding b(1) using IH(3) by (simp add: nth_list_update)
  show ?case using len upto rest by blast
qed

subsection \<open>The last loop\<close>

lemma commitLoop_frame:
  assumes "commitLoop j off vjSz bv st n = (st', mprH, mprRho)"
  shows "epPots st' = epPots st \<and> epReprPrec st' = epReprPrec st
    \<and> piMinThres st' = piMinThres st \<and> margA st' = margA st \<and> margC st' = margC st
    \<and> aMinThres st' = aMinThres st \<and> cMinThres st' = cMinThres st
    \<and> epMaxA st' = epMaxA st \<and> epMaxC st' = epMaxC st \<and> buffVec st' = buffVec st
    \<and> rowSz (epRepr st') = rowSz (epRepr st) \<and> colInd (epRepr st') = colInd (epRepr st)
    \<and> bVals (epRepr st') = bVals (epRepr st)
    \<and> length (piVals (epRepr st')) = length (piVals (epRepr st))
    \<and> length (betaVals (epRepr st')) = length (betaVals (epRepr st))
    \<and> length (margPi st') = length (margPi st) \<and> length (margBeta st') = length (margBeta st)
    \<and> (epMaxPi st' = None \<longleftrightarrow> epMaxPi st = None)"
  using assms
proof (induction n arbitrary: st' mprH mprRho)
  case 0
  then show ?case by simp
next
  case (Suc n)
  obtain st1 h1 r1 where prev: "commitLoop j off vjSz bv st n = (st1, h1, r1)"
    by (cases "commitLoop j off vjSz bv st n") auto
  with Suc.prems have body: "commitBody j off vjSz bv n (st1, h1, r1) = (st', mprH, mprRho)"
    by simp
  note IH = Suc.IH [OF prev]
  from body have "epPots st' = epPots st1 \<and> epReprPrec st' = epReprPrec st1
    \<and> piMinThres st' = piMinThres st1 \<and> margA st' = margA st1 \<and> margC st' = margC st1
    \<and> aMinThres st' = aMinThres st1 \<and> cMinThres st' = cMinThres st1
    \<and> epMaxA st' = epMaxA st1 \<and> epMaxC st' = epMaxC st1 \<and> buffVec st' = buffVec st1
    \<and> rowSz (epRepr st') = rowSz (epRepr st1) \<and> colInd (epRepr st') = colInd (epRepr st1)
    \<and> bVals (epRepr st') = bVals (epRepr st1)
    \<and> length (piVals (epRepr st')) = length (piVals (epRepr st1))
    \<and> length (betaVals (epRepr st')) = length (betaVals (epRepr st1))
    \<and> length (margPi st') = length (margPi st1) \<and> length (margBeta st') = length (margBeta st1)
    \<and> (epMaxPi st' = None \<longleftrightarrow> epMaxPi st1 = None)"
    by (auto simp: commitBody_def Let_def split: option.splits)
  with IH show ?case by simp
qed

lemma commitLoop_sums:
  assumes "commitLoop j off vjSz bv st n = (st', mprH, mprRho)"
  shows "mprH = (\<Sum>ii<n. bVals (epRepr st) ! (off + ii) / bv ! (3 * vjSz + ii) * bv ! (2 * vjSz + ii))
    \<and> mprRho = (\<Sum>ii<n. bVals (epRepr st) ! (off + ii)
                   * (bVals (epRepr st) ! (off + ii) / bv ! (3 * vjSz + ii)))"
  using assms
proof (induction n arbitrary: st' mprH mprRho)
  case 0
  then show ?case by simp
next
  case (Suc n)
  obtain st1 h1 r1 where prev: "commitLoop j off vjSz bv st n = (st1, h1, r1)"
    by (cases "commitLoop j off vjSz bv st n") auto
  with Suc.prems have body: "commitBody j off vjSz bv n (st1, h1, r1) = (st', mprH, mprRho)"
    by simp
  from commitLoop_frame [OF prev] have fr: "bVals (epRepr st1) = bVals (epRepr st)" by simp
  from body fr have "mprH = h1 + bVals (epRepr st) ! (off + n) / bv ! (3 * vjSz + n) * bv ! (2 * vjSz + n)"
    "mprRho = r1 + bVals (epRepr st) ! (off + n) * (bVals (epRepr st) ! (off + n) / bv ! (3 * vjSz + n))"
    by (auto simp: commitBody_def Let_def)
  with Suc.IH [OF prev] show ?case by simp
qed

lemma commitLoop_msgs:
  assumes "commitLoop j off vjSz bv st n = (st', mprH, mprRho)"
    and "off + n \<le> length (piVals (epRepr st))" and "off + n \<le> length (betaVals (epRepr st))"
  shows "(\<forall>ii<n. piVals (epRepr st') ! (off + ii) = bv ! (vjSz + ii)
                \<and> betaVals (epRepr st') ! (off + ii) = bv ! ii)
    \<and> (\<forall>p. \<not> (off \<le> p \<and> p < off + n) \<longrightarrow> piVals (epRepr st') ! p = piVals (epRepr st) ! p
                \<and> betaVals (epRepr st') ! p = betaVals (epRepr st) ! p)"
  using assms
proof (induction n arbitrary: st' mprH mprRho)
  case 0
  then show ?case by simp
next
  case (Suc n)
  obtain st1 h1 r1 where prev: "commitLoop j off vjSz bv st n = (st1, h1, r1)"
    by (cases "commitLoop j off vjSz bv st n") auto
  with Suc.prems have body: "commitBody j off vjSz bv n (st1, h1, r1) = (st', mprH, mprRho)"
    by simp
  have le: "off + n \<le> length (piVals (epRepr st))" "off + n \<le> length (betaVals (epRepr st))"
    using Suc.prems(2,3) by simp_all
  note IH0 = Suc.IH [OF prev le]
  note IH = IH0 [THEN conjunct1] IH0 [THEN conjunct2]
  note fr = commitLoop_frame [OF prev]
  from body have new: "piVals (epRepr st') = (piVals (epRepr st1))[off + n := bv ! (vjSz + n)]"
    "betaVals (epRepr st') = (betaVals (epRepr st1))[off + n := bv ! n]"
    by (auto simp: commitBody_def Let_def split: option.splits)
  have lens: "off + n < length (piVals (epRepr st1))" "off + n < length (betaVals (epRepr st1))"
    using fr Suc.prems(2,3) by simp_all
  have a: "\<forall>ii<Suc n. piVals (epRepr st') ! (off + ii) = bv ! (vjSz + ii)
                \<and> betaVals (epRepr st') ! (off + ii) = bv ! ii"
  proof (intro allI impI)
    fix ii assume "ii < Suc n"
    then consider "ii < n" | "ii = n" by linarith
    then show "piVals (epRepr st') ! (off + ii) = bv ! (vjSz + ii)
                \<and> betaVals (epRepr st') ! (off + ii) = bv ! ii"
    proof cases
      case 1
      with IH(1) [rule_format, OF 1] show ?thesis unfolding new by (simp add: nth_list_update)
    next
      case 2
      with lens show ?thesis unfolding new by simp
    qed
  qed
  have b: "\<forall>p. \<not> (off \<le> p \<and> p < off + Suc n) \<longrightarrow> piVals (epRepr st') ! p = piVals (epRepr st) ! p
                \<and> betaVals (epRepr st') ! p = betaVals (epRepr st) ! p"
  proof (intro allI impI)
    fix p assume p: "\<not> (off \<le> p \<and> p < off + Suc n)"
    then have "\<not> (off \<le> p \<and> p < off + n)" "p \<noteq> off + n" by auto
    with IH(2) [rule_format, of p] show "piVals (epRepr st') ! p = piVals (epRepr st) ! p
                \<and> betaVals (epRepr st') ! p = betaVals (epRepr st) ! p"
      unfolding new by (simp add: nth_list_update)
  qed
  from a b show ?case by blast
qed

lemma commitLoop_marg:
  assumes "commitLoop j off vjSz bv st n = (st', mprH, mprRho)"
    and "\<forall>ii<n. colInd (epRepr st) ! (off + ii) < length (margPi st)
              \<and> colInd (epRepr st) ! (off + ii) < length (margBeta st)"
    and "\<forall>ii<n. \<forall>jj<n. ii \<noteq> jj \<longrightarrow> colInd (epRepr st) ! (off + ii) \<noteq> colInd (epRepr st) ! (off + jj)"
  shows "(\<forall>ii<n. margPi st' ! (colInd (epRepr st) ! (off + ii)) = bv ! (3 * vjSz + ii)
                \<and> margBeta st' ! (colInd (epRepr st) ! (off + ii)) = bv ! (2 * vjSz + ii))
    \<and> (\<forall>i. (\<forall>ii<n. colInd (epRepr st) ! (off + ii) \<noteq> i) \<longrightarrow> margPi st' ! i = margPi st ! i
                \<and> margBeta st' ! i = margBeta st ! i)"
  using assms
proof (induction n arbitrary: st' mprH mprRho)
  case 0
  then show ?case by simp
next
  case (Suc n)
  obtain st1 h1 r1 where prev: "commitLoop j off vjSz bv st n = (st1, h1, r1)"
    by (cases "commitLoop j off vjSz bv st n") auto
  with Suc.prems have body: "commitBody j off vjSz bv n (st1, h1, r1) = (st', mprH, mprRho)"
    by simp
  have h1: "\<forall>ii<n. colInd (epRepr st) ! (off + ii) < length (margPi st)
              \<and> colInd (epRepr st) ! (off + ii) < length (margBeta st)"
    and h2: "\<forall>ii<n. \<forall>jj<n. ii \<noteq> jj \<longrightarrow> colInd (epRepr st) ! (off + ii) \<noteq> colInd (epRepr st) ! (off + jj)"
    using Suc.prems(2,3) by simp_all
  note IH0 = Suc.IH [OF prev h1 h2]
  note IH = IH0 [THEN conjunct1] IH0 [THEN conjunct2]
  note fr = commitLoop_frame [OF prev]
  let ?c = "\<lambda>ii. colInd (epRepr st) ! (off + ii)"
  from body fr have new: "margPi st' = (margPi st1)[?c n := bv ! (3 * vjSz + n)]"
    "margBeta st' = (margBeta st1)[?c n := bv ! (2 * vjSz + n)]"
    by (auto simp: commitBody_def Let_def split: option.splits)
  have lens: "?c n < length (margPi st1)" "?c n < length (margBeta st1)"
    using fr Suc.prems(2) by simp_all
  have a: "\<forall>ii<Suc n. margPi st' ! ?c ii = bv ! (3 * vjSz + ii)
                \<and> margBeta st' ! ?c ii = bv ! (2 * vjSz + ii)"
  proof (intro allI impI)
    fix ii assume "ii < Suc n"
    then consider "ii < n" | "ii = n" by linarith
    then show "margPi st' ! ?c ii = bv ! (3 * vjSz + ii)
                \<and> margBeta st' ! ?c ii = bv ! (2 * vjSz + ii)"
    proof cases
      case 1
      then have "?c ii \<noteq> ?c n" using Suc.prems(3) by auto
      with IH(1) [rule_format, OF 1] show ?thesis unfolding new by (simp add: nth_list_update)
    next
      case 2
      with lens show ?thesis unfolding new by simp
    qed
  qed
  have b: "\<forall>i. (\<forall>ii<Suc n. ?c ii \<noteq> i) \<longrightarrow> margPi st' ! i = margPi st ! i
                \<and> margBeta st' ! i = margBeta st ! i"
  proof (intro allI impI)
    fix i assume i: "\<forall>ii<Suc n. ?c ii \<noteq> i"
    then have "\<forall>ii<n. ?c ii \<noteq> i" "?c n \<noteq> i" by auto
    with IH(2) [rule_format, of i] show "margPi st' ! i = margPi st ! i
                \<and> margBeta st' ! i = margBeta st ! i"
      unfolding new by (simp add: nth_list_update)
  qed
  from a b show ?case by blast
qed

subsection \<open>The paths through the update\<close>

lemma initBuffer_length: "4 * vjSz \<le> length (initBuffer st vjSz)"
  by (simp add: initBuffer_def)

lemma precisionCavity_Inl: "precisionCavity st j = Inl status \<Longrightarrow> status = updCavityInvalid"
  by (auto simp: precisionCavity_def Let_def split: option.splits if_splits)

lemma precisionClamp_Inl:
  "precisionClamp st off vjSz we ret pc s = Inl (status, eff, bv)
   \<Longrightarrow> status = updCavCondSkipped \<and> eff = (if we then Some 1 else None)"
  by (cases pc; cases s) (auto simp: precisionClamp_def Let_def split: option.splits if_splits)

lemma groupOK_iff:
  "groupOK st j \<longleftrightarrow>
     (\<not> (epReprPrec st \<noteq> None) \<and> getArgumentGroup (epPots st ! j) = atypeUnivariate)
     \<or> (epReprPrec st \<noteq> None \<and> getArgumentGroup (epPots st ! j) = atypeBivarPrec)"
  by (auto simp: groupOK_def)

lemma seqUpd_assert:
  "\<not> groupOK st j \<Longrightarrow> sequentialUpdate j d wd we st = (Inl AssertionFailed, st)"
  unfolding groupOK_iff sequentialUpdate_def Let_def by simp

lemma seqUpd_throw:
  "groupOK st j \<Longrightarrow> d < 0 \<or> 1 \<le> d
   \<Longrightarrow> sequentialUpdate j d wd we st = (Inl InvalidParameterException, st)"
  unfolding groupOK_iff sequentialUpdate_def Let_def by simp

lemma seqUpd_run:
  assumes "groupOK st j" and "0 \<le> d" and "d < 1"
  shows "sequentialUpdate j d wd we st =
    (case forLoop (cavityBody st (rowOffset (epRepr st) j) (rowSz (epRepr st) ! j))
            (initBuffer st (rowSz (epRepr st) ! j), 0, 0, 0, 0) (rowSz (epRepr st) ! j) of
       Inl (status, eff, bv) \<Rightarrow> (Inr (status, None, eff), st\<lparr>buffVec := bv\<rparr>)
     | Inr (bv1, cH, cRho, mH, mRho) \<Rightarrow>
         (case precisionCavity st j of
            Inl status \<Rightarrow> (Inr (status, None, None), st\<lparr>buffVec := bv1\<rparr>)
          | Inr prec \<Rightarrow>
              (case compMoments (epPots st ! j) (momentInput cH cRho prec) of
                 None \<Rightarrow> (Inr (updNumericalError, None, None), st\<lparr>buffVec := bv1\<rparr>)
               | Some ret \<Rightarrow>
                   (case forLoop (updateBody st (rowOffset (epRepr st) j) (rowSz (epRepr st) ! j)
                                    (ret ! 0) (ret ! 1) we)
                           (bv1, d, 0, 0) (rowSz (epRepr st) ! j) of
                      Inl (status, eff, bv) \<Rightarrow> (Inr (status, None, eff), st\<lparr>buffVec := bv\<rparr>)
                    | Inr (bv2, dampFact1, i, prPi) \<Rightarrow>
                        (case (case prec of None \<Rightarrow> Inr dampFact1
                               | Some p \<Rightarrow>
                                   precisionClamp st (rowOffset (epRepr st) j)
                                     (rowSz (epRepr st) ! j) we ret p
                                     (bv2, dampFact1, i, prPi)) of
                           Inl (status, eff, bv) \<Rightarrow>
                             (Inr (status, None, eff), st\<lparr>buffVec := bv\<rparr>)
                         | Inr dampFact' \<Rightarrow>
                             (case forLoop (dampBody st (rowOffset (epRepr st) j)
                                              (rowSz (epRepr st) ! j) dampFact'
                                              (if we then Some dampFact' else None))
                                     bv2 (rowSz (epRepr st) ! j) of
                                Inl (status, eff, bv) \<Rightarrow>
                                  (Inr (status, None, eff), st\<lparr>buffVec := bv\<rparr>)
                              | Inr bv3 \<Rightarrow>
                                  (case commitLoop j (rowOffset (epRepr st) j)
                                          (rowSz (epRepr st) ! j) bv3
                                          (st\<lparr>buffVec := bv3\<rparr>) (rowSz (epRepr st) ! j) of
                                     (st', mprH, mprRho) \<Rightarrow>
                                       (Inr (updSuccess,
                                             (if wd
                                              then Some (max (MAXRELDIFF mH mprH)
                                                     (MAXRELDIFF (sqrt mRho) (sqrt mprRho)))
                                              else None),
                                             (if we then Some dampFact' else None)), st'))))))))"
  using assms unfolding groupOK_iff sequentialUpdate_def Let_def by auto

lemma seqUpd_status_cases:
  assumes "sequentialUpdate j d wd we st = (Inr (status, delta, eff), st')"
  shows "groupOK st j \<and> 0 \<le> d \<and> d < 1"
proof -
  have "\<not> groupOK st j \<Longrightarrow> False" using assms seqUpd_assert [of st j d wd we] by simp
  moreover have "groupOK st j \<Longrightarrow> d < 0 \<or> 1 \<le> d \<Longrightarrow> False"
    using assms seqUpd_throw [of st j d wd we] by simp
  ultimately show ?thesis by fastforce
qed

lemma seqUpd_returns:
  assumes "groupOK st j" and "0 \<le> d" and "d < 1"
  shows "\<exists>status delta eff st'. sequentialUpdate j d wd we st = (Inr (status, delta, eff), st')"
  unfolding seqUpd_run [OF assms]
  by (simp split: sum.splits prod.splits option.splits del: split_paired_Ex)

lemma seqUpd_paths:
  fixes st :: factorizedEPDriver and j :: nat
  defines "off \<equiv> rowOffset (epRepr st) j" and "vjSz \<equiv> rowSz (epRepr st) ! j"
  assumes "sequentialUpdate j d wd we st = (Inr (status, delta, eff), st')"
  obtains
    (CavityPi) bv where
      "forLoop (cavityBody st off vjSz) (initBuffer st vjSz, 0, 0, 0, 0) vjSz
         = Inl (updCavityInvalid, None, bv)"
      "status = updCavityInvalid" "delta = None" "eff = None" "st' = st\<lparr>buffVec := bv\<rparr>"
  | (CavityPrec) bv1 cH cRho mH mRho where
      "forLoop (cavityBody st off vjSz) (initBuffer st vjSz, 0, 0, 0, 0) vjSz
         = Inr (bv1, cH, cRho, mH, mRho)"
      "precisionCavity st j = Inl updCavityInvalid"
      "status = updCavityInvalid" "delta = None" "eff = None" "st' = st\<lparr>buffVec := bv1\<rparr>"
  | (Oracle) bv1 cH cRho mH mRho prec where
      "forLoop (cavityBody st off vjSz) (initBuffer st vjSz, 0, 0, 0, 0) vjSz
         = Inr (bv1, cH, cRho, mH, mRho)"
      "precisionCavity st j = Inr prec"
      "compMoments (epPots st ! j) (momentInput cH cRho prec) = None"
      "status = updNumericalError" "delta = None" "eff = None" "st' = st\<lparr>buffVec := bv1\<rparr>"
  | (Update) bv1 cH cRho mH mRho prec ret bv where
      "forLoop (cavityBody st off vjSz) (initBuffer st vjSz, 0, 0, 0, 0) vjSz
         = Inr (bv1, cH, cRho, mH, mRho)"
      "precisionCavity st j = Inr prec"
      "compMoments (epPots st ! j) (momentInput cH cRho prec) = Some ret"
      "forLoop (updateBody st off vjSz (ret ! 0) (ret ! 1) we) (bv1, d, 0, 0) vjSz
         = Inl (status, eff, bv)"
      "(status = updNumericalError \<and> eff = None)
         \<or> (status = updCavCondSkipped \<and> eff = (if we then Some 1 else None))"
      "delta = None" "st' = st\<lparr>buffVec := bv\<rparr>"
  | (Clamp) bv1 cH cRho mH mRho pc ret bv2 d1 i p bv where
      "forLoop (cavityBody st off vjSz) (initBuffer st vjSz, 0, 0, 0, 0) vjSz
         = Inr (bv1, cH, cRho, mH, mRho)"
      "precisionCavity st j = Inr (Some pc)"
      "compMoments (epPots st ! j) (momentInput cH cRho (Some pc)) = Some ret"
      "forLoop (updateBody st off vjSz (ret ! 0) (ret ! 1) we) (bv1, d, 0, 0) vjSz
         = Inr (bv2, d1, i, p)"
      "precisionClamp st off vjSz we ret pc (bv2, d1, i, p) = Inl (updCavCondSkipped, eff, bv)"
      "status = updCavCondSkipped" "eff = (if we then Some 1 else None)"
      "delta = None" "st' = st\<lparr>buffVec := bv\<rparr>"
  | (Damp) bv1 cH cRho mH mRho prec ret bv2 d1 i p d' bv where
      "forLoop (cavityBody st off vjSz) (initBuffer st vjSz, 0, 0, 0, 0) vjSz
         = Inr (bv1, cH, cRho, mH, mRho)"
      "precisionCavity st j = Inr prec"
      "compMoments (epPots st ! j) (momentInput cH cRho prec) = Some ret"
      "forLoop (updateBody st off vjSz (ret ! 0) (ret ! 1) we) (bv1, d, 0, 0) vjSz
         = Inr (bv2, d1, i, p)"
      "(case prec of None \<Rightarrow> Inr d1
        | Some pc \<Rightarrow> precisionClamp st off vjSz we ret pc (bv2, d1, i, p)) = Inr d'"
      "forLoop (dampBody st off vjSz d' (if we then Some d' else None)) bv2 vjSz
         = Inl (updMarginalsInvalid, eff, bv)"
      "status = updMarginalsInvalid" "eff = (if we then Some d' else None)"
      "delta = None" "st' = st\<lparr>buffVec := bv\<rparr>"
  | (Success) bv1 cH cRho mH mRho prec ret bv2 d1 i p d' bv3 mprH mprRho where
      "forLoop (cavityBody st off vjSz) (initBuffer st vjSz, 0, 0, 0, 0) vjSz
         = Inr (bv1, cH, cRho, mH, mRho)"
      "precisionCavity st j = Inr prec"
      "compMoments (epPots st ! j) (momentInput cH cRho prec) = Some ret"
      "forLoop (updateBody st off vjSz (ret ! 0) (ret ! 1) we) (bv1, d, 0, 0) vjSz
         = Inr (bv2, d1, i, p)"
      "(case prec of None \<Rightarrow> Inr d1
        | Some pc \<Rightarrow> precisionClamp st off vjSz we ret pc (bv2, d1, i, p)) = Inr d'"
      "forLoop (dampBody st off vjSz d' (if we then Some d' else None)) bv2 vjSz = Inr bv3"
      "commitLoop j off vjSz bv3 (st\<lparr>buffVec := bv3\<rparr>) vjSz = (st', mprH, mprRho)"
      "status = updSuccess"
      "delta = (if wd then Some (max (MAXRELDIFF mH mprH) (MAXRELDIFF (sqrt mRho) (sqrt mprRho)))
                else None)"
      "eff = (if we then Some d' else None)"
proof -
  from seqUpd_status_cases [OF assms(3)] have pre: "groupOK st j" "0 \<le> d" "d < 1" by simp_all
  note run = assms(3) [unfolded seqUpd_run [OF pre], folded off_def vjSz_def]
  show ?thesis
  proof (cases "forLoop (cavityBody st off vjSz) (initBuffer st vjSz, 0, 0, 0, 0) vjSz")
    case (Inl r)
    obtain s e b where r: "r = (s, e, b)" by (cases r) auto
    from cavityLoop_Inl [OF Inl [unfolded r]] have "s = updCavityInvalid" "e = None" by simp_all
    with run Inl r show ?thesis by (intro CavityPi [of b]) simp_all
  next
    case (Inr s1)
    obtain bv1 cH cRho mH mRho where s1: "s1 = (bv1, cH, cRho, mH, mRho)" by (cases s1) auto
    note c1 = Inr [unfolded s1]
    show ?thesis
    proof (cases "precisionCavity st j")
      case (Inl s)
      from precisionCavity_Inl [OF Inl] have "s = updCavityInvalid" .
      with run c1 Inl show ?thesis by (intro CavityPrec [OF c1]) simp_all
    next
      case (Inr prec)
      note c2 = Inr
      show ?thesis
      proof (cases "compMoments (epPots st ! j) (momentInput cH cRho prec)")
        case None
        with run c1 c2 show ?thesis by (intro Oracle [OF c1 c2]) simp_all
      next
        case (Some ret)
        note c3 = Some
        show ?thesis
        proof (cases "forLoop (updateBody st off vjSz (ret ! 0) (ret ! 1) we) (bv1, d, 0, 0) vjSz")
          case (Inl r)
          obtain s e b where r: "r = (s, e, b)" by (cases r) auto
          from run c1 c2 c3 Inl r have eqs: "status = s" "eff = e" "delta = None"
            "st' = st\<lparr>buffVec := b\<rparr>" by simp_all
          note l = Inl [unfolded r, folded eqs(1,2)]
          from updateLoop_Inl [OF l] eqs show ?thesis by (intro Update [OF c1 c2 c3 l]) simp_all
        next
          case (Inr s2)
          obtain bv2 d1 i p where s2: "s2 = (bv2, d1, i, p)" by (cases s2) auto
          note c4 = Inr [unfolded s2]
          show ?thesis
          proof (cases "case prec of None \<Rightarrow> Inr d1
                  | Some pc \<Rightarrow> precisionClamp st off vjSz we ret pc (bv2, d1, i, p)")
            case (Inl r)
            obtain s e b where r: "r = (s, e, b)" by (cases r) auto
            from Inl obtain pc where pc: "prec = Some pc"
              and cl: "precisionClamp st off vjSz we ret pc (bv2, d1, i, p) = Inl (s, e, b)"
              unfolding r by (cases prec) auto
            from precisionClamp_Inl [OF cl] have se: "s = updCavCondSkipped"
              "e = (if we then Some 1 else None)" by simp_all
            from run c1 c2 c3 c4 Inl r have eqs: "status = s" "eff = e" "delta = None"
              "st' = st\<lparr>buffVec := b\<rparr>" by simp_all
            show ?thesis
              using c2 c3 cl se eqs pc
              by (intro Clamp [OF c1 _ _ c4, of pc b]) simp_all
          next
            case (Inr d')
            note c5 = Inr
            show ?thesis
            proof (cases "forLoop (dampBody st off vjSz d' (if we then Some d' else None)) bv2 vjSz")
              case (Inl r)
              obtain s e b where r: "r = (s, e, b)" by (cases r) auto
              from dampLoop_Inl [OF Inl [unfolded r]] have se: "s = updMarginalsInvalid"
                "e = (if we then Some d' else None)" by simp_all
              from run c1 c2 c3 c4 c5 Inl r have eqs: "status = s" "eff = e" "delta = None"
                "st' = st\<lparr>buffVec := b\<rparr>" by simp_all
              show ?thesis
                using Inl r se eqs by (intro Damp [OF c1 c2 c3 c4 c5, of b]) simp_all
            next
              case (Inr bv3)
              note c6 = Inr
              obtain st2 mprH mprRho where
                c7: "commitLoop j off vjSz bv3 (st\<lparr>buffVec := bv3\<rparr>) vjSz = (st2, mprH, mprRho)"
                by (cases "commitLoop j off vjSz bv3 (st\<lparr>buffVec := bv3\<rparr>) vjSz") auto
              from run c1 c2 c3 c4 c5 c6 c7 have eqs:
                "st' = st2" "status = updSuccess"
                "delta = (if wd then Some (max (MAXRELDIFF mH mprH) (MAXRELDIFF (sqrt mRho) (sqrt mprRho)))
                   else None)"
                "eff = (if we then Some d' else None)"
                by simp_all
              show ?thesis
                using c7 eqs by (intro Success [OF c1 c2 c3 c4 c5 c6]) simp_all
            qed
          qed
        qed
      qed
    qed
  qed
qed

lemma seqUpd_failure_frame:
  assumes "sequentialUpdate j d wd we st = (Inr (status, delta, eff), st')"
    and "status \<noteq> updSuccess"
  shows "(\<exists>bv. st' = st\<lparr>buffVec := bv\<rparr>) \<and> delta = None
    \<and> status \<in> {updCavityInvalid, updNumericalError, updMarginalsInvalid, updCavCondSkipped}"
  using assms(1)
proof (cases rule: seqUpd_paths)
  case (Success bv1 cH cRho mH mRho prec ret bv2 d1 i p d' bv3 mprH mprRho)
  with assms(2) show ?thesis by simp
qed auto

subsection \<open>Invalid cavities\<close>

lemma cavityInvalid_run:
  assumes g: "groupOK st j" and d: "0 \<le> d" "d < 1" and inv: "cavityInvalid st j"
  shows "\<exists>bv. sequentialUpdate j d wd we st
           = (Inr (updCavityInvalid, None, None), st\<lparr>buffVec := bv\<rparr>)"
proof -
  let ?off = "rowOffset (epRepr st) j" and ?vjSz = "rowSz (epRepr st) ! j"
  let ?loop = "forLoop (cavityBody st ?off ?vjSz) (initBuffer st ?vjSz, 0, 0, 0, 0) ?vjSz"
  show ?thesis
  proof (cases ?loop)
    case (Inl r)
    obtain s e b where r: "r = (s, e, b)" by (cases r) auto
    from cavityLoop_Inl [OF Inl [unfolded r]] have "s = updCavityInvalid" "e = None" by simp_all
    with Inl r have "sequentialUpdate j d wd we st
           = (Inr (updCavityInvalid, None, None), st\<lparr>buffVec := b\<rparr>)"
      unfolding seqUpd_run [OF g d] by simp
    then show ?thesis by blast
  next
    case (Inr s1)
    obtain bv1 cH cRho mH mRho where s1: "s1 = (bv1, cH, cRho, mH, mRho)" by (cases s1) auto
    note c1 = Inr [unfolded s1]
    from cavityLoop_Inr [OF c1 order_refl initBuffer_length]
    have "\<forall>ii<?vjSz. \<not> cavPi st ?off ii < 0.5 * piMinThres st" by blast
    then have "\<not> (\<exists>ii<?vjSz. cavPi st ?off ii < piMinThres st / 2)" by simp
    with inv obtain rp where rp: "epReprPrec st = Some rp"
      and bad: "margA st ! (tauInd rp ! j) - aVals rp ! j < aMinThres st / 2
              \<or> margC st ! (tauInd rp ! j) - cVals rp ! j < cMinThres st / 2"
      unfolding cavityInvalid_def by (auto split: option.splits)
    then have "precisionCavity st j = Inl updCavityInvalid"
      by (auto simp: precisionCavity_def Let_def)
    with c1 have "sequentialUpdate j d wd we st
           = (Inr (updCavityInvalid, None, None), st\<lparr>buffVec := bv1\<rparr>)"
      unfolding seqUpd_run [OF g d] by simp
    then show ?thesis by blast
  qed
qed

lemma cavityInvalid_status:
  assumes "sequentialUpdate j d wd we st = (Inr (updCavityInvalid, delta, eff), st')"
  shows "cavityInvalid st j \<and> delta = None \<and> eff = None"
  using assms
proof (cases rule: seqUpd_paths)
  case (CavityPi bv)
  from cavityLoop_Inl [OF CavityPi(1)]
  have "\<exists>ii<rowSz (epRepr st) ! j. cavPi st (rowOffset (epRepr st) j) ii < piMinThres st / 2"
    by simp
  with CavityPi show ?thesis by (simp add: cavityInvalid_def)
next
  case (CavityPrec bv1 cH cRho mH mRho)
  from CavityPrec(2) have "case epReprPrec st of None \<Rightarrow> False
          | Some rp \<Rightarrow>
              margA st ! (tauInd rp ! j) - aVals rp ! j < aMinThres st / 2
              \<or> margC st ! (tauInd rp ! j) - cVals rp ! j < cMinThres st / 2"
    by (auto simp: precisionCavity_def Let_def split: option.splits if_splits)
  with CavityPrec show ?thesis by (simp add: cavityInvalid_def)
next
  case (Oracle bv1 cH cRho mH mRho prec)
  then show ?thesis using upd_status_distinct by simp
next
  case (Update bv1 cH cRho mH mRho prec ret bv)
  then show ?thesis using upd_status_distinct by auto
next
  case (Clamp bv1 cH cRho mH mRho pc ret bv2 d1 i p bv)
  then show ?thesis using upd_status_distinct by simp
next
  case (Damp bv1 cH cRho mH mRho prec ret bv2 d1 i p d' bv)
  then show ?thesis using upd_status_distinct by simp
next
  case (Success bv1 cH cRho mH mRho prec ret bv2 d1 i p d' bv3 mprH mprRho)
  then show ?thesis using upd_status_distinct by simp
qed

lemma exCavity_invalid: "cavityInvalid exCavity 0"
  by (simp add: cavityInvalid_def cavPi_def exCavity_def rowOffset_def)

lemma exUni_valid: "\<not> cavityInvalid exUni 0"
  by (simp add: cavityInvalid_def cavPi_def exUni_def rowOffset_def)

subsection \<open>Well-formed drivers and successful calls\<close>

lemma sum_list_take_nth_le:
  fixes xs :: "nat list"
  assumes "j < length xs"
  shows "sum_list (take j xs) + xs ! j \<le> sum_list xs"
proof -
  have "xs = take j xs @ xs ! j # drop (Suc j) xs"
    using assms by (simp add: id_take_nth_drop)
  then have "sum_list xs = sum_list (take j xs) + xs ! j + sum_list (drop (Suc j) xs)"
    by (metis add.assoc sum_list.Cons sum_list.append)
  then show ?thesis by simp
qed

lemma wellFormed_row:
  assumes "wellFormed st j"
  shows "rowOffset (epRepr st) j + rowSz (epRepr st) ! j \<le> length (colInd (epRepr st))"
    and "length (bVals (epRepr st)) = length (colInd (epRepr st))"
    and "length (betaVals (epRepr st)) = length (colInd (epRepr st))"
    and "length (piVals (epRepr st)) = length (colInd (epRepr st))"
    and "length (margBeta st) = length (margPi st)"
    and "\<forall>ii<rowSz (epRepr st) ! j.
           colInd (epRepr st) ! (rowOffset (epRepr st) j + ii) < length (margPi st)"
    and "\<forall>ii<rowSz (epRepr st) ! j. \<forall>jj<rowSz (epRepr st) ! j. ii \<noteq> jj \<longrightarrow>
           colInd (epRepr st) ! (rowOffset (epRepr st) j + ii)
             \<noteq> colInd (epRepr st) ! (rowOffset (epRepr st) j + jj)"
proof -
  let ?r = "epRepr st" and ?off = "rowOffset (epRepr st) j" and ?n = "rowSz (epRepr st) ! j"
  from assms have j: "j < length (rowSz ?r)" and s: "sum_list (rowSz ?r) = length (colInd ?r)"
    and la: "list_all (\<lambda>i. i < length (margPi st)) (colInd ?r)"
    and di: "distinct (take ?n (drop ?off (colInd ?r)))"
    by (simp_all add: wellFormed_def Let_def)
  from sum_list_take_nth_le [OF j] s show le: "?off + ?n \<le> length (colInd ?r)"
    by (simp add: rowOffset_def)
  from assms show "length (bVals ?r) = length (colInd ?r)"
    "length (betaVals ?r) = length (colInd ?r)" "length (piVals ?r) = length (colInd ?r)"
    "length (margBeta st) = length (margPi st)"
    by (simp_all add: wellFormed_def Let_def)
  show "\<forall>ii<?n. colInd ?r ! (?off + ii) < length (margPi st)"
    using la le by (simp add: list_all_length)
  show "\<forall>ii<?n. \<forall>jj<?n. ii \<noteq> jj \<longrightarrow> colInd ?r ! (?off + ii) \<noteq> colInd ?r ! (?off + jj)"
  proof (intro allI impI)
    fix ii jj assume b: "ii < ?n" "jj < ?n" and ne: "ii \<noteq> jj"
    have len: "length (take ?n (drop ?off (colInd ?r))) = ?n" using le by simp
    from di have "\<forall>i<length (take ?n (drop ?off (colInd ?r))).
        \<forall>k<length (take ?n (drop ?off (colInd ?r))). i \<noteq> k \<longrightarrow>
          take ?n (drop ?off (colInd ?r)) ! i \<noteq> take ?n (drop ?off (colInd ?r)) ! k"
      by (simp only: distinct_conv_nth)
    with b ne have "take ?n (drop ?off (colInd ?r)) ! ii \<noteq> take ?n (drop ?off (colInd ?r)) ! jj"
      unfolding len by blast
    moreover have "take ?n (drop ?off (colInd ?r)) ! ii = colInd ?r ! (?off + ii)"
      "take ?n (drop ?off (colInd ?r)) ! jj = colInd ?r ! (?off + jj)"
      using b le by simp_all
    ultimately show "colInd ?r ! (?off + ii) \<noteq> colInd ?r ! (?off + jj)" by simp
  qed
qed

text \<open>The buffer after the first three loops.\<close>

lemma buffer_after_damping:
  assumes c1: "forLoop (cavityBody st off vjSz) (initBuffer st vjSz, 0, 0, 0, 0) vjSz
                 = Inr (bv1, cH, cRho, mH, mRho)"
    and c4: "forLoop (updateBody st off vjSz alpha nu we) (bv1, d, i0, p0) vjSz = Inr (bv2, d1, i, p)"
    and c6: "forLoop (dampBody st off vjSz d' eo) bv2 vjSz = Inr bv3"
    and ii: "ii < vjSz"
  shows "\<exists>prPi prBeta. newMsg st off alpha nu ii = Some (prPi, prBeta)
      \<and> bv3 ! (vjSz + ii) = dampedMsg d' (piVals (epRepr st) ! (off + ii)) prPi
      \<and> bv3 ! ii = dampedMsg d' (betaVals (epRepr st) ! (off + ii)) prBeta
      \<and> bv3 ! (3 * vjSz + ii) = cavPi st off ii + bv3 ! (vjSz + ii)
      \<and> bv3 ! (2 * vjSz + ii) = cavBeta st off ii + bv3 ! ii
      \<and> \<not> bv3 ! (3 * vjSz + ii) < 0.5 * piMinThres st"
proof -
  note l1 = cavityLoop_Inr [OF c1 order_refl initBuffer_length]
  from l1 have len1: "4 * vjSz \<le> length bv1" using initBuffer_length [of vjSz st] by simp
  note l2 = updateLoop_Inr [OF c4 order_refl len1]
  from l2 len1 have len2: "4 * vjSz \<le> length bv2" by simp
  note l3 = dampLoop_Inr [OF c6 order_refl len2]
  from l1 ii have cav: "bv1 ! (vjSz + ii) = cavPi st off ii" "bv1 ! ii = cavBeta st off ii" by simp_all
  from l2 ii have low: "bv2 ! (vjSz + ii) = bv1 ! (vjSz + ii)" "bv2 ! ii = bv1 ! ii" by simp_all
  from l2 ii have um: "undampedMsg (bVals (epRepr st) ! (off + ii)) (bv1 ! (vjSz + ii)) (bv1 ! ii) alpha nu
                 = Some (bv2 ! (3 * vjSz + ii), bv2 ! (2 * vjSz + ii))" by simp
  note d3 = l3 [THEN conjunct2, THEN conjunct1, rule_format, OF ii]
  from um cav have "newMsg st off alpha nu ii = Some (bv2 ! (3 * vjSz + ii), bv2 ! (2 * vjSz + ii))"
    by (simp add: newMsg_def)
  with d3 cav low show ?thesis by (simp del: split_paired_Ex)
qed

lemma msgSum_update_row:
  assumes len: "length vals' = length vals" and le: "off + n \<le> length vals"
    and out: "\<forall>p. \<not> (off \<le> p \<and> p < off + n) \<longrightarrow> vals' ! p = vals ! p"
  shows "msgSum cols vals' i
    = msgSum cols vals i
      + (\<Sum>ii<n. if cols ! (off + ii) = i then vals' ! (off + ii) - vals ! (off + ii) else 0)"
proof -
  let ?L = "length vals"
  let ?g = "\<lambda>p. (if cols ! p = i then vals' ! p else 0) - (if cols ! p = i then vals ! p else 0)"
  have "msgSum cols vals' i - msgSum cols vals i = (\<Sum>p<?L. ?g p)"
    by (simp add: msgSum_def len sum_subtractf)
  also have "\<dots> = (\<Sum>p\<in>{off..<off + n}. ?g p)"
  proof (rule sum.mono_neutral_right)
    show "finite {..<?L}" by simp
    show "{off..<off + n} \<subseteq> {..<?L}" using le by auto
    show "\<forall>p\<in>{..<?L} - {off..<off + n}. ?g p = 0" using out by auto
  qed
  also have "\<dots> = (\<Sum>ii\<in>{0..<n}. ?g (ii + off))"
    using sum.shift_bounds_nat_ivl [of ?g 0 off n] by (simp add: add.commute)
  also have "\<dots> = (\<Sum>ii<n. if cols ! (off + ii) = i then vals' ! (off + ii) - vals ! (off + ii) else 0)"
    by (rule sum.cong) (auto simp: add.commute)
  finally show ?thesis by simp
qed

lemma sum_single:
  fixes g :: "nat \<Rightarrow> real"
  assumes "k < n" and "\<forall>ii<n. c ii = i \<longleftrightarrow> ii = k"
  shows "(\<Sum>ii<n. if c ii = i then g ii else 0) = g k"
proof -
  have "(\<Sum>ii<n. if c ii = i then g ii else 0) = (\<Sum>ii<n. if ii = k then g ii else 0)"
    by (rule sum.cong) (use assms(2) in auto)
  also have "\<dots> = g k" using assms(1) by simp
  finally show ?thesis .
qed

lemma sum_none:
  fixes g :: "nat \<Rightarrow> real"
  assumes "\<forall>ii<n. c ii \<noteq> i"
  shows "(\<Sum>ii<n. if c ii = i then g ii else 0) = 0"
  by (rule sum.neutral) (use assms in auto)

lemma precisionClamp_Inr:
  assumes "precisionClamp st off vjSz we ret pc (bv, d1, i, p) = Inr d'"
  shows "d1 \<le> d' \<and> (d' = d1 \<or> d' < 0.98)"
  using assms
  by (cases pc) (auto simp: precisionClamp_def Let_def max_def split: option.splits if_splits)

text \<open>What a successful call has written, for a well-formed driver.\<close>

lemma success_state:
  fixes st :: factorizedEPDriver and j :: nat
  defines "off \<equiv> rowOffset (epRepr st) j" and "vjSz \<equiv> rowSz (epRepr st) ! j"
  assumes wf: "wellFormed st j"
    and run: "sequentialUpdate j d wd we st = (Inr (updSuccess, delta, eff), st')"
  obtains dEff ret where
    "d \<le> dEff" "dEff < 1"
    "eff = (if we then Some dEff else None)"
    "compMoments (epPots st ! j) (oracleInput st j) = Some ret"
    "rowSz (epRepr st') = rowSz (epRepr st)" "colInd (epRepr st') = colInd (epRepr st)"
    "bVals (epRepr st') = bVals (epRepr st)"
    "length (piVals (epRepr st')) = length (piVals (epRepr st))"
    "length (betaVals (epRepr st')) = length (betaVals (epRepr st))"
    "length (margPi st') = length (margPi st)" "length (margBeta st') = length (margBeta st)"
    "\<forall>ii<vjSz. \<exists>prPi prBeta. newMsg st off (ret ! 0) (ret ! 1) ii = Some (prPi, prBeta)
        \<and> piVals (epRepr st') ! (off + ii) = dampedMsg dEff (piVals (epRepr st) ! (off + ii)) prPi
        \<and> betaVals (epRepr st') ! (off + ii)
            = dampedMsg dEff (betaVals (epRepr st) ! (off + ii)) prBeta"
    "\<forall>p. \<not> (off \<le> p \<and> p < off + vjSz) \<longrightarrow>
        piVals (epRepr st') ! p = piVals (epRepr st) ! p
        \<and> betaVals (epRepr st') ! p = betaVals (epRepr st) ! p"
    "\<forall>ii<vjSz. margPi st' ! (colInd (epRepr st) ! (off + ii))
                  = cavPi st off ii + piVals (epRepr st') ! (off + ii)
        \<and> margBeta st' ! (colInd (epRepr st) ! (off + ii))
                  = cavBeta st off ii + betaVals (epRepr st') ! (off + ii)
        \<and> \<not> margPi st' ! (colInd (epRepr st) ! (off + ii)) < 0.5 * piMinThres st"
    "\<forall>i. (\<forall>ii<vjSz. colInd (epRepr st) ! (off + ii) \<noteq> i) \<longrightarrow>
        margPi st' ! i = margPi st ! i \<and> margBeta st' ! i = margBeta st ! i"
proof -
  note w = wellFormed_row [OF wf, folded off_def vjSz_def]
  from run obtain bv1 cH cRho mH mRho prec ret bv2 d1 i p d' bv3 mprH mprRho where
    c1: "forLoop (cavityBody st off vjSz) (initBuffer st vjSz, 0, 0, 0, 0) vjSz
       = Inr (bv1, cH, cRho, mH, mRho)"
    and c2: "precisionCavity st j = Inr prec"
    and c3: "compMoments (epPots st ! j) (momentInput cH cRho prec) = Some ret"
    and c4: "forLoop (updateBody st off vjSz (ret ! 0) (ret ! 1) we) (bv1, d, 0, 0) vjSz
       = Inr (bv2, d1, i, p)"
    and c5: "(case prec of None \<Rightarrow> Inr d1
        | Some pc \<Rightarrow> precisionClamp st off vjSz we ret pc (bv2, d1, i, p)) = Inr d'"
    and c6: "forLoop (dampBody st off vjSz d' (if we then Some d' else None)) bv2 vjSz = Inr bv3"
    and c7: "commitLoop j off vjSz bv3 (st\<lparr>buffVec := bv3\<rparr>) vjSz = (st', mprH, mprRho)"
    and eff: "eff = (if we then Some d' else None)"
    unfolding off_def vjSz_def
    by (cases rule: seqUpd_paths) (use upd_status_distinct in auto)
  from seqUpd_status_cases [OF run] have dr: "0 \<le> d" "d < 1" by simp_all
  from c1 have len1: "4 * vjSz \<le> length bv1"
    using cavityLoop_Inr [OF c1 order_refl initBuffer_length] initBuffer_length [of vjSz st]
    by simp
  from updateLoop_Inr [OF c4 order_refl len1] have d1: "d \<le> d1" "d1 = d \<or> d1 < 0.98"
    by simp_all
  from c5 have "d1 \<le> d' \<and> (d' = d1 \<or> d' < 0.98)"
    by (cases prec) (auto dest: precisionClamp_Inr)
  with d1 dr have db: "d \<le> d'" "d' < 1" by auto
  note fr = commitLoop_frame [OF c7]
  from cavityLoop_Inr [OF c1 order_refl initBuffer_length]
  have "cH = cavityH st j" "cRho = cavityRho st j"
    by (simp_all add: cavityH_def cavityRho_def off_def vjSz_def)
  with c2 c3 have c3': "compMoments (epPots st ! j) (oracleInput st j) = Some ret"
    by (simp add: oracleInput_def)
  have m: "(\<forall>ii<vjSz. piVals (epRepr st') ! (off + ii) = bv3 ! (vjSz + ii)
                \<and> betaVals (epRepr st') ! (off + ii) = bv3 ! ii)
    \<and> (\<forall>p. \<not> (off \<le> p \<and> p < off + vjSz) \<longrightarrow> piVals (epRepr st') ! p = piVals (epRepr st) ! p
                \<and> betaVals (epRepr st') ! p = betaVals (epRepr st) ! p)"
    using commitLoop_msgs [OF c7] w(1,3,4) by simp
  have g: "(\<forall>ii<vjSz. margPi st' ! (colInd (epRepr st) ! (off + ii)) = bv3 ! (3 * vjSz + ii)
                \<and> margBeta st' ! (colInd (epRepr st) ! (off + ii)) = bv3 ! (2 * vjSz + ii))
    \<and> (\<forall>i. (\<forall>ii<vjSz. colInd (epRepr st) ! (off + ii) \<noteq> i) \<longrightarrow> margPi st' ! i = margPi st ! i
                \<and> margBeta st' ! i = margBeta st ! i)"
    using commitLoop_marg [OF c7] w(5,6,7) by simp
  have a: "\<forall>ii<vjSz. \<exists>prPi prBeta. newMsg st off (ret ! 0) (ret ! 1) ii = Some (prPi, prBeta)
        \<and> piVals (epRepr st') ! (off + ii) = dampedMsg d' (piVals (epRepr st) ! (off + ii)) prPi
        \<and> betaVals (epRepr st') ! (off + ii)
            = dampedMsg d' (betaVals (epRepr st) ! (off + ii)) prBeta"
  proof (intro allI impI)
    fix ii assume ii: "ii < vjSz"
    from buffer_after_damping [OF c1 c4 c6 ii] m [THEN conjunct1, rule_format, OF ii]
    show "\<exists>prPi prBeta. newMsg st off (ret ! 0) (ret ! 1) ii = Some (prPi, prBeta)
        \<and> piVals (epRepr st') ! (off + ii) = dampedMsg d' (piVals (epRepr st) ! (off + ii)) prPi
        \<and> betaVals (epRepr st') ! (off + ii)
            = dampedMsg d' (betaVals (epRepr st) ! (off + ii)) prBeta"
      by (auto simp del: split_paired_Ex)
  qed
  have b: "\<forall>ii<vjSz. margPi st' ! (colInd (epRepr st) ! (off + ii))
                  = cavPi st off ii + piVals (epRepr st') ! (off + ii)
        \<and> margBeta st' ! (colInd (epRepr st) ! (off + ii))
                  = cavBeta st off ii + betaVals (epRepr st') ! (off + ii)
        \<and> \<not> margPi st' ! (colInd (epRepr st) ! (off + ii)) < 0.5 * piMinThres st"
  proof (intro allI impI)
    fix ii assume ii: "ii < vjSz"
    from buffer_after_damping [OF c1 c4 c6 ii] m [THEN conjunct1, rule_format, OF ii]
      g [THEN conjunct1, rule_format, OF ii]
    show "margPi st' ! (colInd (epRepr st) ! (off + ii))
                  = cavPi st off ii + piVals (epRepr st') ! (off + ii)
        \<and> margBeta st' ! (colInd (epRepr st) ! (off + ii))
                  = cavBeta st off ii + betaVals (epRepr st') ! (off + ii)
        \<and> \<not> margPi st' ! (colInd (epRepr st) ! (off + ii)) < 0.5 * piMinThres st"
      by auto
  qed
  show ?thesis
    using that [of d' ret, OF db eff _ _ _ _ _ _ _ _ a m [THEN conjunct2] b g [THEN conjunct2]]
      fr c3' by auto
qed

lemma success_moments:
  fixes st :: factorizedEPDriver and j :: nat
  assumes wf: "wellFormed st j"
    and run: "sequentialUpdate j d wd we st = (Inr (updSuccess, delta, eff), st')"
  shows "delta = (if wd then Some (max (MAXRELDIFF (momentH st j) (momentH st' j))
                     (MAXRELDIFF (sqrt (momentRho st j)) (sqrt (momentRho st' j)))) else None)"
proof -
  let ?off = "rowOffset (epRepr st) j" and ?n = "rowSz (epRepr st) ! j"
  note w = wellFormed_row [OF wf]
  from run obtain bv1 cH cRho mH mRho bv3 mprH mprRho where
    c1: "forLoop (cavityBody st ?off ?n) (initBuffer st ?n, 0, 0, 0, 0) ?n
       = Inr (bv1, cH, cRho, mH, mRho)"
    and c7: "commitLoop j ?off ?n bv3 (st\<lparr>buffVec := bv3\<rparr>) ?n = (st', mprH, mprRho)"
    and dl: "delta = (if wd then Some (max (MAXRELDIFF mH mprH) (MAXRELDIFF (sqrt mRho) (sqrt mprRho)))
                else None)"
    by (cases rule: seqUpd_paths) (use upd_status_distinct in auto)
  from cavityLoop_Inr [OF c1 order_refl initBuffer_length]
  have m: "mH = momentH st j" "mRho = momentRho st j"
    by (simp_all add: momentH_def momentRho_def)
  note fr = commitLoop_frame [OF c7]
  have off': "rowOffset (epRepr st') j = ?off" using fr by (simp add: rowOffset_def)
  have g: "\<forall>ii<?n. margPi st' ! (colInd (epRepr st) ! (?off + ii)) = bv3 ! (3 * ?n + ii)
                \<and> margBeta st' ! (colInd (epRepr st) ! (?off + ii)) = bv3 ! (2 * ?n + ii)"
    using commitLoop_marg [OF c7] w(5,6,7) by simp
  from commitLoop_sums [OF c7]
  have s: "mprH = (\<Sum>ii<?n. bVals (epRepr st) ! (?off + ii) / bv3 ! (3 * ?n + ii) * bv3 ! (2 * ?n + ii))"
    "mprRho = (\<Sum>ii<?n. bVals (epRepr st) ! (?off + ii)
                   * (bVals (epRepr st) ! (?off + ii) / bv3 ! (3 * ?n + ii)))"
    by simp_all
  have "momentH st' j = mprH"
    unfolding momentH_def off' s using fr g by (intro sum.cong) simp_all
  moreover have "momentRho st' j = mprRho"
    unfolding momentRho_def off' s using fr g by (intro sum.cong) simp_all
  ultimately show ?thesis using dl m by simp
qed

lemma momentRho_nonneg:
  assumes "\<forall>ii<rowSz (epRepr st) ! j.
             0 \<le> margPi st ! (colInd (epRepr st) ! (rowOffset (epRepr st) j + ii))"
  shows "0 \<le> momentRho st j"
  unfolding momentRho_def
proof (rule sum_nonneg)
  fix ii assume "ii \<in> {..<rowSz (epRepr st) ! j}"
  with assms have p: "0 \<le> margPi st ! (colInd (epRepr st) ! (rowOffset (epRepr st) j + ii))" by simp
  let ?b = "bVals (epRepr st) ! (rowOffset (epRepr st) j + ii)"
  have "?b * (?b / margPi st ! (colInd (epRepr st) ! (rowOffset (epRepr st) j + ii)))
      = ?b * ?b / margPi st ! (colInd (epRepr st) ! (rowOffset (epRepr st) j + ii))" by simp
  also have "0 \<le> \<dots>" using p by (intro divide_nonneg_nonneg) simp_all
  finally show "0 \<le> ?b * (?b / margPi st ! (colInd (epRepr st) ! (rowOffset (epRepr st) j + ii)))" .
qed

subsection \<open>What no call writes\<close>

lemma seqUpd_never_written:
  assumes run: "sequentialUpdate j d wd we st = (r, st')"
  shows "epPots st' = epPots st \<and> epReprPrec st' = epReprPrec st
    \<and> margA st' = margA st \<and> margC st' = margC st
    \<and> epMaxA st' = epMaxA st \<and> epMaxC st' = epMaxC st
    \<and> piMinThres st' = piMinThres st \<and> aMinThres st' = aMinThres st
    \<and> cMinThres st' = cMinThres st
    \<and> rowSz (epRepr st') = rowSz (epRepr st) \<and> colInd (epRepr st') = colInd (epRepr st)
    \<and> bVals (epRepr st') = bVals (epRepr st)"
proof (cases r)
  case (Inl e)
  have "st' = st"
  proof (cases "groupOK st j")
    case False
    from seqUpd_assert [OF False, of d wd we] run show ?thesis by simp
  next
    case True
    show ?thesis
    proof (cases "d < 0 \<or> 1 \<le> d")
      case True
      from seqUpd_throw [OF \<open>groupOK st j\<close> True, of wd we] run show ?thesis by simp
    next
      case False
      then have "0 \<le> d" "d < 1" by simp_all
      from seqUpd_returns [OF \<open>groupOK st j\<close> this, of wd we] run Inl show ?thesis by auto
    qed
  qed
  then show ?thesis by simp
next
  case (Inr t)
  obtain status delta eff where t: "t = (status, delta, eff)" by (cases t) auto
  note run' = run [unfolded Inr t]
  show ?thesis
  proof (cases "status = updSuccess")
    case False
    from seqUpd_failure_frame [OF run' False] obtain bv where "st' = st\<lparr>buffVec := bv\<rparr>" by blast
    then show ?thesis by simp
  next
    case True
    from run' [unfolded True] obtain bv3 mprH mprRho where
      c7: "commitLoop j (rowOffset (epRepr st) j) (rowSz (epRepr st) ! j) bv3
             (st\<lparr>buffVec := bv3\<rparr>) (rowSz (epRepr st) ! j) = (st', mprH, mprRho)"
    proof (cases rule: seqUpd_paths)
      case (Success bv1 cH cRho mH mRho prec ret bv2 d1 i p d' bv3 mprH mprRho)
      from Success(7) show ?thesis by (rule that)
    qed (use upd_status_distinct in simp_all)
    from commitLoop_frame [OF c7] show ?thesis by simp
  qed
qed

subsection \<open>Positions the second loop reaches\<close>

lemma updateLoop_reach:
  assumes c1: "forLoop (cavityBody st off vjSz) (initBuffer st vjSz, 0, 0, 0, 0) vjSz
                 = Inr (bv1, cH, cRho, mH, mRho)"
    and reach: "forLoop (updateBody st off vjSz alpha nu we) (bv1, d, i0, p0) ii = Inr (bv, dc, i', p')"
    and ii: "ii < vjSz"
  shows "4 * vjSz \<le> length bv" and "bv ! (vjSz + ii) = cavPi st off ii"
    and "bv ! ii = cavBeta st off ii"
    and "undampedMsg (bVals (epRepr st) ! (off + ii)) (bv ! (vjSz + ii)) (bv ! ii) alpha nu
           = newMsg st off alpha nu ii"
    and "forLoop (updateBody st off vjSz alpha nu we) (bv1, d, i0, p0) (Suc ii)
           = updateBody st off vjSz alpha nu we ii (bv, dc, i', p')"
proof -
  note l1 = cavityLoop_Inr [OF c1 order_refl initBuffer_length]
  from l1 have len1: "4 * vjSz \<le> length bv1" using initBuffer_length [of vjSz st] by simp
  have le: "ii \<le> vjSz" using ii by simp
  note l2 = updateLoop_Inr [OF reach le len1]
  from l2 len1 show "4 * vjSz \<le> length bv" by simp
  from l2 ii have "bv ! (vjSz + ii) = bv1 ! (vjSz + ii)" "bv ! ii = bv1 ! ii" by simp_all
  with l1 ii show a: "bv ! (vjSz + ii) = cavPi st off ii" and b: "bv ! ii = cavBeta st off ii"
    by simp_all
  show "undampedMsg (bVals (epRepr st) ! (off + ii)) (bv ! (vjSz + ii)) (bv ! ii) alpha nu
           = newMsg st off alpha nu ii"
    unfolding a b newMsg_def ..
  show "forLoop (updateBody st off vjSz alpha nu we) (bv1, d, i0, p0) (Suc ii)
           = updateBody st off vjSz alpha nu we ii (bv, dc, i', p')"
    using reach by simp
qed

lemma seqUpd_update_early:
  assumes pre: "groupOK st j" "0 \<le> d" "d < 1"
    and c1: "forLoop (cavityBody st (rowOffset (epRepr st) j) (rowSz (epRepr st) ! j))
                (initBuffer st (rowSz (epRepr st) ! j), 0, 0, 0, 0) (rowSz (epRepr st) ! j)
               = Inr (bv1, cH, cRho, mH, mRho)"
    and c2: "precisionCavity st j = Inr prec"
    and c3: "compMoments (epPots st ! j) (momentInput cH cRho prec) = Some ret"
    and early: "forLoop (updateBody st (rowOffset (epRepr st) j) (rowSz (epRepr st) ! j)
                   (ret ! 0) (ret ! 1) we) (bv1, d, 0, 0) n = Inl (s, e, b)"
    and n: "n \<le> rowSz (epRepr st) ! j"
  shows "sequentialUpdate j d wd we st = (Inr (s, None, e), st\<lparr>buffVec := b\<rparr>)"
proof -
  from forLoop_Inl_mono [OF early n]
  have "forLoop (updateBody st (rowOffset (epRepr st) j) (rowSz (epRepr st) ! j)
           (ret ! 0) (ret ! 1) we) (bv1, d, 0, 0) (rowSz (epRepr st) ! j) = Inl (s, e, b)" .
  with c1 c2 c3 show ?thesis unfolding seqUpd_run [OF pre] by simp
qed

lemma updateBody_None:
  assumes "undampedMsg (bVals (epRepr st) ! (off + ii)) (bv ! (vjSz + ii)) (bv ! ii) alpha nu = None"
  shows "updateBody st off vjSz alpha nu we ii (bv, dc, i', p') = Inl (updNumericalError, None, bv)"
  using assms by (simp add: updateBody_def Let_def)

lemma updateBody_Some:
  assumes "undampedMsg (bVals (epRepr st) ! (off + ii)) (bv ! (vjSz + ii)) (bv ! ii) alpha nu
             = Some (prPi, prBeta)"
  shows "bufferAfter (updateBody st off vjSz alpha nu we ii (bv, dc, i', p'))
           = bv[3 * vjSz + ii := prPi, 2 * vjSz + ii := prBeta]"
    and "epMaxPi st = None \<or> \<not> prPi < piVals (epRepr st) ! (off + ii) \<Longrightarrow>
         updateBody st off vjSz alpha nu we ii (bv, dc, i', p')
           = Inr (bv[3 * vjSz + ii := prPi, 2 * vjSz + ii := prBeta], dc,
                  colInd (epRepr st) ! (off + ii), prPi)"
    and "epMaxPi st = Some mp \<Longrightarrow> prPi < piVals (epRepr st) ! (off + ii) \<Longrightarrow>
         updateBody st off vjSz alpha nu we ii (bv, dc, i', p')
           = (if getMaxValue mp (colInd (epRepr st) ! (off + ii)) \<le> 0
              then Inl (updNumericalError, None, bv[3 * vjSz + ii := prPi, 2 * vjSz + ii := prBeta])
              else if oneMinusEta st off ii (getMaxValue mp (colInd (epRepr st) ! (off + ii))) prPi
                        \<le> 0.02
              then Inl (updCavCondSkipped, (if we then Some 1 else None),
                        bv[3 * vjSz + ii := prPi, 2 * vjSz + ii := prBeta])
              else Inr (bv[3 * vjSz + ii := prPi, 2 * vjSz + ii := prBeta],
                        max dc (1 - oneMinusEta st off ii
                                      (getMaxValue mp (colInd (epRepr st) ! (off + ii))) prPi),
                        colInd (epRepr st) ! (off + ii), prPi))"
  using assms by (auto simp: updateBody_def bufferAfter_def Let_def split: option.splits)

subsection \<open>The damping factor after the second loop\<close>



subsection \<open>Runs of the example drivers\<close>

lemma exUni_run:
  "sequentialUpdate 0 0 True True exUni
     = (Inr (updMarginalsInvalid, None, Some 0),
        exUni\<lparr>buffVec := [1, 1 / 2, - (20 / 21), 1 / 42]\<rparr>)"
proof -
  have g: "groupOK exUni 0" by (simp add: groupOK_def exUni_def constPotential_def)
  have off: "rowOffset (epRepr exUni) 0 = 0" "rowSz (epRepr exUni) ! 0 = Suc 0"
    by (simp_all add: rowOffset_def exUni_def)
  have ib: "initBuffer exUni (Suc 0) = [0, 0, 0, 0]"
    by (simp add: initBuffer_def exUni_def numeral_eq_Suc)
  have c1: "forLoop (cavityBody exUni 0 (Suc 0)) ([0, 0, 0, 0], 0, 0, 0, 0) (Suc 0)
              = Inr ([1, 1 / 2, 0, 0], 2, 2, 2, 1)"
    by (simp add: cavityBody_def exUni_def Let_def)
  have c2: "precisionCavity exUni 0 = Inr None"
    by (simp add: precisionCavity_def exUni_def)
  have c3: "compMoments (epPots exUni ! 0) (momentInput 2 2 None) = Some [0, -10]"
    by (simp add: exUni_def constPotential_def)
  have c4: "forLoop (updateBody exUni 0 (Suc 0) 0 (-10) True) ([1, 1 / 2, 0, 0], 0, 0, 0) (Suc 0)
              = Inr ([1, 1 / 2, - (20 / 21), - (10 / 21)], 0, 0, - (10 / 21))"
    by (simp add: updateBody_def undampedMsg_def exUni_def Let_def)
  have c5: "forLoop (dampBody exUni 0 (Suc 0) 0 (Some 0)) [1, 1 / 2, - (20 / 21), - (10 / 21)] (Suc 0)
              = Inl (updMarginalsInvalid, Some 0, [1, 1 / 2, - (20 / 21), 1 / 42])"
    by (simp add: dampBody_def exUni_def Let_def)
  show ?thesis
    by (simp add: seqUpd_run [OF g] off ib c1 c2 c3 c4 c5 del: forLoop.simps)
qed

lemma exClamp_group: "groupOK exClamp (Suc 0)"
  by (simp add: groupOK_def exClamp_def constPotential_def)

lemma exClamp_row:
  "rowOffset (epRepr exClamp) (Suc 0) = Suc 0" "rowSz (epRepr exClamp) ! Suc 0 = Suc 0"
  by (simp_all add: rowOffset_def exClamp_def)

lemma exClamp_cavity:
  "forLoop (cavityBody exClamp (Suc 0) (Suc 0)) (initBuffer exClamp (Suc 0), 0, 0, 0, 0) (Suc 0)
     = Inr ([0, 10, 0, 0], 0, 1 / 10, 0, 1 / 11)"
  by (simp add: initBuffer_def cavityBody_def exClamp_def Let_def numeral_eq_Suc)

lemma exClamp_moments:
  "compMoments (epPots exClamp ! Suc 0) (momentInput 0 (1 / 10) None) = Some [0, - (10 / 19)]"
  by (simp add: exClamp_def constPotential_def)

lemma exClamp_update:
  "forLoop (updateBody exClamp (Suc 0) (Suc 0) 0 (- (10 / 19)) we) ([0, 10, 0, 0], 0, 0, 0) (Suc 0)
     = Inr ([0, 10, 0, - (1 / 2)], 2 / 5, 0, - (1 / 2))"
  by (simp add: updateBody_def undampedMsg_def oneMinusEta_def getMaxValue_def exClamp_def Let_def)

lemma exClamp_damp:
  "forLoop (dampBody exClamp (Suc 0) (Suc 0) (2 / 5) eo) [0, 10, 0, - (1 / 2)] (Suc 0)
     = Inr [0, 1 / 10, 0, 101 / 10]"
  by (simp add: dampBody_def exClamp_def Let_def)

lemma exClamp_commit:
  "commitLoop (Suc 0) (Suc 0) (Suc 0) [0, 1 / 10, 0, 101 / 10]
      (exClamp\<lparr>buffVec := [0, 1 / 10, 0, 101 / 10]\<rparr>) (Suc 0)
     = (exClampAfter, 0, 10 / 101)"
  by (simp add: commitBody_def updateMaxValue_def exClamp_def exClampAfter_def Let_def)

lemma exClamp_run_general:
  "sequentialUpdate (Suc 0) 0 wd we exClamp
     = (Inr (updSuccess,
             (if wd then Some (max (MAXRELDIFF 0 0) (MAXRELDIFF (sqrt (1 / 11)) (sqrt (10 / 101))))
              else None),
             (if we then Some (2 / 5) else None)), exClampAfter)"
proof -
  have c2: "precisionCavity exClamp (Suc 0) = Inr None"
    by (simp add: precisionCavity_def exClamp_def)
  show ?thesis
    by (simp add: seqUpd_run [OF exClamp_group] exClamp_row exClamp_cavity c2
        exClamp_moments exClamp_update exClamp_damp exClamp_commit
        del: forLoop.simps commitLoop.simps)
qed

lemma exClamp_wellFormed: "wellFormed exClamp (Suc 0)"
  by (simp add: wellFormed_def exClamp_def rowOffset_def)

lemma exClamp_sumInvariant: "sumInvariant exClamp"
  by (simp add: sumInvariant_def msgSum_def exClamp_def lessThan_Suc numeral_2_eq_2)


lemma exClamp_run_delta:
  "sequentialUpdate (Suc 0) 0 True True exClamp
     = (Inr (updSuccess,
             Some (max (MAXRELDIFF 0 0) (MAXRELDIFF (sqrt (1 / 11)) (sqrt (10 / 101)))),
             Some (2 / 5)), exClampAfter)"
  by (simp add: exClamp_run_general)

lemma exZero_group: "groupOK exZero 0"
  by (simp add: groupOK_def exZero_def constPotential_def)

lemma exZero_row: "rowOffset (epRepr exZero) 0 = 0" "rowSz (epRepr exZero) ! 0 = Suc 0"
  by (simp_all add: rowOffset_def exZero_def)

lemma exZero_cavity:
  "forLoop (cavityBody exZero 0 (Suc 0)) (initBuffer exZero (Suc 0), 0, 0, 0, 0) (Suc 0)
     = Inr ([1, 1 / 2, 0, 0], 2, 2, 2, 1)"
  by (simp add: initBuffer_def cavityBody_def exZero_def Let_def numeral_eq_Suc)

lemma exZero_precision: "precisionCavity exZero 0 = Inr None"
  by (simp add: precisionCavity_def exZero_def)

lemma exZero_moments: "compMoments (epPots exZero ! 0) inp = Some [0, 0]"
  by (simp add: exZero_def constPotential_def)

lemma exZero_update:
  "forLoop (updateBody exZero 0 (Suc 0) 0 0 we) ([1, 1 / 2, 0, 0], d, 0, 0) (Suc 0)
     = Inr ([1, 1 / 2, 0, 0], d, 0, 0)"
  by (simp add: updateBody_def undampedMsg_def exZero_def Let_def)

lemma exZero_run:
  "sequentialUpdate 0 0 False False exZero = (Inr (updSuccess, None, None), exZeroAfter)"
proof -
  have c5: "forLoop (dampBody exZero 0 (Suc 0) 0 None) [1, 1 / 2, 0, 0] (Suc 0)
              = Inr [0, 0, 1, 1 / 2]"
    by (simp add: dampBody_def exZero_def Let_def)
  have c6: "commitLoop 0 0 (Suc 0) [0, 0, 1, 1 / 2] (exZero\<lparr>buffVec := [0, 0, 1, 1 / 2]\<rparr>) (Suc 0)
              = (exZeroAfter, 2, 2)"
    by (simp add: commitBody_def exZero_def exZeroAfter_def Let_def)
  show ?thesis
    by (simp add: seqUpd_run [OF exZero_group] exZero_row exZero_cavity exZero_precision
        exZero_moments exZero_update c5 c6 del: forLoop.simps commitLoop.simps)
qed

lemma exZero_run_half:
  "sequentialUpdate 0 (1 / 2) False True exZero
     = (Inr (updSuccess, None, Some (1 / 2)), exZeroHalf)"
proof -
  have c5: "forLoop (dampBody exZero 0 (Suc 0) (1 / 2) (Some (1 / 2))) [1, 1 / 2, 0, 0] (Suc 0)
              = Inr [1 / 2, 1 / 4, 3 / 2, 3 / 4]"
    by (simp add: dampBody_def exZero_def Let_def)
  have c6: "commitLoop 0 0 (Suc 0) [1 / 2, 1 / 4, 3 / 2, 3 / 4]
              (exZero\<lparr>buffVec := [1 / 2, 1 / 4, 3 / 2, 3 / 4]\<rparr>) (Suc 0)
              = (exZeroHalf, 2, 4 / 3)"
    by (simp add: commitBody_def exZero_def exZeroHalf_def Let_def)
  show ?thesis
    by (simp add: seqUpd_run [OF exZero_group] exZero_row exZero_cavity exZero_precision
        exZero_moments exZero_update c5 c6 del: forLoop.simps commitLoop.simps)
qed

lemma exZero_wellFormed: "wellFormed exZero 0"
  by (simp add: wellFormed_def exZero_def rowOffset_def)

lemma newMsg_zero:
  assumes "newMsg st off 0 0 ii = Some (prPi, prBeta)"
  shows "prPi = 0 \<and> prBeta = 0"
  using assms by (auto simp: newMsg_def undampedMsg_def Let_def split: if_splits)

lemma dampedMsg_zero: "0 \<le> d \<Longrightarrow> dampedMsg d old 0 = d * old"
  by (simp add: dampedMsg_def)

lemma exUni_group: "groupOK exUni 0"
  by (simp add: groupOK_def exUni_def constPotential_def)

lemma exUni_row: "rowOffset (epRepr exUni) 0 = 0" "rowSz (epRepr exUni) ! 0 = Suc 0"
  by (simp_all add: rowOffset_def exUni_def)

lemma exUni_cavity:
  "forLoop (cavityBody exUni (rowOffset (epRepr exUni) 0) (rowSz (epRepr exUni) ! 0))
      (initBuffer exUni (rowSz (epRepr exUni) ! 0), 0, 0, 0, 0) (rowSz (epRepr exUni) ! 0)
     = Inr ([1, 1 / 2, 0, 0], 2, 2, 2, 1)"
  by (simp add: exUni_row) (simp add: initBuffer_def cavityBody_def exUni_def Let_def numeral_eq_Suc)

lemma exUni_precision: "precisionCavity exUni 0 = Inr None"
  by (simp add: precisionCavity_def exUni_def)

lemma exUni_moments: "compMoments (epPots exUni ! 0) inp = Some [0, -10]"
  by (simp add: exUni_def constPotential_def)

lemma exBound_group: "groupOK exBound 0"
  by (simp add: groupOK_def exBound_def constPotential_def)

lemma exBound_row: "rowOffset (epRepr exBound) 0 = 0" "rowSz (epRepr exBound) ! 0 = Suc 0"
  by (simp_all add: rowOffset_def exBound_def)

lemma exBound_cavity:
  "forLoop (cavityBody exBound (rowOffset (epRepr exBound) 0) (rowSz (epRepr exBound) ! 0))
      (initBuffer exBound (rowSz (epRepr exBound) ! 0), 0, 0, 0, 0) (rowSz (epRepr exBound) ! 0)
     = Inr ([0, 1, 0, 0], 0, 1 / 1000000000000, 0, 1 / 1000000000000)"
  by (simp add: exBound_row)
    (simp add: initBuffer_def cavityBody_def exBound_def Let_def numeral_eq_Suc)

lemma exBound_precision: "precisionCavity exBound 0 = Inr None"
  by (simp add: precisionCavity_def exBound_def)

lemma exBound_moments: "compMoments (epPots exBound ! 0) inp = Some [0, 999999999990]"
  by (simp add: exBound_def constPotential_def)

lemma exBound_run:
  "sequentialUpdate 0 0 False False exBound
     = (Inr (updNumericalError, None, None), exBound\<lparr>buffVec := [0, 1, 0, 0]\<rparr>)"
proof -
  have c4: "forLoop (updateBody exBound 0 (Suc 0) 0 999999999990 False) ([0, 1, 0, 0], 0, 0, 0) (Suc 0)
              = Inl (updNumericalError, None, [0, 1, 0, 0])"
    by (simp add: updateBody_def undampedMsg_def exBound_def Let_def)
  show ?thesis
    using exBound_cavity
    by (simp add: seqUpd_run [OF exBound_group] exBound_row exBound_precision
        exBound_moments c4 del: forLoop.simps)
qed








lemma exPrec_group: "groupOK exPrec 0"
  by (simp add: groupOK_def exPrec_def constPotential_def)

lemma exPrec_row: "rowOffset (epRepr exPrec) 0 = 0" "rowSz (epRepr exPrec) ! 0 = Suc 0"
  by (simp_all add: rowOffset_def exPrec_def)

lemma exPrec_run:
  "sequentialUpdate 0 0 False False exPrec = (Inr (updSuccess, None, None), exPrecAfter)"
proof -
  have c1: "forLoop (cavityBody exPrec 0 (Suc 0)) (initBuffer exPrec (Suc 0), 0, 0, 0, 0) (Suc 0)
              = Inr ([1, 1 / 2, 0, 0], 2, 2, 2, 1)"
    by (simp add: initBuffer_def cavityBody_def exPrec_def Let_def numeral_eq_Suc)
  have c2: "precisionCavity exPrec 0 = Inr (Some (0, 1, 2, 2))"
    by (simp add: precisionCavity_def exPrec_def Let_def)
  have c3: "compMoments (epPots exPrec ! 0) (momentInput 2 2 (Some (0, 1, 2, 2)))
              = Some [0, 0, 7, 9]"
    by (simp add: exPrec_def constPotential_def)
  have c4: "forLoop (updateBody exPrec 0 (Suc 0) 0 0 False) ([1, 1 / 2, 0, 0], 0, 0, 0) (Suc 0)
              = Inr ([1, 1 / 2, 0, 0], 0, 0, 0)"
    by (simp add: updateBody_def undampedMsg_def exPrec_def Let_def)
  have c5: "precisionClamp exPrec 0 (Suc 0) False [0, 0, 7, 9] (0, 1, 2, 2)
              ([1, 1 / 2, 0, 0], 0, 0, 0) = Inr 0"
    by (simp add: precisionClamp_def exPrec_def Let_def numeral_eq_Suc)
  have c6: "forLoop (dampBody exPrec 0 (Suc 0) 0 None) [1, 1 / 2, 0, 0] (Suc 0)
              = Inr [0, 0, 1, 1 / 2]"
    by (simp add: dampBody_def exPrec_def Let_def)
  have c7: "commitLoop 0 0 (Suc 0) [0, 0, 1, 1 / 2] (exPrec\<lparr>buffVec := [0, 0, 1, 1 / 2]\<rparr>) (Suc 0)
              = (exPrecAfter, 2, 2)"
    by (simp add: commitBody_def exPrec_def exPrecAfter_def Let_def)
  show ?thesis
    by (simp add: seqUpd_run [OF exPrec_group] exPrec_row c1 c2 c3 c4 c5 c6 c7
        del: forLoop.simps commitLoop.simps)
qed

lemma exPrecClamp_group: "groupOK exPrecClamp 0"
  by (simp add: groupOK_def exPrecClamp_def constPotential_def)

lemma exPrecClamp_row:
  "rowOffset (epRepr exPrecClamp) 0 = 0" "rowSz (epRepr exPrecClamp) ! 0 = Suc 0"
  by (simp_all add: rowOffset_def exPrecClamp_def)

lemma exPrecClamp_run:
  "sequentialUpdate 0 0 False True exPrecClamp
     = (Inr (updCavCondSkipped, None, Some 1), exPrecClamp\<lparr>buffVec := [0, 1, 0, 0]\<rparr>)"
proof -
  have c1: "forLoop (cavityBody exPrecClamp 0 (Suc 0))
              (initBuffer exPrecClamp (Suc 0), 0, 0, 0, 0) (Suc 0)
              = Inr ([0, 1, 0, 0], 0, 1, 0, 2 / 3)"
    by (simp add: initBuffer_def cavityBody_def exPrecClamp_def Let_def numeral_eq_Suc)
  have c2: "precisionCavity exPrecClamp 0 = Inr (Some (0, 1, 1, 1))"
    by (simp add: precisionCavity_def exPrecClamp_def Let_def)
  have c3: "compMoments (epPots exPrecClamp ! 0) (momentInput 0 1 (Some (0, 1, 1, 1)))
              = Some [0, 0, 3 / 2, 3]"
    by (simp add: exPrecClamp_def constPotential_def)
  have c4: "forLoop (updateBody exPrecClamp 0 (Suc 0) 0 0 True) ([0, 1, 0, 0], 0, 0, 0) (Suc 0)
              = Inr ([0, 1, 0, 0], 0, 0, 0)"
    by (simp add: updateBody_def undampedMsg_def exPrecClamp_def Let_def)
  have c5: "precisionClamp exPrecClamp 0 (Suc 0) True [0, 0, 3 / 2, 3] (0, 1, 1, 1)
              ([0, 1, 0, 0], 0, 0, 0) = Inl (updCavCondSkipped, Some 1, [0, 1, 0, 0])"
    by (simp add: precisionClamp_def getMaxValue_def exPrecClamp_def Let_def numeral_eq_Suc)
  show ?thesis
    by (simp add: seqUpd_run [OF exPrecClamp_group] exPrecClamp_row c1 c2 c3 c4 c5
        del: forLoop.simps commitLoop.simps)
qed

subsection \<open>Rounding to double\<close>

text \<open>Evaluating \<open>fl\<close>: between \<open>2\<^sup>k\<close> and \<open>2\<^sup>k\<^sup>+\<^sup>1\<close> it rounds to a multiple of \<open>2\<^sup>k\<^sup>-\<^sup>5\<^sup>2\<close>.\<close>

lemma fl_eq:
  assumes "2 powi k \<le> \<bar>x\<bar>" and "\<bar>x\<bar> < 2 powi (k + 1)"
  shows "fl x = of_int (roundEven (x / 2 powi (k - 52))) * 2 powi (k - 52)"
proof -
  have "0 < (2::real) powi k" by simp
  with assms(1) have pos: "0 < \<bar>x\<bar>" by linarith
  have "\<lfloor>log 2 \<bar>x\<bar>\<rfloor> = k"
    using assms pos powr_real_of_int' [of 2 k] powr_real_of_int' [of 2 "k + 1"]
    by (simp add: floor_log_eq_powr_iff)
  then show ?thesis using pos by (simp add: fl_def Let_def)
qed

lemma roundEven_of_int: "roundEven (of_int n) = n"
  by (simp add: roundEven_def)

text \<open>A double is rounded to itself.\<close>

lemma fl_exact:
  assumes m: "\<bar>m\<bar> < 2 ^ 53"
  shows "fl (of_int m * 2 powi e) = of_int m * 2 powi e"
proof (cases "m = 0")
  case True
  then show ?thesis by (simp add: fl_def)
next
  case False
  define x :: real where "x = of_int m * 2 powi e"
  define k where "k = \<lfloor>log 2 \<bar>x\<bar>\<rfloor>"
  have x0: "0 < \<bar>x\<bar>" using False by (simp add: x_def)
  have "2 powr of_int k \<le> \<bar>x\<bar>"
    using floor_log_eq_powr_iff [of "\<bar>x\<bar>" 2 k] x0 by (simp add: k_def)
  then have lo: "2 powi k \<le> \<bar>x\<bar>" by (simp add: powr_real_of_int')
  have "\<bar>x\<bar> = of_int \<bar>m\<bar> * 2 powi e" by (simp add: x_def abs_mult)
  also have "\<dots> < 2 ^ 53 * 2 powi e"
  proof -
    have "(of_int \<bar>m\<bar> :: real) < of_int (2 ^ 53)" using m by (simp only: of_int_less_iff)
    then show ?thesis by simp
  qed
  also have "\<dots> = 2 powi (53 + e)" by (simp add: power_int_add)
  finally have "(2::real) powi k < 2 powi (53 + e)" using lo by simp
  then have "k < 53 + e"
    using power_int_increasing [of "53 + e" k "2::real"] by (cases "k < 53 + e") simp_all
  then have ke: "0 \<le> e - (k - 52)" by simp
  have "x / 2 powi (k - 52) = of_int m * 2 powi (e - (k - 52))"
    by (simp add: x_def power_int_diff)
  also have "\<dots> = of_int (m * 2 ^ nat (e - (k - 52)))"
    using ke by (simp add: power_int_def)
  finally have "roundEven (x / 2 powi (k - 52)) = m * 2 ^ nat (e - (k - 52))"
    by (simp only: roundEven_of_int)
  then have "fl x = of_int (m * 2 ^ nat (e - (k - 52))) * 2 powi (k - 52)"
    using x0 by (simp add: fl_def k_def Let_def)
  also have "\<dots> = of_int m * (2 powi (e - (k - 52)) * 2 powi (k - 52))"
    using ke by (simp add: power_int_def)
  also have "2 powi (e - (k - 52)) * 2 powi (k - 52) = (2::real) powi e"
    by (simp add: power_int_add [symmetric])
  finally show ?thesis by (simp add: x_def)
qed

lemma fl_0: "fl 0 = 0"
  by (simp add: fl_def)

lemma fl_1: "fl 1 = 1"
  using fl_exact [of 1 0] by simp

text \<open>
  The doubles of the example \<open>exRound\<close>, written as fractions in lowest terms:
  \<open>2\<^sup>-\<^sup>3\<^sup>1\<close>, \<open>2\<^sup>-\<^sup>3\<^sup>0\<close>, \<open>2\<^sup>3\<^sup>0\<close>, \<open>- (2\<^sup>3\<^sup>0 - 1)\<close>, \<open>- (2\<^sup>3\<^sup>0 - 1) / 2\<^sup>3\<^sup>0\<close>,
  \<open>1/4 + 3 * 2\<^sup>-\<^sup>5\<^sup>4\<close>, \<open>1/2 + 2\<^sup>-\<^sup>5\<^sup>3\<close>, \<open>1/2 - 2\<^sup>-\<^sup>5\<^sup>4\<close>, \<open>5/4 + 2\<^sup>-\<^sup>5\<^sup>2\<close>, and the
  double next to \<open>1 / (5/4 + 2\<^sup>-\<^sup>5\<^sup>2)\<close>.
\<close>

lemma fl_doubles:
  "fl (1 / 2147483648) = 1 / 2147483648"
  "fl (1 / 1073741824) = 1 / 1073741824"
  "fl 1073741824 = 1073741824"
  "fl (- 1073741823) = - 1073741823"
  "fl (- (1073741823 / 1073741824)) = - (1073741823 / 1073741824)"
  "fl (4503599627370499 / 18014398509481984) = 4503599627370499 / 18014398509481984"
  "fl (4503599627370497 / 9007199254740992) = 4503599627370497 / 9007199254740992"
  "fl (9007199254740991 / 18014398509481984) = 9007199254740991 / 18014398509481984"
  "fl (5629499534213121 / 4503599627370496) = 5629499534213121 / 4503599627370496"
  "fl (900719925474099 / 1125899906842624) = 900719925474099 / 1125899906842624"
  using fl_exact [of 1 "-31"] fl_exact [of 1 "-30"] fl_exact [of 1 30]
    fl_exact [of "- 1073741823" 0] fl_exact [of "- 1073741823" "-30"]
    fl_exact [of 4503599627370499 "-54"] fl_exact [of 4503599627370497 "-53"]
    fl_exact [of 9007199254740991 "-54"] fl_exact [of 5629499534213121 "-52"]
    fl_exact [of 900719925474099 "-50"]
  by simp_all

text \<open>
  The roundings of the example: \<open>1 + 2\<^sup>-\<^sup>5\<^sup>4\<close> is rounded to \<open>1\<close>, and
  \<open>1 / (5/4 + 2\<^sup>-\<^sup>5\<^sup>2)\<close> to \<open>900719925474099 * 2\<^sup>-\<^sup>5\<^sup>0\<close>.
\<close>

lemma fl_round: "fl (18014398509481985 / 18014398509481984) = 1"
  using fl_eq [of 0 "18014398509481985 / 18014398509481984"]
  by (simp add: roundEven_def Let_def)

lemma fl_inverse:
  "fl (4503599627370496 / 5629499534213121) = 900719925474099 / 1125899906842624"
  using fl_eq [of "-1" "4503599627370496 / 5629499534213121"]
  by (simp add: roundEven_def Let_def)

text \<open>The doubles of the literals \<^verbatim>\<open>1e-6\<close> and \<^verbatim>\<open>1e-10\<close>.\<close>

lemma fl_1em6: "fl (1 / 1000000) = 4722366482869645 / 4722366482869645213696"
  using fl_eq [of "-20" "1 / 1000000"] by (simp add: roundEven_def Let_def)

lemma fl_1em10: "fl (1 / 10000000000) = 7737125245533627 / 77371252455336267181195264"
  using fl_eq [of "-34" "1 / 10000000000"] by (simp add: roundEven_def Let_def)

subsection \<open>The two embeddings\<close>

text \<open>Without rounding, the second embedding is the first.\<close>

lemma MAXRELDIFFR_exact: "MAXRELDIFFR (\<lambda>x. x) = MAXRELDIFF"
  by (simp add: MAXRELDIFFR_def MAXRELDIFF_def fun_eq_iff)

lemma cavityBodyR_exact: "cavityBodyR (\<lambda>x. x) = cavityBody"
  by (simp add: cavityBodyR_def cavityBody_def fun_eq_iff)

lemma precisionCavityR_exact: "precisionCavityR (\<lambda>x. x) = precisionCavity"
  by (simp add: precisionCavityR_def precisionCavity_def fun_eq_iff)

lemma undampedMsgR_exact: "undampedMsgR (\<lambda>x. x) = undampedMsg"
  by (simp add: undampedMsgR_def undampedMsg_def fun_eq_iff)

lemma oneMinusEtaR_exact: "oneMinusEtaR (\<lambda>x. x) = oneMinusEta"
  by (simp add: oneMinusEtaR_def oneMinusEta_def fun_eq_iff)

lemma updateBodyR_exact: "updateBodyR (\<lambda>x. x) = updateBody"
  unfolding updateBodyR_def updateBody_def undampedMsgR_exact oneMinusEtaR_exact fun_eq_iff
  by simp

lemma precisionClampR_exact: "precisionClampR (\<lambda>x. x) = precisionClamp"
  by (simp add: precisionClampR_def precisionClamp_def fun_eq_iff)

lemma dampBodyR_exact: "dampBodyR (\<lambda>x. x) = dampBody"
  by (simp add: dampBodyR_def dampBody_def fun_eq_iff)

lemma commitBodyR_exact: "commitBodyR (\<lambda>x. x) = commitBody"
  by (simp add: commitBodyR_def commitBody_def fun_eq_iff)

lemma commitLoopR_exact:
  "commitLoopR (\<lambda>x. x) j off vjSz bv st n = commitLoop j off vjSz bv st n"
  by (induction n) (simp_all add: commitBodyR_exact)

lemma sequentialUpdateR_exact:
  "sequentialUpdateR (\<lambda>x. x) j d wd we st = sequentialUpdate j d wd we st"
  unfolding sequentialUpdateR_def sequentialUpdate_def cavityBodyR_exact
    precisionCavityR_exact updateBodyR_exact precisionClampR_exact dampBodyR_exact
    commitLoopR_exact MAXRELDIFFR_exact
  by simp

lemma seqUpdR_run:
  assumes "groupOK st j" and "0 \<le> d" and "d < 1"
  shows "sequentialUpdateR rnd j d wd we st =
    (case forLoop (cavityBodyR rnd st (rowOffset (epRepr st) j) (rowSz (epRepr st) ! j))
            (initBuffer st (rowSz (epRepr st) ! j), 0, 0, 0, 0) (rowSz (epRepr st) ! j) of
       Inl (status, eff, bv) \<Rightarrow> (Inr (status, None, eff), st\<lparr>buffVec := bv\<rparr>)
     | Inr (bv1, cH, cRho, mH, mRho) \<Rightarrow>
         (case precisionCavityR rnd st j of
            Inl status \<Rightarrow> (Inr (status, None, None), st\<lparr>buffVec := bv1\<rparr>)
          | Inr prec \<Rightarrow>
              (case compMoments (epPots st ! j) (momentInput cH cRho prec) of
                 None \<Rightarrow> (Inr (updNumericalError, None, None), st\<lparr>buffVec := bv1\<rparr>)
               | Some ret \<Rightarrow>
                   (case forLoop (updateBodyR rnd st (rowOffset (epRepr st) j)
                                    (rowSz (epRepr st) ! j) (ret ! 0) (ret ! 1) we)
                           (bv1, d, 0, 0) (rowSz (epRepr st) ! j) of
                      Inl (status, eff, bv) \<Rightarrow> (Inr (status, None, eff), st\<lparr>buffVec := bv\<rparr>)
                    | Inr (bv2, dampFact1, i, prPi) \<Rightarrow>
                        (case (case prec of None \<Rightarrow> Inr dampFact1
                               | Some p \<Rightarrow>
                                   precisionClampR rnd st (rowOffset (epRepr st) j)
                                     (rowSz (epRepr st) ! j) we ret p
                                     (bv2, dampFact1, i, prPi)) of
                           Inl (status, eff, bv) \<Rightarrow>
                             (Inr (status, None, eff), st\<lparr>buffVec := bv\<rparr>)
                         | Inr dampFact' \<Rightarrow>
                             (case forLoop (dampBodyR rnd st (rowOffset (epRepr st) j)
                                              (rowSz (epRepr st) ! j) dampFact'
                                              (if we then Some dampFact' else None))
                                     bv2 (rowSz (epRepr st) ! j) of
                                Inl (status, eff, bv) \<Rightarrow>
                                  (Inr (status, None, eff), st\<lparr>buffVec := bv\<rparr>)
                              | Inr bv3 \<Rightarrow>
                                  (case commitLoopR rnd j (rowOffset (epRepr st) j)
                                          (rowSz (epRepr st) ! j) bv3
                                          (st\<lparr>buffVec := bv3\<rparr>) (rowSz (epRepr st) ! j) of
                                     (st', mprH, mprRho) \<Rightarrow>
                                       (Inr (updSuccess,
                                             (if wd
                                              then Some (max (MAXRELDIFFR rnd mH mprH)
                                                     (MAXRELDIFFR rnd (rnd (sqrt mRho))
                                                        (rnd (sqrt mprRho))))
                                              else None),
                                             (if we then Some dampFact' else None)), st'))))))))"
  using assms unfolding groupOK_iff sequentialUpdateR_def Let_def by auto

subsection \<open>The run of \<open>exRound\<close> in double arithmetic\<close>

lemma exRound_group: "groupOK exRound 0"
  by (simp add: groupOK_def exRound_def constPotential_def)

lemma exRound_row: "rowOffset (epRepr exRound) 0 = 0" "rowSz (epRepr exRound) ! 0 = Suc 0"
  by (simp_all add: rowOffset_def exRound_def)

text \<open>
  Line 314: the cavity precision \<open>(5/4 + 2\<^sup>-\<^sup>5\<^sup>2) - (1/4 + 3 * 2\<^sup>-\<^sup>5\<^sup>4) = 1 + 2\<^sup>-\<^sup>5\<^sup>4\<close> is
  rounded to \<open>1\<close>.
\<close>

lemma exRound_cavity:
  "forLoop (cavityBodyR fl exRound 0 (Suc 0)) (initBuffer exRound (Suc 0), 0, 0, 0, 0) (Suc 0)
     = Inr ([0, 1, 0, 0], 0, 1, 0, 900719925474099 / 1125899906842624)"
  by (simp add: initBuffer_def cavityBodyR_def exRound_def Let_def numeral_eq_Suc
      fl_0 fl_1 fl_doubles fl_round fl_inverse)

lemma exRound_precision: "precisionCavityR fl exRound 0 = Inr None"
  by (simp add: precisionCavityR_def exRound_def)

lemma exRound_moments:
  "compMoments (epPots exRound ! 0) (momentInput 0 1 None) = Some [0, - 1073741823]"
  by (simp add: exRound_def constPotential_def)

text \<open>
  Lines 367-378: \<open>temp2 = 1\<close>, \<open>temp = 1 + (2\<^sup>3\<^sup>0 - 1) = 2\<^sup>3\<^sup>0\<close>, then \<open>temp = 2\<^sup>-\<^sup>3\<^sup>0\<close>,
  \<open>prPi = - (2\<^sup>3\<^sup>0 - 1) / 2\<^sup>3\<^sup>0\<close> and \<open>prBeta = 0\<close>, all without rounding error.
\<close>

lemma exRound_update:
  "forLoop (updateBodyR fl exRound 0 (Suc 0) 0 (- 1073741823) False) ([0, 1, 0, 0], 0, 0, 0)
      (Suc 0)
     = Inr ([0, 1, 0, - (1073741823 / 1073741824)], 0, 0, - (1073741823 / 1073741824))"
  by (simp add: updateBodyR_def undampedMsgR_def exRound_def Let_def
      fl_0 fl_1 fl_doubles fl_1em6 fl_1em10)

text \<open>Line 454: the new marginal precision \<open>1 - (2\<^sup>3\<^sup>0 - 1) / 2\<^sup>3\<^sup>0 = 2\<^sup>-\<^sup>3\<^sup>0\<close>.\<close>

lemma exRound_damp:
  "forLoop (dampBodyR fl exRound 0 (Suc 0) 0 None) [0, 1, 0, - (1073741823 / 1073741824)]
      (Suc 0)
     = Inr [0, - (1073741823 / 1073741824), 0, 1 / 1073741824]"
  by (simp add: dampBodyR_def exRound_def Let_def fl_0 fl_1 fl_doubles)

lemma exRound_commit:
  "commitLoopR fl 0 0 (Suc 0) [0, - (1073741823 / 1073741824), 0, 1 / 1073741824]
      (exRound\<lparr>buffVec := [0, - (1073741823 / 1073741824), 0, 1 / 1073741824]\<rparr>) (Suc 0)
     = (exRoundAfter, 0, 1073741824)"
  by (simp add: commitBodyR_def exRound_def exRoundAfter_def Let_def fl_0 fl_1 fl_doubles)

lemma exRound_run:
  "sequentialUpdateR fl 0 0 False False exRound = (Inr (updSuccess, None, None), exRoundAfter)"
  by (simp add: seqUpdR_run [OF exRound_group] exRound_row exRound_cavity exRound_precision
      exRound_moments exRound_update exRound_damp exRound_commit
      del: forLoop.simps commitLoopR.simps)

lemma exRound_doubles: "doubles exRound" "doubles exRoundAfter"
  by (simp_all add: doubles_def exRound_def exRoundAfter_def fl_0 fl_1 fl_doubles)

lemma exRound_wellFormed: "wellFormed exRound 0"
  by (simp add: wellFormed_def exRound_def rowOffset_def)

lemma exRound_sumInvariant: "sumInvariant exRound"
  by (simp add: sumInvariant_def msgSum_def exRound_def lessThan_Suc numeral_3_eq_3)

lemma exRound_cavities:
  "list_all (\<lambda>p. piMinThres exRound \<le> margPi exRound ! 0 - p) (piVals (epRepr exRound))"
  by (simp add: exRound_def)

lemma exRoundAfter_sum:
  "margPi exRoundAfter ! 0 = 1 / 2 ^ 30"
  "msgSum (colInd (epRepr exRoundAfter)) (piVals (epRepr exRoundAfter)) 0
     = 1 / 2 ^ 30 + 1 / 2 ^ 54"
  by (simp_all add: msgSum_def exRoundAfter_def lessThan_Suc numeral_3_eq_3)

lemma exRoundAfter_sumInvariant: "\<not> sumInvariant exRoundAfter"
  by (simp add: sumInvariant_def msgSum_def exRoundAfter_def lessThan_Suc numeral_3_eq_3)

lemma exRoundAfter_tolerance: "\<not> sumInvariantTol (1 / 10 ^ 9) exRoundAfter"
  by (simp add: sumInvariantTol_def msgSum_def exRoundAfter_def lessThan_Suc numeral_3_eq_3)

subsection \<open>The run of \<open>exTwo\<close>\<close>

lemma exTwo_group: "groupOK exTwo 0"
  by (simp add: groupOK_def exTwo_def constPotential_def)

lemma exTwo_row: "rowOffset (epRepr exTwo) 0 = 0" "rowSz (epRepr exTwo) ! 0 = Suc (Suc 0)"
  by (simp_all add: rowOffset_def exTwo_def)

lemma exTwo_cavity:
  "forLoop (cavityBody exTwo 0 (Suc (Suc 0))) (initBuffer exTwo (Suc (Suc 0)), 0, 0, 0, 0)
      (Suc (Suc 0))
     = Inr ([3, 4, 1, 1, 0, 0, 0, 0], 11, 5, 6, 11 / 6)"
  by (simp add: initBuffer_def cavityBody_def exTwo_def Let_def numeral_eq_Suc)

lemma exTwo_precision: "precisionCavity exTwo 0 = Inr None"
  by (simp add: precisionCavity_def exTwo_def)

lemma exTwo_moments: "compMoments (epPots exTwo ! 0) inp = Some [1, 1 / 8]"
  by (simp add: exTwo_def constPotential_def)

lemma exTwo_update:
  "forLoop (updateBody exTwo 0 (Suc (Suc 0)) 1 (1 / 8) we) ([3, 4, 1, 1, 0, 0, 0, 0], d, 0, 0)
      (Suc (Suc 0))
     = Inr ([3, 4, 1, 1, 11 / 7, 8, 1 / 7, 1], d, Suc 0, 1)"
  by (simp add: updateBody_def undampedMsg_def exTwo_def Let_def numeral_eq_Suc)

lemma exTwo_damp:
  "forLoop (dampBody exTwo 0 (Suc (Suc 0)) (1 / 2) eo) [3, 4, 1, 1, 11 / 7, 8, 1 / 7, 1]
      (Suc (Suc 0))
     = Inr [9 / 7, 5, 4 / 7, 3 / 2, 30 / 7, 9, 11 / 7, 5 / 2]"
  by (simp add: dampBody_def exTwo_def Let_def numeral_eq_Suc)

lemma exTwo_commit:
  "commitLoop 0 0 (Suc (Suc 0)) [9 / 7, 5, 4 / 7, 3 / 2, 30 / 7, 9, 11 / 7, 5 / 2]
      (exTwo\<lparr>buffVec := [9 / 7, 5, 4 / 7, 3 / 2, 30 / 7, 9, 11 / 7, 5 / 2]\<rparr>) (Suc (Suc 0))
     = (exTwoAfter, 546 / 55, 123 / 55)"
  by (simp add: commitBody_def exTwo_def exTwoAfter_def Let_def numeral_eq_Suc)

lemma exTwo_run:
  "sequentialUpdate 0 (1 / 2) False True exTwo
     = (Inr (updSuccess, None, Some (1 / 2)), exTwoAfter)"
  by (simp add: seqUpd_run [OF exTwo_group] exTwo_row exTwo_cavity exTwo_precision
      exTwo_moments exTwo_update exTwo_damp exTwo_commit
      del: forLoop.simps commitLoop.simps)

lemma exTwo_wellFormed: "wellFormed exTwo 0"
  by (simp add: wellFormed_def exTwo_def rowOffset_def)

lemma exTwo_sumInvariant: "sumInvariant exTwo"
  by (simp add: sumInvariant_def msgSum_def exTwo_def lessThan_Suc numeral_eq_Suc less_Suc_eq)

lemma exTwo_newMsg:
  "newMsg exTwo 0 1 (1 / 8) 0 = Some (1 / 7, 11 / 7)"
  "newMsg exTwo 0 1 (1 / 8) (Suc 0) = Some (1, 8)"
  by (simp_all add: newMsg_def undampedMsg_def cavPi_def cavBeta_def exTwo_def Let_def)

section \<open>The claims\<close>

text \<open>
  C1. When the call returns a status other than \<open>updSuccess\<close>, the status is one of
  \<open>updCavityInvalid\<close>, \<open>updNumericalError\<close>, \<open>updMarginalsInvalid\<close>,
  \<open>updCavCondSkipped\<close>, and the representation (the messages \<open>pi\<close>, \<open>beta\<close> and, for
  bivariate precision potentials, \<open>a\<close>, \<open>c\<close>), the marginals (\<open>margPi\<close>,
  \<open>margBeta\<close>, \<open>margA\<close>, \<open>margC\<close>) and the three maximum value indices are what
  they were before the call. Only the scratch buffer may differ.
\<close>

theorem C1_failure_leaves_state:
  assumes "0 \<le> d" and "d < 1"
    and "sequentialUpdate j d wd we st = (Inr (status, delta, eff), st')"
    and "status \<noteq> updSuccess"
  shows "status \<in> {updCavityInvalid, updNumericalError, updMarginalsInvalid, updCavCondSkipped}
    \<and> epRepr st' = epRepr st \<and> epReprPrec st' = epReprPrec st
    \<and> margPi st' = margPi st \<and> margBeta st' = margBeta st
    \<and> margA st' = margA st \<and> margC st' = margC st
    \<and> epMaxPi st' = epMaxPi st \<and> epMaxA st' = epMaxA st \<and> epMaxC st' = epMaxC st
    \<and> st' = st\<lparr>buffVec := buffVec st'\<rparr>"
proof -
  from seqUpd_failure_frame [OF assms(3,4)] obtain bv where
    "st' = st\<lparr>buffVec := bv\<rparr>"
    "status \<in> {updCavityInvalid, updNumericalError, updMarginalsInvalid, updCavCondSkipped}"
    by blast
  then show ?thesis by simp
qed

theorem C1_failure_leaves_state_witness:
  "(0::real) \<le> 0 \<and> (0::real) < 1
   \<and> sequentialUpdate 0 0 True True exUni
       = (Inr (updMarginalsInvalid, None, Some 0),
          exUni\<lparr>buffVec := [1, 1 / 2, - (20 / 21), 1 / 42]\<rparr>)
   \<and> updMarginalsInvalid \<noteq> updSuccess
   \<and> piVals (epRepr (exUni\<lparr>buffVec := [1, 1 / 2, - (20 / 21), 1 / 42]\<rparr>)) = [1 / 2]
   \<and> margPi (exUni\<lparr>buffVec := [1, 1 / 2, - (20 / 21), 1 / 42]\<rparr>) = [1]"
proof -
  have ne: "updMarginalsInvalid \<noteq> updSuccess"
    by (simp add: updMarginalsInvalid_def updSuccess_def)
  from C1_failure_leaves_state [OF _ _ exUni_run ne]
  have "epRepr (exUni\<lparr>buffVec := [1, 1 / 2, - (20 / 21), 1 / 42]\<rparr>) = epRepr exUni"
    "margPi (exUni\<lparr>buffVec := [1, 1 / 2, - (20 / 21), 1 / 42]\<rparr>) = margPi exUni"
    by simp_all
  then have "piVals (epRepr (exUni\<lparr>buffVec := [1, 1 / 2, - (20 / 21), 1 / 42]\<rparr>)) = [1 / 2]"
    "margPi (exUni\<lparr>buffVec := [1, 1 / 2, - (20 / 21), 1 / 42]\<rparr>) = [1]"
    by (simp_all add: exUni_def)
  with exUni_run ne show ?thesis by simp
qed

text \<open>
  C2. The code does not do what the claim says: no line of \<open>sequentialUpdate\<close> writes
  \<open>a_j\<close>, \<open>c_j\<close>, the marginals \<open>a_k\<close>, \<open>c_k\<close> or the indices of maximum values
  for \<open>a\<close> and \<open>c\<close> (lines 459-481 write \<open>beta\<close>, \<open>pi\<close>, their marginals and
  the index for \<open>pi\<close> only). On \<open>exPrec\<close> the call returns \<open>updSuccess\<close>; the new
  parameters without damping are \<open>hatA - cA = 7 - 2 = 5\<close> and \<open>hatC - cC = 9 - 2 = 7\<close>,
  and after the call \<open>a_0\<close>, \<open>c_0\<close> are still \<open>1\<close>, the marginals still \<open>3\<close> and
  the maximum values still \<open>1\<close>.
\<close>

theorem C2_precision_parameters_not_committed:
  "sequentialUpdate 0 0 False False exPrec = (Inr (updSuccess, None, None), exPrecAfter)
   \<and> compMoments (epPots exPrec ! 0) (oracleInput exPrec 0) = Some [0, 0, 7, 9]
   \<and> precisionCavity exPrec 0 = Inr (Some (0, 1, 2, 2))
   \<and> epReprPrec exPrec = Some \<lparr>tauInd = [0], aVals = [1], cVals = [1]\<rparr>
   \<and> epReprPrec exPrecAfter = Some \<lparr>tauInd = [0], aVals = [1], cVals = [1]\<rparr>
   \<and> margA exPrec = [3] \<and> margA exPrecAfter = [3]
   \<and> margC exPrec = [3] \<and> margC exPrecAfter = [3]
   \<and> epMaxA exPrecAfter = Some [[(0, 1)]] \<and> epMaxC exPrecAfter = Some [[(0, 1)]]"
  using exPrec_run
  by (simp add: exPrec_def exPrecAfter_def constPotential_def precisionCavity_def Let_def)

text \<open>
  C3. The code does not do what the claim says: line 427 computes the value for
  \<open>1 - eta\<close> of the \<open>a\<close> parameter from \<^verbatim>\<open>mPiP[i]\<close>, \<^verbatim>\<open>piMinThres\<close>,
  \<^verbatim>\<open>piP[ii]\<close> and \<^verbatim>\<open>prPi\<close>, and there is no such step for \<open>c\<close>. On
  \<open>exPrecClamp\<close> the new \<open>a\<close> parameter \<open>1/2\<close> is below \<open>a_0 = 1\<close>; the claim's
  value is \<open>min ((a_k - kappa - aMinThres) / (a_0 - 1/2)) 1 = min ((2 - 1 - 1/2) / (1/2)) 1
  = 1\<close>, which asks for no damping, while the code computes
  \<open>(pi_0 - kappa - piMinThres) / (piP[1] - prPi) = (3/2 - 1 - 1/2) / (1 - 0) = 0\<close> and
  returns \<open>updCavCondSkipped\<close>. (\<^verbatim>\<open>piP[1]\<close>, one past the row, is the message
  precision \<open>1\<close> of the next factor here; the numerator is \<open>0\<close>, so the quotient is
  \<open>0\<close> for every value read there other than \<open>prPi = 0\<close>.)
\<close>

theorem C3_precision_clamp_reads_pi:
  "sequentialUpdate 0 0 False True exPrecClamp
     = (Inr (updCavCondSkipped, None, Some 1), exPrecClamp\<lparr>buffVec := [0, 1, 0, 0]\<rparr>)
   \<and> compMoments (epPots exPrecClamp ! 0) (oracleInput exPrecClamp 0) = Some [0, 0, 3 / 2, 3]
   \<and> precisionCavity exPrecClamp 0 = Inr (Some (0, 1, 1, 1))
   \<and> margA exPrecClamp ! 0 = 2 \<and> aMinThres exPrecClamp = 1 / 2
   \<and> epMaxA exPrecClamp = Some [[(0, 1), (1, 1)]]
   \<and> getMaxValue [[(0, 1), (1, 1)]] 0 = 1
   \<and> min ((2 - 1 - 1 / 2) / (1 - (3 / 2 - 1))) 1 = (1::real)
   \<and> margPi exPrecClamp ! 0 = 3 / 2 \<and> piMinThres exPrecClamp = 1 / 2
   \<and> piVals (epRepr exPrecClamp) ! 1 = 1
   \<and> min ((3 / 2 - max 1 0 - 1 / 2) / (1 - 0)) 1 = (0::real)"
  using exPrecClamp_run
  by (simp add: exPrecClamp_def constPotential_def precisionCavity_def getMaxValue_def Let_def)

text \<open>
  C4, as the code has it. Let the moment computation of the call succeed with
  \<open>(alpha, nu) = (0, 0)\<close>, on a driver that is well formed for row \<open>j\<close>. A call that
  returns another status than \<open>updSuccess\<close> leaves the representation unchanged. A call
  that returns \<open>updSuccess\<close> multiplies every message parameter of factor \<open>j\<close> by the
  effective damping factor \<open>dEff\<close>, which is at least the damping factor passed and below
  \<open>1\<close> (the new parameters without damping are \<open>0\<close>): without damping the message
  of factor \<open>j\<close> is reset to zero. The message parameters of the other factors and the
  parameters \<open>a\<close>, \<open>c\<close> are unchanged.
\<close>

theorem C4_trivial_moments:
  assumes wf: "wellFormed st j"
    and orc: "compMoments (epPots st ! j) (oracleInput st j) = Some ret"
    and zero: "ret ! 0 = 0" "ret ! 1 = 0"
    and run: "sequentialUpdate j d wd we st = (Inr (status, delta, eff), st')"
  shows "(status \<noteq> updSuccess \<longrightarrow> epRepr st' = epRepr st \<and> epReprPrec st' = epReprPrec st)
    \<and> (status = updSuccess \<longrightarrow>
         epReprPrec st' = epReprPrec st
         \<and> (\<exists>dEff. d \<le> dEff \<and> dEff < 1 \<and> eff = (if we then Some dEff else None)
              \<and> (\<forall>ii<rowSz (epRepr st) ! j.
                    piVals (epRepr st') ! (rowOffset (epRepr st) j + ii)
                      = dEff * piVals (epRepr st) ! (rowOffset (epRepr st) j + ii)
                    \<and> betaVals (epRepr st') ! (rowOffset (epRepr st) j + ii)
                      = dEff * betaVals (epRepr st) ! (rowOffset (epRepr st) j + ii)))
         \<and> (\<forall>p. \<not> (rowOffset (epRepr st) j \<le> p
                    \<and> p < rowOffset (epRepr st) j + rowSz (epRepr st) ! j) \<longrightarrow>
               piVals (epRepr st') ! p = piVals (epRepr st) ! p
               \<and> betaVals (epRepr st') ! p = betaVals (epRepr st) ! p))"
proof (intro conjI impI)
  assume "status \<noteq> updSuccess"
  from seqUpd_failure_frame [OF run this] obtain bv where "st' = st\<lparr>buffVec := bv\<rparr>" by blast
  then show "epRepr st' = epRepr st" "epReprPrec st' = epReprPrec st" by simp_all
next
  let ?off = "rowOffset (epRepr st) j" and ?n = "rowSz (epRepr st) ! j"
  assume s: "status = updSuccess"
  from seqUpd_status_cases [OF run] have d0: "0 \<le> d" by simp
  from run s have run': "sequentialUpdate j d wd we st = (Inr (updSuccess, delta, eff), st')"
    by simp
  from seqUpd_never_written [OF run] show "epReprPrec st' = epReprPrec st" by simp
  from wf run' obtain dEff ret' where
    db: "d \<le> dEff" "dEff < 1" and eff: "eff = (if we then Some dEff else None)"
    and orc': "compMoments (epPots st ! j) (oracleInput st j) = Some ret'"
    and msgs: "\<forall>ii<?n. \<exists>prPi prBeta. newMsg st ?off (ret' ! 0) (ret' ! 1) ii = Some (prPi, prBeta)
        \<and> piVals (epRepr st') ! (?off + ii) = dampedMsg dEff (piVals (epRepr st) ! (?off + ii)) prPi
        \<and> betaVals (epRepr st') ! (?off + ii)
            = dampedMsg dEff (betaVals (epRepr st) ! (?off + ii)) prBeta"
    and out: "\<forall>p. \<not> (?off \<le> p \<and> p < ?off + ?n) \<longrightarrow>
        piVals (epRepr st') ! p = piVals (epRepr st) ! p
        \<and> betaVals (epRepr st') ! p = betaVals (epRepr st) ! p"
    by (rule success_state) blast
  from orc orc' have "ret' = ret" by simp
  with zero have z: "ret' ! 0 = 0" "ret' ! 1 = 0" by simp_all
  from db d0 have dE: "0 \<le> dEff" by simp
  have "\<forall>ii<?n. piVals (epRepr st') ! (?off + ii) = dEff * piVals (epRepr st) ! (?off + ii)
                    \<and> betaVals (epRepr st') ! (?off + ii) = dEff * betaVals (epRepr st) ! (?off + ii)"
  proof (intro allI impI)
    fix ii assume "ii < ?n"
    with msgs obtain prPi prBeta where
      nm: "newMsg st ?off (ret' ! 0) (ret' ! 1) ii = Some (prPi, prBeta)"
      and v: "piVals (epRepr st') ! (?off + ii) = dampedMsg dEff (piVals (epRepr st) ! (?off + ii)) prPi"
        "betaVals (epRepr st') ! (?off + ii) = dampedMsg dEff (betaVals (epRepr st) ! (?off + ii)) prBeta"
      by blast
    from newMsg_zero [OF nm [unfolded z]] have "prPi = 0" "prBeta = 0" by simp_all
    with v dampedMsg_zero [OF dE]
    show "piVals (epRepr st') ! (?off + ii) = dEff * piVals (epRepr st) ! (?off + ii)
                    \<and> betaVals (epRepr st') ! (?off + ii) = dEff * betaVals (epRepr st) ! (?off + ii)"
      by simp
  qed
  with db eff show "\<exists>dEff. d \<le> dEff \<and> dEff < 1 \<and> eff = (if we then Some dEff else None)
              \<and> (\<forall>ii<?n. piVals (epRepr st') ! (?off + ii) = dEff * piVals (epRepr st) ! (?off + ii)
                    \<and> betaVals (epRepr st') ! (?off + ii) = dEff * betaVals (epRepr st) ! (?off + ii))"
    by blast
  from out show "\<forall>p. \<not> (?off \<le> p \<and> p < ?off + ?n) \<longrightarrow>
               piVals (epRepr st') ! p = piVals (epRepr st) ! p
               \<and> betaVals (epRepr st') ! p = betaVals (epRepr st) ! p" .
qed

theorem C4_trivial_moments_witness:
  "wellFormed exZero 0
   \<and> compMoments (epPots exZero ! 0) (oracleInput exZero 0) = Some [0, 0]
   \<and> sequentialUpdate 0 (1 / 2) False True exZero
       = (Inr (updSuccess, None, Some (1 / 2)), exZeroHalf)
   \<and> piVals (epRepr exZero) = [1 / 2] \<and> betaVals (epRepr exZero) = [1]
   \<and> piVals (epRepr exZeroHalf) ! 0 = 1 / 2 * (1 / 2)
   \<and> betaVals (epRepr exZeroHalf) ! 0 = 1 / 2 * 1"
proof -
  have z: "[0, 0::real] ! 0 = 0" "[0, 0::real] ! 1 = 0" by simp_all
  from C4_trivial_moments [OF exZero_wellFormed exZero_moments z exZero_run_half]
  obtain dEff where "Some (1 / 2) = (if True then Some dEff else None)"
    and v: "\<forall>ii<rowSz (epRepr exZero) ! 0.
              piVals (epRepr exZeroHalf) ! (rowOffset (epRepr exZero) 0 + ii)
                = dEff * piVals (epRepr exZero) ! (rowOffset (epRepr exZero) 0 + ii)
              \<and> betaVals (epRepr exZeroHalf) ! (rowOffset (epRepr exZero) 0 + ii)
                = dEff * betaVals (epRepr exZero) ! (rowOffset (epRepr exZero) 0 + ii)"
    by blast
  then have "dEff = 1 / 2" by simp
  with v have "piVals (epRepr exZeroHalf) ! 0 = 1 / 2 * (1 / 2)"
    "betaVals (epRepr exZeroHalf) ! 0 = 1 / 2 * 1"
    by (simp_all add: exZero_row) (simp_all add: exZero_def)
  moreover have "piVals (epRepr exZero) = [1 / 2]" "betaVals (epRepr exZero) = [1]"
    by (simp_all add: exZero_def)
  ultimately show ?thesis
    using exZero_wellFormed exZero_moments [of "oracleInput exZero 0"] exZero_run_half by blast
qed

text \<open>
  C4 as stated fails on \<open>exZero\<close>: the moment computation succeeds with
  \<open>(alpha, nu) = (0, 0)\<close>, the call returns \<open>updSuccess\<close>, and the message
  \<open>(beta, pi) = (1, 1/2)\<close> of the factor has become \<open>(0, 0)\<close>.
\<close>

theorem C4_unchanged_counterexample:
  "compMoments (epPots exZero ! 0) (oracleInput exZero 0) = Some [0, 0]
   \<and> sequentialUpdate 0 0 False False exZero = (Inr (updSuccess, None, None), exZeroAfter)
   \<and> piVals (epRepr exZero) = [1 / 2] \<and> betaVals (epRepr exZero) = [1]
   \<and> piVals (epRepr exZeroAfter) = [0] \<and> betaVals (epRepr exZeroAfter) = [0]
   \<and> piVals (epRepr exZeroAfter) \<noteq> piVals (epRepr exZero)
   \<and> betaVals (epRepr exZeroAfter) \<noteq> betaVals (epRepr exZero)"
  using exZero_moments [of "oracleInput exZero 0"] exZero_run
  by (simp add: exZero_def exZeroAfter_def)



text \<open>
  C6, in exact arithmetic. For a driver that is well formed for row \<open>j\<close> (indices in
  range, no variable twice in the row) and whose marginals are the sums of the message
  parameters, a call that returns \<open>updSuccess\<close> leaves marginals that are again the sums
  of the message parameters. What the call has written is determined: with \<open>dEff\<close> the
  effective damping factor (at least the damping factor passed, below \<open>1\<close>, and what is
  stored through \<^verbatim>\<open>effDamp\<close>) and \<open>(alpha, nu)\<close> the result of the moment
  computation on the cavity moments, every message parameter of row \<open>j\<close> is the damped
  value \<open>new + dEff * (old - new)\<close> of the new parameter without damping, and the
  marginal of its variable is the cavity parameter plus that damped value, for \<open>pi\<close>
  and for \<open>beta\<close>; the message parameters outside row \<open>j\<close> and the marginals of the
  variables that are not in the row are unchanged, and so are the variable indices and the
  lengths of the arrays. The sums are sums of reals and the arithmetic of the update is
  exact; in double arithmetic the statement fails, see below.
\<close>

theorem C6_marginal_sum_conservation:
  fixes st :: factorizedEPDriver and j :: nat
  defines "off \<equiv> rowOffset (epRepr st) j" and "vjSz \<equiv> rowSz (epRepr st) ! j"
  assumes wf: "wellFormed st j" and inv: "sumInvariant st"
    and run: "sequentialUpdate j d wd we st = (Inr (updSuccess, delta, eff), st')"
  shows "sumInvariant st'
    \<and> (\<exists>dEff ret.
          d \<le> dEff \<and> dEff < 1 \<and> eff = (if we then Some dEff else None)
          \<and> compMoments (epPots st ! j) (oracleInput st j) = Some ret
          \<and> (\<forall>ii<vjSz. \<exists>prPi prBeta.
                newMsg st off (ret ! 0) (ret ! 1) ii = Some (prPi, prBeta)
                \<and> piVals (epRepr st') ! (off + ii)
                    = dampedMsg dEff (piVals (epRepr st) ! (off + ii)) prPi
                \<and> betaVals (epRepr st') ! (off + ii)
                    = dampedMsg dEff (betaVals (epRepr st) ! (off + ii)) prBeta
                \<and> margPi st' ! (colInd (epRepr st) ! (off + ii))
                    = cavPi st off ii + dampedMsg dEff (piVals (epRepr st) ! (off + ii)) prPi
                \<and> margBeta st' ! (colInd (epRepr st) ! (off + ii))
                    = cavBeta st off ii
                      + dampedMsg dEff (betaVals (epRepr st) ! (off + ii)) prBeta))
    \<and> (\<forall>p. \<not> (off \<le> p \<and> p < off + vjSz) \<longrightarrow>
          piVals (epRepr st') ! p = piVals (epRepr st) ! p
          \<and> betaVals (epRepr st') ! p = betaVals (epRepr st) ! p)
    \<and> (\<forall>i. (\<forall>ii<vjSz. colInd (epRepr st) ! (off + ii) \<noteq> i) \<longrightarrow>
          margPi st' ! i = margPi st ! i \<and> margBeta st' ! i = margBeta st ! i)
    \<and> rowSz (epRepr st') = rowSz (epRepr st) \<and> colInd (epRepr st') = colInd (epRepr st)
    \<and> length (piVals (epRepr st')) = length (piVals (epRepr st))
    \<and> length (betaVals (epRepr st')) = length (betaVals (epRepr st))
    \<and> length (margPi st') = length (margPi st)
    \<and> length (margBeta st') = length (margBeta st)"
proof -
  let ?c = "\<lambda>ii. colInd (epRepr st) ! (off + ii)"
  note w = wellFormed_row [OF wf, folded off_def vjSz_def]
  from wf run obtain dEff ret where
    dEff: "d \<le> dEff" "dEff < 1" "eff = (if we then Some dEff else None)"
    and orc: "compMoments (epPots st ! j) (oracleInput st j) = Some ret"
    and rows: "rowSz (epRepr st') = rowSz (epRepr st)"
    and cols: "colInd (epRepr st') = colInd (epRepr st)"
    and lens: "length (piVals (epRepr st')) = length (piVals (epRepr st))"
      "length (betaVals (epRepr st')) = length (betaVals (epRepr st))"
      "length (margPi st') = length (margPi st)"
      "length (margBeta st') = length (margBeta st)"
    and msgs: "\<forall>ii<vjSz. \<exists>prPi prBeta. newMsg st off (ret ! 0) (ret ! 1) ii = Some (prPi, prBeta)
        \<and> piVals (epRepr st') ! (off + ii) = dampedMsg dEff (piVals (epRepr st) ! (off + ii)) prPi
        \<and> betaVals (epRepr st') ! (off + ii)
            = dampedMsg dEff (betaVals (epRepr st) ! (off + ii)) prBeta"
    and out: "\<forall>p. \<not> (off \<le> p \<and> p < off + vjSz) \<longrightarrow>
        piVals (epRepr st') ! p = piVals (epRepr st) ! p
        \<and> betaVals (epRepr st') ! p = betaVals (epRepr st) ! p"
    and touched: "\<forall>ii<vjSz. margPi st' ! ?c ii = cavPi st off ii + piVals (epRepr st') ! (off + ii)
        \<and> margBeta st' ! ?c ii = cavBeta st off ii + betaVals (epRepr st') ! (off + ii)
        \<and> \<not> margPi st' ! ?c ii < 0.5 * piMinThres st"
    and untouched: "\<forall>i. (\<forall>ii<vjSz. ?c ii \<noteq> i) \<longrightarrow>
        margPi st' ! i = margPi st ! i \<and> margBeta st' ! i = margBeta st ! i"
    unfolding off_def vjSz_def by (rule success_state) blast
  have outPi: "\<forall>p. \<not> (off \<le> p \<and> p < off + vjSz) \<longrightarrow>
        piVals (epRepr st') ! p = piVals (epRepr st) ! p" using out by blast
  have outBeta: "\<forall>p. \<not> (off \<le> p \<and> p < off + vjSz) \<longrightarrow>
        betaVals (epRepr st') ! p = betaVals (epRepr st) ! p" using out by blast
  have sums: "msgSum (colInd (epRepr st)) (piVals (epRepr st')) i
      = msgSum (colInd (epRepr st)) (piVals (epRepr st)) i
        + (\<Sum>ii<vjSz. if ?c ii = i
                     then piVals (epRepr st') ! (off + ii) - piVals (epRepr st) ! (off + ii)
                     else 0)"
    "msgSum (colInd (epRepr st)) (betaVals (epRepr st')) i
      = msgSum (colInd (epRepr st)) (betaVals (epRepr st)) i
        + (\<Sum>ii<vjSz. if ?c ii = i
                     then betaVals (epRepr st') ! (off + ii) - betaVals (epRepr st) ! (off + ii)
                     else 0)" for i
    using msgSum_update_row [OF lens(1) _ outPi] msgSum_update_row [OF lens(2) _ outBeta] w(1,3,4)
    by simp_all
  have conserved: "sumInvariant st'"
    unfolding sumInvariant_def
  proof (intro allI impI)
    fix i assume "i < length (margPi st')"
    then have i: "i < length (margPi st)" using lens(3) by simp
    from inv i have old: "margPi st ! i = msgSum (colInd (epRepr st)) (piVals (epRepr st)) i"
      "margBeta st ! i = msgSum (colInd (epRepr st)) (betaVals (epRepr st)) i"
      by (simp_all add: sumInvariant_def)
    show "margPi st' ! i = msgSum (colInd (epRepr st')) (piVals (epRepr st')) i
        \<and> margBeta st' ! i = msgSum (colInd (epRepr st')) (betaVals (epRepr st')) i"
    proof (cases "\<exists>k<vjSz. ?c k = i")
      case True
      then obtain k where k: "k < vjSz" "?c k = i" by blast
      have uniq: "\<forall>ii<vjSz. ?c ii = i \<longleftrightarrow> ii = k" using w(7) k by blast
      from touched k have t: "margPi st' ! i = cavPi st off k + piVals (epRepr st') ! (off + k)"
        "margBeta st' ! i = cavBeta st off k + betaVals (epRepr st') ! (off + k)" by auto
      from k old have cav: "cavPi st off k
            = msgSum (colInd (epRepr st)) (piVals (epRepr st)) i - piVals (epRepr st) ! (off + k)"
        "cavBeta st off k
            = msgSum (colInd (epRepr st)) (betaVals (epRepr st)) i - betaVals (epRepr st) ! (off + k)"
        by (simp_all add: cavPi_def cavBeta_def)
      show ?thesis
        unfolding cols sums sum_single [OF k(1) uniq] t cav by simp
    next
      case False
      then have none: "\<forall>ii<vjSz. ?c ii \<noteq> i" by blast
      with untouched have "margPi st' ! i = margPi st ! i" "margBeta st' ! i = margBeta st ! i"
        by blast+
      then show ?thesis
        unfolding cols sums sum_none [OF none] using old by simp
    qed
  qed
  have written: "\<forall>ii<vjSz. \<exists>prPi prBeta.
        newMsg st off (ret ! 0) (ret ! 1) ii = Some (prPi, prBeta)
        \<and> piVals (epRepr st') ! (off + ii) = dampedMsg dEff (piVals (epRepr st) ! (off + ii)) prPi
        \<and> betaVals (epRepr st') ! (off + ii)
            = dampedMsg dEff (betaVals (epRepr st) ! (off + ii)) prBeta
        \<and> margPi st' ! ?c ii
            = cavPi st off ii + dampedMsg dEff (piVals (epRepr st) ! (off + ii)) prPi
        \<and> margBeta st' ! ?c ii
            = cavBeta st off ii + dampedMsg dEff (betaVals (epRepr st) ! (off + ii)) prBeta"
  proof (intro allI impI)
    fix ii assume ii: "ii < vjSz"
    from msgs ii obtain prPi prBeta where
      m: "newMsg st off (ret ! 0) (ret ! 1) ii = Some (prPi, prBeta)"
        "piVals (epRepr st') ! (off + ii) = dampedMsg dEff (piVals (epRepr st) ! (off + ii)) prPi"
        "betaVals (epRepr st') ! (off + ii)
           = dampedMsg dEff (betaVals (epRepr st) ! (off + ii)) prBeta"
      by blast
    from touched ii have
      "margPi st' ! ?c ii = cavPi st off ii + piVals (epRepr st') ! (off + ii)"
      "margBeta st' ! ?c ii = cavBeta st off ii + betaVals (epRepr st') ! (off + ii)"
      by blast+
    with m show "\<exists>prPi prBeta.
        newMsg st off (ret ! 0) (ret ! 1) ii = Some (prPi, prBeta)
        \<and> piVals (epRepr st') ! (off + ii) = dampedMsg dEff (piVals (epRepr st) ! (off + ii)) prPi
        \<and> betaVals (epRepr st') ! (off + ii)
            = dampedMsg dEff (betaVals (epRepr st) ! (off + ii)) prBeta
        \<and> margPi st' ! ?c ii
            = cavPi st off ii + dampedMsg dEff (piVals (epRepr st) ! (off + ii)) prPi
        \<and> margBeta st' ! ?c ii
            = cavBeta st off ii + dampedMsg dEff (betaVals (epRepr st) ! (off + ii)) prBeta"
      by (simp del: split_paired_Ex)
  qed
  from dEff orc written have "\<exists>dEff ret.
          d \<le> dEff \<and> dEff < 1 \<and> eff = (if we then Some dEff else None)
          \<and> compMoments (epPots st ! j) (oracleInput st j) = Some ret
          \<and> (\<forall>ii<vjSz. \<exists>prPi prBeta.
                newMsg st off (ret ! 0) (ret ! 1) ii = Some (prPi, prBeta)
                \<and> piVals (epRepr st') ! (off + ii)
                    = dampedMsg dEff (piVals (epRepr st) ! (off + ii)) prPi
                \<and> betaVals (epRepr st') ! (off + ii)
                    = dampedMsg dEff (betaVals (epRepr st) ! (off + ii)) prBeta
                \<and> margPi st' ! (colInd (epRepr st) ! (off + ii))
                    = cavPi st off ii + dampedMsg dEff (piVals (epRepr st) ! (off + ii)) prPi
                \<and> margBeta st' ! (colInd (epRepr st) ! (off + ii))
                    = cavBeta st off ii
                      + dampedMsg dEff (betaVals (epRepr st) ! (off + ii)) prBeta)"
    by blast
  with conserved out untouched rows cols lens show ?thesis by blast
qed

text \<open>
  On \<open>exTwo\<close>, whose row \<open>0\<close> has two positions on two variables with nonzero
  \<open>beta\<close>, updated with damping factor \<open>1/2\<close>: the new message parameters without
  damping are \<open>(pi, beta) = (1/7, 11/7)\<close> and \<open>(1, 8)\<close>; the theorem gives the damped
  values \<open>(4/7, 9/7)\<close> and \<open>(3/2, 5)\<close> for the messages and the cavity parameters
  \<open>(1, 3)\<close> and \<open>(1, 4)\<close> plus these for the marginals.
\<close>

theorem C6_marginal_sum_conservation_witness:
  "wellFormed exTwo 0 \<and> sumInvariant exTwo
   \<and> sequentialUpdate 0 (1 / 2) False True exTwo
       = (Inr (updSuccess, None, Some (1 / 2)), exTwoAfter)
   \<and> sumInvariant exTwoAfter
   \<and> piVals (epRepr exTwo) = [1, 2, 1, 1] \<and> betaVals (epRepr exTwo) = [1, 2, 3, 4]
   \<and> margPi exTwo = [2, 3] \<and> margBeta exTwo = [4, 6]
   \<and> piVals (epRepr exTwoAfter) ! 0 = 4 / 7 \<and> betaVals (epRepr exTwoAfter) ! 0 = 9 / 7
   \<and> piVals (epRepr exTwoAfter) ! 1 = 3 / 2 \<and> betaVals (epRepr exTwoAfter) ! 1 = 5
   \<and> margPi exTwoAfter ! 0 = 1 + 4 / 7 \<and> margBeta exTwoAfter ! 0 = 3 + 9 / 7
   \<and> margPi exTwoAfter ! 1 = 1 + 3 / 2 \<and> margBeta exTwoAfter ! 1 = 4 + 5
   \<and> piVals (epRepr exTwoAfter) ! 2 = 1 \<and> betaVals (epRepr exTwoAfter) ! 2 = 3
   \<and> piVals (epRepr exTwoAfter) ! 3 = 1 \<and> betaVals (epRepr exTwoAfter) ! 3 = 4"
proof -
  note main = C6_marginal_sum_conservation [OF exTwo_wellFormed exTwo_sumInvariant exTwo_run]
  from main have inv: "sumInvariant exTwoAfter" by blast
  from main obtain dEff ret where
    e: "Some (1 / 2) = (if True then Some dEff else None)"
    and r: "compMoments (epPots exTwo ! 0) (oracleInput exTwo 0) = Some ret"
    and v: "\<forall>ii<rowSz (epRepr exTwo) ! 0. \<exists>prPi prBeta.
        newMsg exTwo (rowOffset (epRepr exTwo) 0) (ret ! 0) (ret ! 1) ii = Some (prPi, prBeta)
        \<and> piVals (epRepr exTwoAfter) ! (rowOffset (epRepr exTwo) 0 + ii)
            = dampedMsg dEff (piVals (epRepr exTwo) ! (rowOffset (epRepr exTwo) 0 + ii)) prPi
        \<and> betaVals (epRepr exTwoAfter) ! (rowOffset (epRepr exTwo) 0 + ii)
            = dampedMsg dEff (betaVals (epRepr exTwo) ! (rowOffset (epRepr exTwo) 0 + ii)) prBeta
        \<and> margPi exTwoAfter ! (colInd (epRepr exTwo) ! (rowOffset (epRepr exTwo) 0 + ii))
            = cavPi exTwo (rowOffset (epRepr exTwo) 0) ii
              + dampedMsg dEff (piVals (epRepr exTwo) ! (rowOffset (epRepr exTwo) 0 + ii)) prPi
        \<and> margBeta exTwoAfter ! (colInd (epRepr exTwo) ! (rowOffset (epRepr exTwo) 0 + ii))
            = cavBeta exTwo (rowOffset (epRepr exTwo) 0) ii
              + dampedMsg dEff (betaVals (epRepr exTwo) ! (rowOffset (epRepr exTwo) 0 + ii))
                  prBeta"
    and o: "\<forall>p. \<not> (rowOffset (epRepr exTwo) 0 \<le> p
                 \<and> p < rowOffset (epRepr exTwo) 0 + rowSz (epRepr exTwo) ! 0) \<longrightarrow>
        piVals (epRepr exTwoAfter) ! p = piVals (epRepr exTwo) ! p
        \<and> betaVals (epRepr exTwoAfter) ! p = betaVals (epRepr exTwo) ! p"
    by blast
  from e have d: "dEff = 1 / 2" by simp
  from r have ret: "ret = [1, 1 / 8]" by (simp add: exTwo_moments)
  have r0: "0 < rowSz (epRepr exTwo) ! 0" and r1: "Suc 0 < rowSz (epRepr exTwo) ! 0"
    by (simp_all add: exTwo_row)
  from v [rule_format, OF r0] obtain prPi0 prBeta0 where
    n0: "newMsg exTwo (rowOffset (epRepr exTwo) 0) (ret ! 0) (ret ! 1) 0 = Some (prPi0, prBeta0)"
    and w0: "piVals (epRepr exTwoAfter) ! (rowOffset (epRepr exTwo) 0 + 0)
        = dampedMsg dEff (piVals (epRepr exTwo) ! (rowOffset (epRepr exTwo) 0 + 0)) prPi0"
      "betaVals (epRepr exTwoAfter) ! (rowOffset (epRepr exTwo) 0 + 0)
        = dampedMsg dEff (betaVals (epRepr exTwo) ! (rowOffset (epRepr exTwo) 0 + 0)) prBeta0"
      "margPi exTwoAfter ! (colInd (epRepr exTwo) ! (rowOffset (epRepr exTwo) 0 + 0))
        = cavPi exTwo (rowOffset (epRepr exTwo) 0) 0
          + dampedMsg dEff (piVals (epRepr exTwo) ! (rowOffset (epRepr exTwo) 0 + 0)) prPi0"
      "margBeta exTwoAfter ! (colInd (epRepr exTwo) ! (rowOffset (epRepr exTwo) 0 + 0))
        = cavBeta exTwo (rowOffset (epRepr exTwo) 0) 0
          + dampedMsg dEff (betaVals (epRepr exTwo) ! (rowOffset (epRepr exTwo) 0 + 0)) prBeta0"
    by blast
  from v [rule_format, OF r1] obtain prPi1 prBeta1 where
    n1: "newMsg exTwo (rowOffset (epRepr exTwo) 0) (ret ! 0) (ret ! 1) (Suc 0)
        = Some (prPi1, prBeta1)"
    and w1: "piVals (epRepr exTwoAfter) ! (rowOffset (epRepr exTwo) 0 + Suc 0)
        = dampedMsg dEff (piVals (epRepr exTwo) ! (rowOffset (epRepr exTwo) 0 + Suc 0)) prPi1"
      "betaVals (epRepr exTwoAfter) ! (rowOffset (epRepr exTwo) 0 + Suc 0)
        = dampedMsg dEff (betaVals (epRepr exTwo) ! (rowOffset (epRepr exTwo) 0 + Suc 0)) prBeta1"
      "margPi exTwoAfter ! (colInd (epRepr exTwo) ! (rowOffset (epRepr exTwo) 0 + Suc 0))
        = cavPi exTwo (rowOffset (epRepr exTwo) 0) (Suc 0)
          + dampedMsg dEff (piVals (epRepr exTwo) ! (rowOffset (epRepr exTwo) 0 + Suc 0)) prPi1"
      "margBeta exTwoAfter ! (colInd (epRepr exTwo) ! (rowOffset (epRepr exTwo) 0 + Suc 0))
        = cavBeta exTwo (rowOffset (epRepr exTwo) 0) (Suc 0)
          + dampedMsg dEff (betaVals (epRepr exTwo) ! (rowOffset (epRepr exTwo) 0 + Suc 0))
              prBeta1"
    by blast
  from n0 n1 have new: "prPi0 = 1 / 7" "prBeta0 = 11 / 7" "prPi1 = 1" "prBeta1 = 8"
    unfolding ret exTwo_row by (simp_all add: exTwo_newMsg)
  from w0 have p0:
    "piVals (epRepr exTwoAfter) ! 0 = 4 / 7" "betaVals (epRepr exTwoAfter) ! 0 = 9 / 7"
    "margPi exTwoAfter ! 0 = 1 + 4 / 7" "margBeta exTwoAfter ! 0 = 3 + 9 / 7"
    unfolding d new exTwo_row
    by (simp_all add: dampedMsg_def cavPi_def cavBeta_def exTwo_def)
  from w1 have p1:
    "piVals (epRepr exTwoAfter) ! 1 = 3 / 2" "betaVals (epRepr exTwoAfter) ! 1 = 5"
    "margPi exTwoAfter ! 1 = 1 + 3 / 2" "margBeta exTwoAfter ! 1 = 4 + 5"
    unfolding d new exTwo_row
    by (simp_all add: dampedMsg_def cavPi_def cavBeta_def exTwo_def)
  from o [rule_format, of 2] o [rule_format, of 3] have p2:
    "piVals (epRepr exTwoAfter) ! 2 = 1" "betaVals (epRepr exTwoAfter) ! 2 = 3"
    "piVals (epRepr exTwoAfter) ! 3 = 1" "betaVals (epRepr exTwoAfter) ! 3 = 4"
    unfolding exTwo_row by (simp_all add: exTwo_def)
  have old: "piVals (epRepr exTwo) = [1, 2, 1, 1]" "betaVals (epRepr exTwo) = [1, 2, 3, 4]"
    "margPi exTwo = [2, 3]" "margBeta exTwo = [4, 6]"
    by (simp_all add: exTwo_def)
  from inv p0 p1 p2 old exTwo_wellFormed exTwo_sumInvariant exTwo_run show ?thesis
    by blast
qed

text \<open>
  C6 as stated fails in double arithmetic, on \<open>exRound\<close>. Every number of the driver is
  a double, the marginals are exactly the sums of the message parameters
  (\<open>(1/4 + 3 * 2\<^sup>-\<^sup>5\<^sup>4) + (1/2 + 2\<^sup>-\<^sup>5\<^sup>3) + (1/2 - 2\<^sup>-\<^sup>5\<^sup>4) = 5/4 + 2\<^sup>-\<^sup>5\<^sup>2\<close>), and every
  cavity precision is at least \<open>piMinThres\<close>. The update on factor \<open>0\<close> returns
  \<open>updSuccess\<close>. Line 314 computes the cavity precision
  \<open>(5/4 + 2\<^sup>-\<^sup>5\<^sup>2) - (1/4 + 3 * 2\<^sup>-\<^sup>5\<^sup>4)\<close>, which is \<open>1 + 2\<^sup>-\<^sup>5\<^sup>4\<close> and is rounded to \<open>1\<close>;
  the new message precision is \<open>- (2\<^sup>3\<^sup>0 - 1) / 2\<^sup>3\<^sup>0\<close>, and line 454 commits the marginal
  precision \<open>1 - (2\<^sup>3\<^sup>0 - 1) / 2\<^sup>3\<^sup>0 = 2\<^sup>-\<^sup>3\<^sup>0\<close>. The sum of the message precisions is then
  \<open>2\<^sup>-\<^sup>3\<^sup>0 + 2\<^sup>-\<^sup>5\<^sup>4\<close>: the equality is lost, by a relative deviation of about
  \<open>6 * 10\<^sup>-\<^sup>8\<close>, which is not within \<open>10\<^sup>-\<^sup>9\<close> either.
\<close>

theorem C6_rounding_counterexample:
  "doubles exRound \<and> map fl [0, - 1073741823] = [0, - 1073741823]
   \<and> wellFormed exRound 0 \<and> sumInvariant exRound
   \<and> list_all (\<lambda>p. piMinThres exRound \<le> margPi exRound ! 0 - p) (piVals (epRepr exRound))
   \<and> compMoments (epPots exRound ! 0) (momentInput 0 1 None) = Some [0, - 1073741823]
   \<and> sequentialUpdateR fl 0 0 False False exRound
       = (Inr (updSuccess, None, None), exRoundAfter)
   \<and> margPi exRoundAfter ! 0 = 1 / 2 ^ 30
   \<and> msgSum (colInd (epRepr exRoundAfter)) (piVals (epRepr exRoundAfter)) 0
       = 1 / 2 ^ 30 + 1 / 2 ^ 54
   \<and> \<not> sumInvariant exRoundAfter
   \<and> \<not> sumInvariantTol (1 / 10 ^ 9) exRoundAfter"
  using exRound_doubles(1) exRound_wellFormed exRound_sumInvariant exRound_cavities
    exRound_moments exRound_run exRoundAfter_sum exRoundAfter_sumInvariant
    exRoundAfter_tolerance
  by (simp add: fl_0 fl_doubles)

text \<open>
  C7. For a call that passes the entry checks, the status is \<open>updCavityInvalid\<close> exactly
  when a cavity parameter is below half its threshold (\<open>cavityInvalid\<close>: for some
  position of the row \<open>pi_i - pi_ji < piMinThres / 2\<close>, or for bivariate precision
  potentials \<open>a_k - a_j < aMinThres / 2\<close> or \<open>c_k - c_j < cMinThres / 2\<close>). In that
  case nothing is stored through the out-pointers, the driver is as before up to the scratch
  buffer, and the result is the same whatever the potentials are (with the observable state
  unchanged): the moment computation is not consulted.
\<close>

theorem C7_cavity_invalid:
  assumes "groupOK st j" and "0 \<le> d" and "d < 1"
  shows "((\<exists>delta eff st'.
             sequentialUpdate j d wd we st = (Inr (updCavityInvalid, delta, eff), st'))
           \<longleftrightarrow> cavityInvalid st j)
    \<and> (cavityInvalid st j \<longrightarrow>
          (\<exists>bv. sequentialUpdate j d wd we st
                  = (Inr (updCavityInvalid, None, None), st\<lparr>buffVec := bv\<rparr>)))
    \<and> (cavityInvalid st j \<longrightarrow>
          (\<forall>pots. groupOK (st\<lparr>epPots := pots\<rparr>) j \<longrightarrow>
             (\<exists>bv. sequentialUpdate j d wd we (st\<lparr>epPots := pots\<rparr>)
                     = (Inr (updCavityInvalid, None, None), st\<lparr>epPots := pots, buffVec := bv\<rparr>))))"
proof (intro conjI impI allI iffI)
  assume "\<exists>delta eff st'.
             sequentialUpdate j d wd we st = (Inr (updCavityInvalid, delta, eff), st')"
  then show "cavityInvalid st j" using cavityInvalid_status by blast
next
  assume "cavityInvalid st j"
  from cavityInvalid_run [OF assms this]
  show "\<exists>delta eff st'.
             sequentialUpdate j d wd we st = (Inr (updCavityInvalid, delta, eff), st')"
    by blast
next
  assume "cavityInvalid st j"
  from cavityInvalid_run [OF assms this]
  show "\<exists>bv. sequentialUpdate j d wd we st
                  = (Inr (updCavityInvalid, None, None), st\<lparr>buffVec := bv\<rparr>)" .
next
  fix pots
  assume inv: "cavityInvalid st j" and g: "groupOK (st\<lparr>epPots := pots\<rparr>) j"
  from inv have "cavityInvalid (st\<lparr>epPots := pots\<rparr>) j"
    by (auto simp: cavityInvalid_def cavPi_def split: option.splits)
  from cavityInvalid_run [OF g assms(2,3) this]
  show "\<exists>bv. sequentialUpdate j d wd we (st\<lparr>epPots := pots\<rparr>)
                     = (Inr (updCavityInvalid, None, None), st\<lparr>epPots := pots, buffVec := bv\<rparr>)"
    by simp
qed

theorem C7_cavity_invalid_witness:
  "groupOK exCavity 0 \<and> (0::real) \<le> 0 \<and> (0::real) < 1 \<and> cavityInvalid exCavity 0
   \<and> (\<exists>bv. sequentialUpdate 0 0 True True exCavity
              = (Inr (updCavityInvalid, None, None), exCavity\<lparr>buffVec := bv\<rparr>))
   \<and> groupOK exUni 0 \<and> \<not> cavityInvalid exUni 0
   \<and> \<not> (\<exists>delta eff st'.
            sequentialUpdate 0 0 True True exUni = (Inr (updCavityInvalid, delta, eff), st'))"
proof -
  have g: "groupOK exCavity 0" by (simp add: groupOK_def exCavity_def constPotential_def)
  have g': "groupOK exUni 0" by (simp add: groupOK_def exUni_def constPotential_def)
  have d: "(0::real) \<le> 0" "(0::real) < 1" by simp_all
  from C7_cavity_invalid [OF g d, of True True] exCavity_invalid
  have a: "\<exists>bv. sequentialUpdate 0 0 True True exCavity
              = (Inr (updCavityInvalid, None, None), exCavity\<lparr>buffVec := bv\<rparr>)" by blast
  from C7_cavity_invalid [OF g' d, of True True] exUni_valid
  have b: "\<not> (\<exists>delta eff st'.
            sequentialUpdate 0 0 True True exUni = (Inr (updCavityInvalid, delta, eff), st'))"
    by blast
  from g g' d exCavity_invalid exUni_valid a b show ?thesis by blast
qed

text \<open>
  C8, as the code has it: the branch with the simpler equations is taken when
  \<open>|b| > 10\<^sup>-\<^sup>6\<close> (line 364), the other one when \<open>|b| \<le> 10\<^sup>-\<^sup>6\<close>. Let the
  call get past the cavities and the moment computation, with result \<open>(alpha, nu)\<close>, and let
  the second loop reach position \<open>ii\<close> of the row, with coefficient \<open>b\<close> and cavity
  parameters \<open>pic\<close>, \<open>betac\<close>. If \<open>|b| > 10\<^sup>-\<^sup>6\<close>: when
  \<open>pic / b / b - nu < 10\<^sup>-\<^sup>1\<^sup>0\<close> the call returns \<open>updNumericalError\<close>, and
  otherwise the new parameters without damping are \<open>e * pic * nu\<close> and
  \<open>e * (betac * nu + pic / b * alpha)\<close> with \<open>e = 1 / (pic / b / b - nu)\<close>. If
  \<open>|b| \<le> 10\<^sup>-\<^sup>6\<close>: when \<open>pic - nu * b * b < 10\<^sup>-\<^sup>1\<^sup>0\<close> the call returns
  \<open>updNumericalError\<close>, and otherwise the new parameters are \<open>t * b * nu * pic\<close> and
  \<open>t * (betac * b * nu + pic * alpha)\<close> with \<open>t = b / (pic - nu * b * b)\<close>. The new
  parameters are stored at position \<open>ii\<close> of \<^verbatim>\<open>mprPiP\<close> and \<^verbatim>\<open>mprBetaP\<close>.
\<close>

theorem C8_undamped_messages:
  fixes st :: factorizedEPDriver and j ii :: nat and ret bv1 :: "real list" and d :: real
    and we :: bool
  defines "off \<equiv> rowOffset (epRepr st) j" and "vjSz \<equiv> rowSz (epRepr st) ! j"
  defines "b \<equiv> bVals (epRepr st) ! (off + ii)"
    and "pic \<equiv> cavPi st off ii" and "betac \<equiv> cavBeta st off ii"
    and "alpha \<equiv> ret ! 0" and "nu \<equiv> ret ! 1"
  defines "out \<equiv> forLoop (updateBody st off vjSz alpha nu we) (bv1, d, 0, 0) (Suc ii)"
  assumes pre: "groupOK st j" "0 \<le> d" "d < 1"
    and c1: "forLoop (cavityBody st off vjSz) (initBuffer st vjSz, 0, 0, 0, 0) vjSz
               = Inr (bv1, cH, cRho, mH, mRho)"
    and c2: "precisionCavity st j = Inr prec"
    and c3: "compMoments (epPots st ! j) (momentInput cH cRho prec) = Some ret"
    and reach: "forLoop (updateBody st off vjSz alpha nu we) (bv1, d, 0, 0) ii = Inr s"
    and ii: "ii < vjSz"
  shows "(1 / 1000000 < \<bar>b\<bar> \<and> pic / b / b - nu < 1 / 10000000000 \<longrightarrow>
            sequentialUpdate j d wd we st
              = (Inr (updNumericalError, None, None), st\<lparr>buffVec := bufferAfter out\<rparr>))
    \<and> (1 / 1000000 < \<bar>b\<bar> \<and> \<not> pic / b / b - nu < 1 / 10000000000 \<longrightarrow>
            newMsg st off alpha nu ii
              = Some (1 / (pic / b / b - nu) * pic * nu,
                      1 / (pic / b / b - nu) * (betac * nu + pic / b * alpha))
            \<and> bufferAfter out ! (3 * vjSz + ii) = 1 / (pic / b / b - nu) * pic * nu
            \<and> bufferAfter out ! (2 * vjSz + ii)
                = 1 / (pic / b / b - nu) * (betac * nu + pic / b * alpha))
    \<and> (\<bar>b\<bar> \<le> 1 / 1000000 \<and> pic - nu * b * b < 1 / 10000000000 \<longrightarrow>
            sequentialUpdate j d wd we st
              = (Inr (updNumericalError, None, None), st\<lparr>buffVec := bufferAfter out\<rparr>))
    \<and> (\<bar>b\<bar> \<le> 1 / 1000000 \<and> \<not> pic - nu * b * b < 1 / 10000000000 \<longrightarrow>
            newMsg st off alpha nu ii
              = Some (b / (pic - nu * b * b) * b * nu * pic,
                      b / (pic - nu * b * b) * (betac * b * nu + pic * alpha))
            \<and> bufferAfter out ! (3 * vjSz + ii) = b / (pic - nu * b * b) * b * nu * pic
            \<and> bufferAfter out ! (2 * vjSz + ii)
                = b / (pic - nu * b * b) * (betac * b * nu + pic * alpha))"
proof -
  obtain bv dc i' p' where s: "s = (bv, dc, i', p')" by (cases s) auto
  note r = updateLoop_reach [OF c1 reach [unfolded s] ii]
  have out: "out = updateBody st off vjSz alpha nu we ii (bv, dc, i', p')"
    unfolding out_def by (rule r(5))
  have none: "sequentialUpdate j d wd we st
      = (Inr (updNumericalError, None, None), st\<lparr>buffVec := bufferAfter out\<rparr>)"
    if "newMsg st off alpha nu ii = None"
  proof -
    from that r(4) have o: "out = Inl (updNumericalError, None, bv)"
      unfolding out by (intro updateBody_None) simp
    have le: "Suc ii \<le> rowSz (epRepr st) ! j" using ii by (simp add: vjSz_def)
    from seqUpd_update_early [OF pre c1 [unfolded off_def vjSz_def] c2 c3
        o [unfolded out_def off_def vjSz_def alpha_def nu_def] le]
    show ?thesis by (simp add: o bufferAfter_def)
  qed
  have some: "bufferAfter out ! (3 * vjSz + ii) = prPi \<and> bufferAfter out ! (2 * vjSz + ii) = prBeta"
    if "newMsg st off alpha nu ii = Some (prPi, prBeta)" for prPi prBeta
  proof -
    from that r(4) have "bufferAfter out = bv[3 * vjSz + ii := prPi, 2 * vjSz + ii := prBeta]"
      unfolding out by (intro updateBody_Some(1)) simp
    with r(1) ii show ?thesis by (simp add: nth_list_update)
  qed
  have nm: "newMsg st off alpha nu ii = undampedMsg b pic betac alpha nu"
    by (simp add: newMsg_def b_def pic_def betac_def)
  show ?thesis
  proof (intro conjI impI)
    assume "1 / 1000000 < \<bar>b\<bar> \<and> pic / b / b - nu < 1 / 10000000000"
    then have "newMsg st off alpha nu ii = None" by (simp add: nm undampedMsg_def)
    then show "sequentialUpdate j d wd we st
              = (Inr (updNumericalError, None, None), st\<lparr>buffVec := bufferAfter out\<rparr>)"
      by (rule none)
  next
    assume a: "1 / 1000000 < \<bar>b\<bar> \<and> \<not> pic / b / b - nu < 1 / 10000000000"
    then show n: "newMsg st off alpha nu ii
              = Some (1 / (pic / b / b - nu) * pic * nu,
                      1 / (pic / b / b - nu) * (betac * nu + pic / b * alpha))"
      by (simp add: nm undampedMsg_def Let_def)
    from some [OF n] show "bufferAfter out ! (3 * vjSz + ii) = 1 / (pic / b / b - nu) * pic * nu"
      "bufferAfter out ! (2 * vjSz + ii)
                = 1 / (pic / b / b - nu) * (betac * nu + pic / b * alpha)" by simp_all
  next
    assume "\<bar>b\<bar> \<le> 1 / 1000000 \<and> pic - nu * b * b < 1 / 10000000000"
    then have "newMsg st off alpha nu ii = None" by (simp add: nm undampedMsg_def)
    then show "sequentialUpdate j d wd we st
              = (Inr (updNumericalError, None, None), st\<lparr>buffVec := bufferAfter out\<rparr>)"
      by (rule none)
  next
    assume a: "\<bar>b\<bar> \<le> 1 / 1000000 \<and> \<not> pic - nu * b * b < 1 / 10000000000"
    then show n: "newMsg st off alpha nu ii
              = Some (b / (pic - nu * b * b) * b * nu * pic,
                      b / (pic - nu * b * b) * (betac * b * nu + pic * alpha))"
      by (simp add: nm undampedMsg_def Let_def)
    from some [OF n] show "bufferAfter out ! (3 * vjSz + ii) = b / (pic - nu * b * b) * b * nu * pic"
      "bufferAfter out ! (2 * vjSz + ii)
                = b / (pic - nu * b * b) * (betac * b * nu + pic * alpha)" by simp_all
  qed
qed

theorem C8_undamped_messages_witness:
  "groupOK exUni 0 \<and> groupOK exBound 0 \<and> (0::real) \<le> 0 \<and> (0::real) < 1
   \<and> bVals (epRepr exUni) ! 0 = 1 \<and> cavPi exUni 0 0 = 1 / 2 \<and> cavBeta exUni 0 0 = 1
   \<and> compMoments (epPots exUni ! 0) (momentInput 2 2 None) = Some [0, - 10]
   \<and> newMsg exUni 0 0 (- 10) 0 = Some (- (10 / 21), - (20 / 21))
   \<and> bVals (epRepr exBound) ! 0 = 1 / 1000000 \<and> cavPi exBound 0 0 = 1
   \<and> compMoments (epPots exBound ! 0) (momentInput 0 (1 / 1000000000000) None)
       = Some [0, 999999999990]
   \<and> (\<exists>bv. sequentialUpdate 0 0 False False exBound
              = (Inr (updNumericalError, None, None), exBound\<lparr>buffVec := bv\<rparr>))"
proof -
  have d: "(0::real) \<le> 0" "(0::real) < 1" by simp_all
  have v: "bVals (epRepr exUni) ! 0 = 1" "cavPi exUni 0 0 = 1 / 2" "cavBeta exUni 0 0 = 1"
    "bVals (epRepr exBound) ! 0 = 1 / 1000000" "cavPi exBound 0 0 = 1"
    "cavBeta exBound 0 0 = 0"
    by (simp_all add: exUni_def exBound_def cavPi_def cavBeta_def)
  have r1: "forLoop (updateBody exUni (rowOffset (epRepr exUni) 0) (rowSz (epRepr exUni) ! 0)
              ([0, - 10] ! 0) ([0, - 10] ! 1) True) ([1, 1 / 2, 0, 0], 0, 0, 0) 0
            = Inr ([1, 1 / 2, 0, 0], 0, 0, 0)" by simp
  have i1: "0 < rowSz (epRepr exUni) ! 0" by (simp add: exUni_row)
  from C8_undamped_messages [OF exUni_group d exUni_cavity exUni_precision exUni_moments r1 i1]
  have "1 / 1000000 < \<bar>bVals (epRepr exUni) ! (rowOffset (epRepr exUni) 0 + 0)\<bar>
      \<and> \<not> cavPi exUni (rowOffset (epRepr exUni) 0) 0
            / bVals (epRepr exUni) ! (rowOffset (epRepr exUni) 0 + 0)
            / bVals (epRepr exUni) ! (rowOffset (epRepr exUni) 0 + 0) - [0, - 10] ! 1
          < 1 / 10000000000
    \<longrightarrow> newMsg exUni (rowOffset (epRepr exUni) 0) ([0, - 10] ! 0) ([0, - 10] ! 1) 0
          = Some (1 / (cavPi exUni (rowOffset (epRepr exUni) 0) 0
                        / bVals (epRepr exUni) ! (rowOffset (epRepr exUni) 0 + 0)
                        / bVals (epRepr exUni) ! (rowOffset (epRepr exUni) 0 + 0) - [0, - 10] ! 1)
                    * cavPi exUni (rowOffset (epRepr exUni) 0) 0 * [0, - 10] ! 1,
                  1 / (cavPi exUni (rowOffset (epRepr exUni) 0) 0
                        / bVals (epRepr exUni) ! (rowOffset (epRepr exUni) 0 + 0)
                        / bVals (epRepr exUni) ! (rowOffset (epRepr exUni) 0 + 0) - [0, - 10] ! 1)
                    * (cavBeta exUni (rowOffset (epRepr exUni) 0) 0 * [0, - 10] ! 1
                       + cavPi exUni (rowOffset (epRepr exUni) 0) 0
                           / bVals (epRepr exUni) ! (rowOffset (epRepr exUni) 0 + 0)
                           * [0, - 10] ! 0))"
    by blast
  then have a: "newMsg exUni 0 0 (- 10) 0 = Some (- (10 / 21), - (20 / 21))"
    by (simp add: exUni_row v)
  have r2: "forLoop (updateBody exBound (rowOffset (epRepr exBound) 0) (rowSz (epRepr exBound) ! 0)
              ([0, 999999999990] ! 0) ([0, 999999999990] ! 1) False) ([0, 1, 0, 0], 0, 0, 0) 0
            = Inr ([0, 1, 0, 0], 0, 0, 0)" by simp
  have i2: "0 < rowSz (epRepr exBound) ! 0" by (simp add: exBound_row)
  from C8_undamped_messages [OF exBound_group d exBound_cavity exBound_precision exBound_moments
      r2 i2, of False]
  have "\<bar>bVals (epRepr exBound) ! (rowOffset (epRepr exBound) 0 + 0)\<bar> \<le> 1 / 1000000
      \<and> cavPi exBound (rowOffset (epRepr exBound) 0) 0
          - [0, 999999999990] ! 1 * bVals (epRepr exBound) ! (rowOffset (epRepr exBound) 0 + 0)
              * bVals (epRepr exBound) ! (rowOffset (epRepr exBound) 0 + 0)
          < 1 / 10000000000
    \<longrightarrow> (\<exists>bv. sequentialUpdate 0 0 False False exBound
              = (Inr (updNumericalError, None, None), exBound\<lparr>buffVec := bv\<rparr>))"
    by blast
  then have b: "\<exists>bv. sequentialUpdate 0 0 False False exBound
              = (Inr (updNumericalError, None, None), exBound\<lparr>buffVec := bv\<rparr>)"
    by (simp add: exBound_row v)
  from exUni_group exBound_group d v a b
    exUni_moments [of "momentInput 2 2 None"]
    exBound_moments [of "momentInput 0 (1 / 1000000000000) None"]
  show ?thesis by blast
qed

text \<open>
  C8 as stated fails where \<open>|b| = 10\<^sup>-\<^sup>6\<close>. On \<open>exBound\<close> the coefficient is
  \<open>10\<^sup>-\<^sup>6\<close>, the cavity precision is \<open>1\<close> and \<open>nu = 10\<^sup>1\<^sup>2 - 10\<close>, so the
  denominator \<open>pic / b / b - nu\<close> of the claim's first case is \<open>10\<close>, not below
  \<open>10\<^sup>-\<^sup>1\<^sup>0\<close>; the call returns \<open>updNumericalError\<close> all the same, since the
  code takes the other branch, where \<open>pic - nu * b * b = 10\<^sup>-\<^sup>1\<^sup>1\<close>.
\<close>

theorem C8_boundary_counterexample:
  "1 / 1000000 \<le> \<bar>bVals (epRepr exBound) ! 0\<bar>
   \<and> compMoments (epPots exBound ! 0) (oracleInput exBound 0) = Some [0, 999999999990]
   \<and> cavPi exBound 0 0 / bVals (epRepr exBound) ! 0 / bVals (epRepr exBound) ! 0 - 999999999990
       = 10
   \<and> \<not> (cavPi exBound 0 0 / bVals (epRepr exBound) ! 0 / bVals (epRepr exBound) ! 0
            - 999999999990 < 1 / 10000000000)
   \<and> sequentialUpdate 0 0 False False exBound
       = (Inr (updNumericalError, None, None), exBound\<lparr>buffVec := [0, 1, 0, 0]\<rparr>)"
proof -
  have v: "bVals (epRepr exBound) ! 0 = 1 / 1000000" "cavPi exBound 0 0 = 1"
    by (simp_all add: exBound_def cavPi_def)
  show ?thesis
    unfolding v using exBound_moments [of "oracleInput exBound 0"] exBound_run by simp
qed

text \<open>
  C9. When \<^verbatim>\<open>delta\<close> is supplied and the call returns \<open>updSuccess\<close> on a driver
  that is well formed for row \<open>j\<close>, the value stored is the maximum of the relative
  differences (\<open>MAXRELDIFF\<close>) of the mean and of the standard deviation on \<open>s_j\<close>,
  the moments \<open>momentH\<close>, \<open>momentRho\<close> being those of the marginals before the call
  and of the marginals after it. The relative difference is
  \<open>|a - b| / max(|a|, |b|, 10\<^sup>-\<^sup>8)\<close>; the standard deviations are not negative when
  \<open>piMinThres\<close> and the marginal precisions of the row before the call are positive, so
  that the absolute values around them can be left out.
\<close>

theorem C9_delta:
  assumes wf: "wellFormed st j"
    and run: "sequentialUpdate j d True we st = (Inr (updSuccess, delta, eff), st')"
  shows "delta = Some (max (MAXRELDIFF (momentH st j) (momentH st' j))
                          (MAXRELDIFF (sqrt (momentRho st j)) (sqrt (momentRho st' j))))
    \<and> MAXRELDIFF (momentH st j) (momentH st' j)
        = \<bar>momentH st j - momentH st' j\<bar>
            / max \<bar>momentH st j\<bar> (max \<bar>momentH st' j\<bar> (1 / 100000000))
    \<and> (0 < piMinThres st
        \<and> (\<forall>ii<rowSz (epRepr st) ! j.
              0 < margPi st ! (colInd (epRepr st) ! (rowOffset (epRepr st) j + ii)))
        \<longrightarrow> MAXRELDIFF (sqrt (momentRho st j)) (sqrt (momentRho st' j))
              = \<bar>sqrt (momentRho st j) - sqrt (momentRho st' j)\<bar>
                  / max (sqrt (momentRho st j)) (max (sqrt (momentRho st' j)) (1 / 100000000)))"
proof (intro conjI impI)
  from success_moments [OF wf run]
  show "delta = Some (max (MAXRELDIFF (momentH st j) (momentH st' j))
                          (MAXRELDIFF (sqrt (momentRho st j)) (sqrt (momentRho st' j))))"
    by simp
  show "MAXRELDIFF (momentH st j) (momentH st' j)
        = \<bar>momentH st j - momentH st' j\<bar>
            / max \<bar>momentH st j\<bar> (max \<bar>momentH st' j\<bar> (1 / 100000000))"
    by (simp add: MAXRELDIFF_def)
next
  assume pos: "0 < piMinThres st
        \<and> (\<forall>ii<rowSz (epRepr st) ! j.
              0 < margPi st ! (colInd (epRepr st) ! (rowOffset (epRepr st) j + ii)))"
  let ?off = "rowOffset (epRepr st) j" and ?n = "rowSz (epRepr st) ! j"
  from pos have "0 \<le> momentRho st j" by (intro momentRho_nonneg) (simp add: less_imp_le)
  then have a: "\<bar>sqrt (momentRho st j)\<bar> = sqrt (momentRho st j)" by simp
  from wf run obtain dEff ret where
    fr: "rowSz (epRepr st') = rowSz (epRepr st)" "colInd (epRepr st') = colInd (epRepr st)"
    and touched: "\<forall>ii<?n. margPi st' ! (colInd (epRepr st) ! (?off + ii))
                  = cavPi st ?off ii + piVals (epRepr st') ! (?off + ii)
        \<and> margBeta st' ! (colInd (epRepr st) ! (?off + ii))
                  = cavBeta st ?off ii + betaVals (epRepr st') ! (?off + ii)
        \<and> \<not> margPi st' ! (colInd (epRepr st) ! (?off + ii)) < 0.5 * piMinThres st"
    by (rule success_state) blast
  have off': "rowOffset (epRepr st') j = ?off" using fr by (simp add: rowOffset_def)
  have "\<forall>ii<?n. 0 \<le> margPi st' ! (colInd (epRepr st) ! (?off + ii))"
  proof (intro allI impI)
    fix ii assume "ii < ?n"
    with touched have "\<not> margPi st' ! (colInd (epRepr st) ! (?off + ii)) < 0.5 * piMinThres st"
      by blast
    with pos show "0 \<le> margPi st' ! (colInd (epRepr st) ! (?off + ii))" by simp
  qed
  then have "0 \<le> momentRho st' j" by (intro momentRho_nonneg) (simp add: fr off')
  then have b: "\<bar>sqrt (momentRho st' j)\<bar> = sqrt (momentRho st' j)" by simp
  show "MAXRELDIFF (sqrt (momentRho st j)) (sqrt (momentRho st' j))
              = \<bar>sqrt (momentRho st j) - sqrt (momentRho st' j)\<bar>
                  / max (sqrt (momentRho st j)) (max (sqrt (momentRho st' j)) (1 / 100000000))"
    unfolding MAXRELDIFF_def a b ..
qed

theorem C9_delta_witness:
  "wellFormed exClamp (Suc 0)
   \<and> sequentialUpdate (Suc 0) 0 True True exClamp
       = (Inr (updSuccess,
               Some (max (MAXRELDIFF 0 0) (MAXRELDIFF (sqrt (1 / 11)) (sqrt (10 / 101)))),
               Some (2 / 5)), exClampAfter)
   \<and> momentH exClamp (Suc 0) = 0 \<and> momentRho exClamp (Suc 0) = 1 / 11
   \<and> momentH exClampAfter (Suc 0) = 0 \<and> momentRho exClampAfter (Suc 0) = 10 / 101
   \<and> 0 < piMinThres exClamp \<and> 0 < margPi exClamp ! 0
   \<and> MAXRELDIFF (sqrt (1 / 11)) (sqrt (10 / 101))
       = \<bar>sqrt (1 / 11) - sqrt (10 / 101)\<bar>
           / max (sqrt (1 / 11)) (max (sqrt (10 / 101)) (1 / 100000000))"
proof -
  have m: "momentH exClamp (Suc 0) = 0" "momentRho exClamp (Suc 0) = 1 / 11"
    "momentH exClampAfter (Suc 0) = 0" "momentRho exClampAfter (Suc 0) = 10 / 101"
    by (simp_all add: momentH_def momentRho_def exClamp_def exClampAfter_def rowOffset_def)
  have p: "0 < piMinThres exClamp" "0 < margPi exClamp ! 0" by (simp_all add: exClamp_def)
  have q: "\<forall>ii<rowSz (epRepr exClamp) ! Suc 0.
              0 < margPi exClamp ! (colInd (epRepr exClamp) ! (rowOffset (epRepr exClamp) (Suc 0) + ii))"
    by (simp add: exClamp_def rowOffset_def)
  from C9_delta [OF exClamp_wellFormed exClamp_run_delta] p(1) q
  have "MAXRELDIFF (sqrt (momentRho exClamp (Suc 0))) (sqrt (momentRho exClampAfter (Suc 0)))
              = \<bar>sqrt (momentRho exClamp (Suc 0)) - sqrt (momentRho exClampAfter (Suc 0))\<bar>
                  / max (sqrt (momentRho exClamp (Suc 0)))
                      (max (sqrt (momentRho exClampAfter (Suc 0))) (1 / 100000000))"
    by blast
  then have "MAXRELDIFF (sqrt (1 / 11)) (sqrt (10 / 101))
       = \<bar>sqrt (1 / 11) - sqrt (10 / 101)\<bar>
           / max (sqrt (1 / 11)) (max (sqrt (10 / 101)) (1 / 100000000))"
    unfolding m .
  with exClamp_wellFormed exClamp_run_delta m p show ?thesis by blast
qed

text \<open>
  C10. The damping factor is checked at entry (line 287), after the entry assertion: for a
  potential of the driver's argument group, a damping factor below \<open>0\<close> or not below
  \<open>1\<close> ends the call with \<open>InvalidParameterException\<close> and the driver as it was
  (the scratch buffer included), and for a damping factor in \<open>[0,1)\<close> the call returns a
  status, so no exception is raised.
\<close>

theorem C10_damping_factor_checked:
  assumes "groupOK st j"
  shows "(d < 0 \<or> 1 \<le> d \<longrightarrow>
            sequentialUpdate j d wd we st = (Inl InvalidParameterException, st))
    \<and> (0 \<le> d \<and> d < 1 \<longrightarrow>
            (\<exists>status delta eff st'.
               sequentialUpdate j d wd we st = (Inr (status, delta, eff), st')))"
  using seqUpd_throw [OF assms] seqUpd_returns [OF assms] by blast

theorem C10_damping_factor_checked_witness:
  "groupOK exUni 0
   \<and> sequentialUpdate 0 1 True True exUni = (Inl InvalidParameterException, exUni)
   \<and> sequentialUpdate 0 (- 1 / 2) False False exUni = (Inl InvalidParameterException, exUni)
   \<and> (\<exists>status delta eff st'.
         sequentialUpdate 0 0 True True exUni = (Inr (status, delta, eff), st'))"
proof -
  have g: "groupOK exUni 0" by (simp add: groupOK_def exUni_def constPotential_def)
  from C10_damping_factor_checked [OF g, of 1 True True]
  have a: "sequentialUpdate 0 1 True True exUni = (Inl InvalidParameterException, exUni)" by simp
  from C10_damping_factor_checked [OF g, of "- 1 / 2" False False]
  have b: "sequentialUpdate 0 (- 1 / 2) False False exUni = (Inl InvalidParameterException, exUni)"
    by simp
  from C10_damping_factor_checked [OF g, of 0 True True]
  have c: "\<exists>status delta eff st'.
         sequentialUpdate 0 0 True True exUni = (Inr (status, delta, eff), st')" by simp
  from g a b c show ?thesis by blast
qed

end
